theory Spec2Isabelle
  imports Complex_Main "HOL-Library.Sublist" "HOL-Library.AList"
begin

section \<open>JavaScript values used by the price floors module\<close>

text \<open>
  A JavaScript number is a double. The module only compares numbers, takes their maximum and
  adds them, so a finite double is modelled by the real it denotes and \<open>NaN\<close> is a value of
  its own. The infinities and the sign of zero are left out.
\<close>

datatype jsnum = Num real | NaN

text \<open>Truthiness of a number: \<open>0\<close> and \<open>NaN\<close> are falsy.\<close>

fun truthy :: "jsnum \<Rightarrow> bool" where
  "truthy (Num x) = (x \<noteq> 0)"
| "truthy NaN = False"

text \<open>The relational operator \<open><\<close>: every comparison with \<open>NaN\<close> is false.\<close>

fun js_lt :: "jsnum \<Rightarrow> jsnum \<Rightarrow> bool" where
  "js_lt (Num a) (Num b) = (a < b)"
| "js_lt _ _ = False"

fun js_add :: "jsnum \<Rightarrow> jsnum \<Rightarrow> jsnum" where
  "js_add (Num a) (Num b) = Num (a + b)"
| "js_add _ _ = NaN"

text \<open>
  \<open>Math.max(a, b)\<close> converts both arguments to numbers; \<open>undefined\<close> (here \<open>None\<close>)
  converts to \<open>NaN\<close>, and the result is \<open>NaN\<close> as soon as one argument is.
\<close>

fun Math_max :: "jsnum \<Rightarrow> jsnum option \<Rightarrow> jsnum" where
  "Math_max (Num a) (Some (Num b)) = Num (max a b)"
| "Math_max _ _ = NaN"

text \<open>Values that a rule table or a \<open>default\<close> entry of a raw configuration can hold.\<close>

datatype jsval = JUndefined | JNull | JNumber jsnum | JString string | JBool bool | JObject

fun isNumber :: "jsval \<Rightarrow> bool" where
  "isNumber (JNumber _) = True"
| "isNumber _ = False"

subsection \<open>Strings\<close>

text \<open>
  \<open>String.prototype.split(separator)\<close> for a string separator: the occurrences of the
  separator are found from left to right without overlap, and the pieces between them are
  returned; a string without occurrence is returned whole, also when it is empty. The
  empty separator cuts the string into its characters.
\<close>

function split_at :: "string \<Rightarrow> string \<Rightarrow> string list" where
  "split_at sep [] = [[]]"
| "split_at sep (c # cs) =
     (if sep \<noteq> [] \<and> prefix sep (c # cs)
      then [] # split_at sep (drop (length sep - 1) cs)
      else (case split_at sep cs of
              [] \<Rightarrow> [[c]]
            | w # ws \<Rightarrow> (c # w) # ws))"
  by pat_completeness auto
termination
  by (relation "measure (\<lambda>(sep, s). length s)") auto

definition split_js :: "string \<Rightarrow> string \<Rightarrow> string list" where
  "split_js s sep = (if sep = [] then map (\<lambda>c. [c]) s else split_at sep s)"

text \<open>\<open>Array.prototype.join(separator)\<close> on an array of strings.\<close>

fun join_js :: "string \<Rightarrow> string list \<Rightarrow> string" where
  "join_js sep [] = []"
| "join_js sep [x] = x"
| "join_js sep (x # y # ys) = x @ sep @ join_js sep (y # ys)"

text \<open>
  \<open>toLowerCase\<close> and \<open>toUpperCase\<close> on the ASCII letters (a \<open>char\<close> is a byte; the other
  bytes are left as they are).
\<close>

definition lower_char :: "char \<Rightarrow> char" where
  "lower_char c =
     (case map_of (zip ''ABCDEFGHIJKLMNOPQRSTUVWXYZ'' ''abcdefghijklmnopqrstuvwxyz'') c of
        None \<Rightarrow> c | Some l \<Rightarrow> l)"

definition upper_char :: "char \<Rightarrow> char" where
  "upper_char c =
     (case map_of (zip ''abcdefghijklmnopqrstuvwxyz'' ''ABCDEFGHIJKLMNOPQRSTUVWXYZ'') c of
        None \<Rightarrow> c | Some u \<Rightarrow> u)"

definition toLowerCase :: "string \<Rightarrow> string" where
  "toLowerCase s = map lower_char s"

definition toUpperCase :: "string \<Rightarrow> string" where
  "toUpperCase s = map upper_char s"

section \<open>The rule matching engine\<close>

text \<open>
  A field of a schema is the hidden symbol \<open>SYN_FIELD\<close> or a named field (\<open>gptSlot\<close>,
  \<open>adUnitCode\<close>, \<open>size\<close>, \<open>domain\<close>, \<open>mediaType\<close>, or one registered by the publisher).
\<close>

datatype field = SYN_FIELD | Named string

datatype js_error = TypeError

text \<open>
  \<open>enumeratePossibleFieldValues\<close>: the argument \<open>resolve\<close> is the table
  \<open>fieldMatchingFunctions\<close> already applied to the request and the response at hand; a
  falsy result (\<open>undefined\<close>, the empty string) is the empty string here.
\<close>

definition enumeratePossibleFieldValues :: "(field \<Rightarrow> string) \<Rightarrow> field list \<Rightarrow> string list list" where
  "enumeratePossibleFieldValues resolve floorFields =
     map (\<lambda>field.
            let exactMatch = (if resolve field = [] then ''*'' else resolve field)
            in if exactMatch = ''*'' then [''*''] else [toLowerCase exactMatch, ''*''])
         floorFields"

text \<open>
  \<open>generatePossibleEnumerations\<close>: \<open>reduce\<close> without an initial value starts from the
  first option list and throws a \<open>TypeError\<close> on the empty array. \<open>Array.prototype.sort\<close>
  is stable, and the comparator is the difference of a key, so the result is the stable
  sort by that key: the number of pieces that \<open>split('*')\<close> gives.
\<close>

definition combine :: "string \<Rightarrow> string list \<Rightarrow> string list \<Rightarrow> string list" where
  "combine delimiter accum currentVal =
     concat (map (\<lambda>obj. map (\<lambda>obj1. obj @ delimiter @ obj1) currentVal) accum)"

definition generated :: "string list \<Rightarrow> string list list \<Rightarrow> string \<Rightarrow> string list" where
  "generated first rest delimiter = foldl (combine delimiter) first rest"

definition generatePossibleEnumerations :: "string list list \<Rightarrow> string \<Rightarrow> js_error + string list" where
  "generatePossibleEnumerations arrayOfFields delimiter =
     (case arrayOfFields of
        [] \<Rightarrow> Inl TypeError
      | first # rest \<Rightarrow>
          Inr (sort_key (\<lambda>left. length (split_js left ''*'')) (generated first rest delimiter)))"


text \<open>
  The number of wildcard segments of a key: the segments that \<open>split(delimiter)\<close> gives
  and that are the wildcard \<open>*\<close> itself.
\<close>

definition wildcards :: "string \<Rightarrow> string \<Rightarrow> nat" where
  "wildcards delimiter key =
     length (filter (\<lambda>segment. segment = ''*'') (split_js key delimiter))"

subsection \<open>Catalogs, requests and match results\<close>

text \<open>
  The object that \<open>getFirstMatchingFloor\<close> builds and stores: \<open>floorMin\<close>,
  \<open>floorRuleValue\<close>, \<open>matchingData\<close>, \<open>matchingRule\<close> and \<open>matchingFloor\<close>. An
  \<open>undefined\<close> property is \<open>None\<close>.
\<close>

record floorInfo =
  floorMin :: jsnum
  floorRuleValue :: "jsnum option"
  matchingData :: "string option"
  matchingRule :: "string option"
  matchingFloor :: jsnum

text \<open>
  The function returns \<open>{matchingFloor: undefined}\<close> when the catalog declares no field,
  and a full object otherwise.
\<close>

datatype matchResult = NoFields | Matched floorInfo

text \<open>
  The catalog of one auction (\<open>floorData.data\<close>): the schema, the rule table (the keys are
  unique, as the properties of an object are), the currency, \<open>floorMin\<close>,
  \<open>meta.defaultRule\<close>, \<open>skipRate\<close> and the memo \<open>matchingInputs\<close>.

  Modelled from the spec: \<open>deepAccess\<close> and \<open>deepSetValue\<close> come from \<open>src/utils.js\<close>,
  which is not among the sources. The memo they read and write under
  \<open>matchingInputs.<key>\<close> is the spec's "internal match-memoization map attached to" the
  catalog: a table from the memoization key to the stored result.
\<close>

record floorsCatalog =
  schema_fields :: "field list option"
  schema_delimiter :: "string option"
  rule_values :: "(string \<times> jsnum) list"
  currency :: string
  data_floorMin :: "jsnum option"
  meta_defaultRule :: "string option"
  data_skipRate :: "jsnum option"
  matchingInputs :: "(string \<times> floorInfo) list"

text \<open>
  A bid request, as far as the module reads it: the auction, the bidder, the media types
  with the sizes that \<open>getMediaTypesSizes\<close> finds for each, and
  \<open>ortb2Imp.ext.prebid.floors.floorMin\<close> when it is a number.
\<close>

record bidRequest =
  req_auctionId :: string
  req_bidder :: string
  req_mediaTypes :: "(string \<times> string list) list"
  ortb2Imp_floorMin :: "jsnum option"

record enforcement =
  enforceJS :: "bool option"
  enforcePBS :: "bool option"
  floorDeals :: "bool option"
  bidAdjustment :: "bool option"
  noFloorSignalBidders :: "string list"

text \<open>The \<open>floorData\<close> object that the enforcement hook attaches to a bid.\<close>

record bidFloorData =
  floorValue :: jsnum
  floorRule :: "string option"
  bid_floorRuleValue :: "jsnum option"
  floorCurrency :: string
  cpmAfterAdjustments :: jsnum
  enforcements :: enforcement
  matchedFields :: "(field \<times> string option) list"

text \<open>A bid response; an unset string property is the empty string.\<close>

record bidResponse =
  bid_auctionId :: string
  bidderCode :: string
  cpm :: jsnum
  bid_currency :: string
  originalCpm :: jsnum
  originalCurrency :: string
  dealId :: string
  bid_mediaType :: string
  width :: nat
  height :: nat
  bid_floorData :: "bidFloorData option"

text \<open>
  The response object handed to the field matching functions: the bid with its size
  (\<open>{...bid, size: [bid.width, bid.height]}\<close>) in the enforcement hook, the media type and
  the size asked for in \<open>getFloor\<close>.
\<close>

datatype responseObject = BidContext bidResponse | FloorContext string string

text \<open>The floor data of one auction (an entry of \<open>_floorDataForAuction\<close>).\<close>

record auctionFloorData =
  floors_data :: floorsCatalog
  floors_enforcement :: enforcement
  skipped :: bool

text \<open>
  What the module calls outside itself: the index of bid requests, the currency
  conversion of the global object (which throws when it cannot convert: \<open>None\<close>), the
  bidder's cpm adjustment (\<open>parseFloat(adjustCpm(...))\<close>, a number), the publisher's
  \<open>inverseBidAdjustment\<close> of a bidder and the rounding \<open>roundUp(_, 4)\<close>, which is floating
  point arithmetic.
\<close>

record externals =
  getBidRequest :: "bidResponse \<Rightarrow> bidRequest option"
  convertCurrency :: "jsnum \<Rightarrow> string \<Rightarrow> string \<Rightarrow> jsnum option"
  adjustCpm :: "jsnum \<Rightarrow> bidResponse option \<Rightarrow> bidRequest option \<Rightarrow> jsnum"
  inverseBidAdjustment :: "string \<Rightarrow> (jsnum \<Rightarrow> bidRequest \<Rightarrow> jsnum) option"
  roundUp4 :: "jsnum \<Rightarrow> jsnum"

subsection \<open>\<open>getFirstMatchingFloor\<close>\<close>

text \<open>\<open>field[0]\<close>; \<open>join\<close> writes an \<open>undefined\<close> element as the empty string.\<close>

definition first_value :: "string list \<Rightarrow> string" where
  "first_value options = (case options of [] \<Rightarrow> [] | v # _ \<Rightarrow> v)"

definition matchingInput :: "string list list \<Rightarrow> string" where
  "matchingInput fieldValues = join_js ''-'' (map first_value fieldValues)"

text \<open>\<open>deepAccess(floorData, 'schema.delimiter') || '|'\<close>.\<close>

definition delimiter_of :: "string option \<Rightarrow> string" where
  "delimiter_of d = (case d of None \<Rightarrow> ''|'' | Some x \<Rightarrow> if x = [] then ''|'' else x)"

text \<open>
  The argument \<open>fmf\<close> is the table \<open>fieldMatchingFunctions\<close>: its entries read the ad
  server's slot data, the page's host name and the publisher's own functions, all outside
  the module. The property read \<open>floorData.values[matchingRule]\<close> converts its key to a
  string, so that without a matching rule it reads the property named \<open>undefined\<close>.
\<close>

definition getFirstMatchingFloor ::
  "(field \<Rightarrow> bidRequest option \<Rightarrow> responseObject \<Rightarrow> string) \<Rightarrow> floorsCatalog \<Rightarrow>
   bidRequest option \<Rightarrow> responseObject \<Rightarrow> js_error + matchResult \<times> floorsCatalog" where
  "getFirstMatchingFloor fmf floorData bidObject responseObject =
     (let fieldValues =
            enumeratePossibleFieldValues (\<lambda>field. fmf field bidObject responseObject)
              (case schema_fields floorData of None \<Rightarrow> [] | Some fs \<Rightarrow> fs)
      in if fieldValues = [] then Inr (NoFields, floorData)
         else
           (case map_of (matchingInputs floorData) (matchingInput fieldValues) of
              Some previousMatch \<Rightarrow> Inr (Matched previousMatch, floorData)
            | None \<Rightarrow>
                (case generatePossibleEnumerations fieldValues
                        (delimiter_of (schema_delimiter floorData)) of
                   Inl e \<Rightarrow> Inl e
                 | Inr allPossibleMatches \<Rightarrow>
                     let rule = find (\<lambda>hashValue. map_of (rule_values floorData) hashValue \<noteq> None)
                                  allPossibleMatches;
                         catalogMin = (case data_floorMin floorData of
                                         None \<Rightarrow> Num 0
                                       | Some n \<Rightarrow> if truthy n then n else Num 0);
                         ruleValue = map_of (rule_values floorData)
                                       (case rule of None \<Rightarrow> ''undefined'' | Some k \<Rightarrow> k);
                         minFloor = (case (case bidObject of None \<Rightarrow> None
                                           | Some b \<Rightarrow> ortb2Imp_floorMin b) of
                                       None \<Rightarrow> catalogMin
                                     | Some n \<Rightarrow> n);
                         info = \<lparr>floorMin = minFloor,
                                 floorRuleValue = ruleValue,
                                 matchingData = (case allPossibleMatches of
                                                   [] \<Rightarrow> None | k # _ \<Rightarrow> Some k),
                                 matchingRule = (if rule = meta_defaultRule floorData
                                                 then None else rule),
                                 matchingFloor = Math_max minFloor ruleValue\<rparr>
                     in Inr (Matched info,
                             floorData\<lparr>matchingInputs :=
                               AList.update (matchingInput fieldValues) info
                                 (matchingInputs floorData)\<rparr>))))"

section \<open>The floor enforcement pipeline\<close>

definition getBiddersCpmAdjustment ::
  "externals \<Rightarrow> jsnum \<Rightarrow> bidResponse option \<Rightarrow> bidRequest option \<Rightarrow> jsnum" where
  "getBiddersCpmAdjustment ext inputCpm bid request =
     adjustCpm ext inputCpm (map_option (\<lambda>b. b\<lparr>cpm := inputCpm\<rparr>) bid) request"

text \<open>\<open>array[index]\<close>, \<open>undefined\<close> out of range.\<close>

definition item :: "'a list \<Rightarrow> nat \<Rightarrow> 'a option" where
  "item xs i = (if i < length xs then Some (xs ! i) else None)"

text \<open>
  \<open>addFloorDataToBid\<close>: \<open>floorInfo.matchingData.split\<close> throws on an \<open>undefined\<close>
  \<open>matchingData\<close> as soon as the schema has a field; \<open>split(undefined)\<close> returns the
  whole string as the only piece. The loop sets the property \<open>matchedFields[field]\<close> for
  one field after the other.
\<close>

definition addFloorDataToBid ::
  "auctionFloorData \<Rightarrow> floorInfo \<Rightarrow> bidResponse \<Rightarrow> jsnum \<Rightarrow> js_error + bidResponse" where
  "addFloorDataToBid floorData info bid adjustedCpm =
     (let fs = (case schema_fields (floors_data floorData) of None \<Rightarrow> [] | Some fs \<Rightarrow> fs);
          attach = (\<lambda>matched. bid\<lparr>bid_floorData := Some
                      \<lparr>floorValue = matchingFloor info,
                       floorRule = matchingRule info,
                       bid_floorRuleValue = floorRuleValue info,
                       floorCurrency = currency (floors_data floorData),
                       cpmAfterAdjustments = adjustedCpm,
                       enforcements = floors_enforcement floorData,
                       matchedFields = matched\<rparr>\<rparr>)
      in case matchingData info of
           None \<Rightarrow> if fs = [] then Inr (attach []) else Inl TypeError
         | Some key \<Rightarrow>
             Inr (attach
               (AList.updates fs
                  (map (item (case schema_delimiter (floors_data floorData) of
                                None \<Rightarrow> [key]
                              | Some d \<Rightarrow> split_js key d))
                       [0..<length fs])
                  [])))"

text \<open>\<open>shouldFloorBid\<close> reads \<open>bid.floorData.cpmAfterAdjustments\<close>.\<close>

definition shouldFloorBid :: "auctionFloorData \<Rightarrow> floorInfo \<Rightarrow> bidResponse \<Rightarrow> js_error + bool" where
  "shouldFloorBid floorData info bid =
     (case bid_floorData bid of
        None \<Rightarrow> Inl TypeError
      | Some fd \<Rightarrow>
          let enforce = (enforceJS (floors_enforcement floorData) \<noteq> Some False);
              shouldFloorDeal = (floorDeals (floors_enforcement floorData) = Some True \<or> dealId bid = []);
              bidBelowFloor = js_lt (cpmAfterAdjustments fd) (matchingFloor info)
          in Inr (enforce \<and> (bidBelowFloor \<and> shouldFloorDeal)))"

text \<open>
  The cpm of the bid in the currency of the floor, before the bidder's adjustment: the
  bid's cpm, its original cpm, or the converted cpm; \<open>None\<close> when the conversion throws.
\<close>

definition cpmInFloorCurrency :: "externals \<Rightarrow> auctionFloorData \<Rightarrow> bidResponse \<Rightarrow> jsnum option" where
  "cpmInFloorCurrency ext floorData bid =
     (let floorCur = toUpperCase (currency (floors_data floorData));
          bidResponseCurrency = (if bid_currency bid = [] then ''USD'' else bid_currency bid)
      in if floorCur = toUpperCase bidResponseCurrency then Some (cpm bid)
         else if originalCurrency bid \<noteq> [] \<and> floorCur = toUpperCase (originalCurrency bid)
              then Some (originalCpm bid)
         else convertCurrency ext (cpm bid) (toUpperCase bidResponseCurrency) floorCur)"

datatype rejection_reason = FLOOR_NOT_MET

text \<open>
  What the hook does with the bid: \<open>fn.call(this, adUnitCode, bid, reject)\<close>, the normal
  pipeline, or \<open>reject(reason)\<close>.
\<close>

datatype hook_action = Continue string | Rejected rejection_reason

text \<open>
  \<open>addBidResponseHook\<close> returns what it did, the bid as it left it, and the table
  \<open>_floorDataForAuction\<close> (the match writes the memo of the auction's catalog).
\<close>

definition addBidResponseHook ::
  "externals \<Rightarrow> (field \<Rightarrow> bidRequest option \<Rightarrow> responseObject \<Rightarrow> string) \<Rightarrow>
   (string \<rightharpoonup> auctionFloorData) \<Rightarrow> string \<Rightarrow> bidResponse \<Rightarrow>
   js_error + hook_action \<times> bidResponse \<times> (string \<rightharpoonup> auctionFloorData)" where
  "addBidResponseHook ext fmf floorDataForAuction adUnitCode bid =
     (case floorDataForAuction (bid_auctionId bid) of
        None \<Rightarrow> Inr (Continue adUnitCode, bid, floorDataForAuction)
      | Some floorData \<Rightarrow>
          if skipped floorData then Inr (Continue adUnitCode, bid, floorDataForAuction)
          else
            (case getFirstMatchingFloor fmf (floors_data floorData) (getBidRequest ext bid)
                    (BidContext bid) of
               Inl e \<Rightarrow> Inl e
             | Inr (result, data') \<Rightarrow>
                 let floorData' = floorData\<lparr>floors_data := data'\<rparr>;
                     table = floorDataForAuction(bid_auctionId bid \<mapsto> floorData')
                 in (case result of
                       NoFields \<Rightarrow> Inr (Continue adUnitCode, bid, table)
                     | Matched info \<Rightarrow>
                         if \<not> truthy (matchingFloor info)
                         then Inr (Continue adUnitCode, bid, table)
                         else
                           (case cpmInFloorCurrency ext floorData' bid of
                              None \<Rightarrow> Inr (Continue adUnitCode, bid, table)
                            | Some baseCpm \<Rightarrow>
                                (case addFloorDataToBid floorData' info bid
                                        (getBiddersCpmAdjustment ext baseCpm (Some bid)
                                           (getBidRequest ext bid)) of
                                   Inl e \<Rightarrow> Inl e
                                 | Inr bid' \<Rightarrow>
                                     (case shouldFloorBid floorData' info bid' of
                                        Inl e \<Rightarrow> Inl e
                                      | Inr floored \<Rightarrow>
                                          if floored
                                          then Inr (Rejected FLOOR_NOT_MET, bid', table)
                                          else Inr (Continue adUnitCode, bid', table)))))))"


section \<open>The floor query of a bidder\<close>

text \<open>
  \<open>calculateAdjustedFloor\<close>, over the reals: the scaling by \<open>10^10\<close> cancels, and the
  rounding of the floating point operations is not modelled. A division by zero, which
  gives an infinity, is \<open>NaN\<close> here; \<open>getFloor\<close> never divides by zero.
\<close>

fun js_mul :: "jsnum \<Rightarrow> jsnum \<Rightarrow> jsnum" where
  "js_mul (Num a) (Num b) = Num (a * b)"
| "js_mul _ _ = NaN"

fun js_div :: "jsnum \<Rightarrow> jsnum \<Rightarrow> jsnum" where
  "js_div (Num a) (Num b) = (if b = 0 then NaN else Num (a / b))"
| "js_div _ _ = NaN"

definition calculateAdjustedFloor :: "jsnum \<Rightarrow> jsnum \<Rightarrow> jsnum" where
  "calculateAdjustedFloor oldFloor newFloor =
     (let pow = Num (10 ^ 10)
      in js_div (js_mul (js_div (js_mul oldFloor pow) (js_mul newFloor pow))
                        (js_mul oldFloor pow)) pow)"

text \<open>The parameters of \<open>getFloor\<close>; the size is written as the field \<open>size\<close> resolves it.\<close>

record requestParams =
  rp_currency :: string
  rp_mediaType :: string
  rp_size :: string

text \<open>
  \<open>updateRequestParamsFromContext\<close>: \<open>req_mediaTypes\<close> lists the media types of the bid
  with the sizes that \<open>getMediaTypesSizes\<close> gives, which knows \<open>banner\<close>, \<open>video\<close> and
  \<open>native\<close>.
\<close>

definition updateRequestParamsFromContext :: "bidRequest \<Rightarrow> requestParams \<Rightarrow> requestParams" where
  "updateRequestParamsFromContext bidRequest params =
     (let mediaTypesOnBid = map fst (req_mediaTypes bidRequest);
          p1 = (case mediaTypesOnBid of
                  [only] \<Rightarrow> if rp_mediaType params = ''*''
                            then params\<lparr>rp_mediaType := only\<rparr> else params
                | _ \<Rightarrow> params)
      in if rp_size p1 = ''*'' \<and> rp_mediaType p1 \<in> set mediaTypesOnBid
            \<and> rp_mediaType p1 \<in> {''banner'', ''video'', ''native''}
         then (case map_of (req_mediaTypes bidRequest) (rp_mediaType p1) of
                 Some [only] \<Rightarrow> p1\<lparr>rp_size := only\<rparr>
               | _ \<Rightarrow> p1)
         else p1)"

text \<open>\<open>getFloor\<close> returns \<open>{floor, currency}\<close>, or the empty object: \<open>None\<close>.\<close>

definition getFloor ::
  "externals \<Rightarrow> (field \<Rightarrow> bidRequest option \<Rightarrow> responseObject \<Rightarrow> string) \<Rightarrow>
   (string \<rightharpoonup> auctionFloorData) \<Rightarrow> bidRequest \<Rightarrow> requestParams \<Rightarrow>
   js_error + (jsnum \<times> string) option \<times> (string \<rightharpoonup> auctionFloorData)" where
  "getFloor ext fmf floorDataForAuction bidRequest requestParams =
     (case floorDataForAuction (req_auctionId bidRequest) of
        None \<Rightarrow> Inr (None, floorDataForAuction)
      | Some floorData \<Rightarrow>
          if skipped floorData then Inr (None, floorDataForAuction)
          else
            let params = updateRequestParamsFromContext bidRequest requestParams in
            (case getFirstMatchingFloor fmf (floors_data floorData) (Some bidRequest)
                    (FloorContext (rp_mediaType params) (rp_size params)) of
               Inl e \<Rightarrow> Inl e
             | Inr (result, data') \<Rightarrow>
                 let table = floorDataForAuction
                       (req_auctionId bidRequest \<mapsto> floorData\<lparr>floors_data := data'\<rparr>);
                     dataCurrency = currency (floors_data floorData);
                     wanted = (if rp_currency params = [] then dataCurrency
                               else rp_currency params)
                 in (case result of
                       NoFields \<Rightarrow> Inr (None, table)
                     | Matched info \<Rightarrow>
                         if \<not> truthy (matchingFloor info) then Inr (None, table)
                         else
                           let (floor1, cur) =
                                 (if wanted \<noteq> dataCurrency
                                  then (case convertCurrency ext (matchingFloor info)
                                                dataCurrency wanted of
                                          None \<Rightarrow> (matchingFloor info, dataCurrency)
                                        | Some converted \<Rightarrow> (converted, wanted))
                                  else (matchingFloor info, wanted));
                               floor2 =
                                 (if bidAdjustment (floors_enforcement floorData) = Some True
                                     \<and> truthy floor1
                                  then (case inverseBidAdjustment ext (req_bidder bidRequest) of
                                          Some inverseFunction \<Rightarrow> inverseFunction floor1 bidRequest
                                        | None \<Rightarrow>
                                            let cpmAdjustment =
                                                  getBiddersCpmAdjustment ext floor1 None
                                                    (Some bidRequest)
                                            in if truthy cpmAdjustment
                                               then calculateAdjustedFloor floor1 cpmAdjustment
                                               else floor1)
                                  else floor1)
                           in if truthy floor2 then Inr (Some (roundUp4 ext floor2, cur), table)
                              else Inr (None, table))))"

section \<open>The rule catalog validator\<close>

text \<open>
  A raw configuration comes from \<open>setConfig\<close>, from an ad unit or from the parsed response
  of a fetch, and its properties can hold anything. A primitive is a boolean, a number or a
  string; \<open>false\<close>, \<open>0\<close>, \<open>NaN\<close> and the empty string are falsy.
\<close>

datatype primitive = PBool bool | PNumber jsnum | PString string

fun truthy_primitive :: "primitive \<Rightarrow> bool" where
  "truthy_primitive (PBool b) = b"
| "truthy_primitive (PNumber n) = truthy n"
| "truthy_primitive (PString s) = (s \<noteq> [])"

text \<open>
  The \<open>values\<close> of a raw configuration: missing or \<open>undefined\<close>, \<open>null\<close>, a primitive, or an
  object, which is read through \<open>Object.keys\<close> and is a table from keys to values in which
  every key stands once (an array is the table of its indices).
\<close>

datatype rules = NoRules | NullRules | PrimitiveRules primitive | Rules "(string \<times> jsval) list"

text \<open>
  \<open>schema.fields\<close> of a raw configuration: missing, \<open>undefined\<close> or \<open>null\<close> (also when the
  configuration has no \<open>schema\<close>), a primitive, or an array of fields. An object that is
  not an array, and an array with an entry that is neither a string nor the symbol, are
  not covered.
\<close>

datatype schemaFields = NoSchemaFields | PrimitiveFields primitive | FieldsArray "field list"

text \<open>
  A model as the validator reads and writes it: \<open>schema.fields\<close>, \<open>schema.delimiter\<close> (a
  string when present), \<open>values\<close>, \<open>default\<close>, \<open>meta.defaultRule\<close> and \<open>modelWeight\<close>. A
  configuration of schema version 2 carries \<open>modelGroups\<close> and gets \<open>modelWeightSum\<close>.
\<close>

record floorsModel =
  m_fields :: schemaFields
  m_delimiter :: "string option"
  m_values :: rules
  m_default :: jsval
  m_defaultRule :: "string option"
  modelWeight :: jsval

record floorsData = floorsModel +
  floorsSchemaVersion :: "nat option"
  modelGroups :: "floorsModel list option"
  modelWeightSum :: "jsnum option"

definition validateSchemaFields :: "field list \<Rightarrow> schemaFields \<Rightarrow> bool" where
  "validateSchemaFields allowedFields schemaFields =
     (case schemaFields of
        FieldsArray fs \<Rightarrow> fs \<noteq> [] \<and> list_all (\<lambda>field. field \<in> set allowedFields) fs
      | _ \<Rightarrow> False)"

text \<open>The keys of an object are strings, so \<open>typeof key !== 'string'\<close> never holds.\<close>

definition isValidRule :: "string \<Rightarrow> jsval \<Rightarrow> nat \<Rightarrow> string \<Rightarrow> bool" where
  "isValidRule key ruleFloor numFields delimiter =
     (if length (split_js key delimiter) \<noteq> numFields then False else isNumber ruleFloor)"

text \<open>
  \<open>validateRules\<close>: \<open>typeof\<close> is \<open>object\<close> for an object and for \<open>null\<close>, and
  \<open>Object.keys(null)\<close> throws. The reduction copies the entries that are valid rules into
  a new object, in their order.
\<close>

definition validateRules ::
  "'a floorsModel_scheme \<Rightarrow> nat \<Rightarrow> string \<Rightarrow> js_error + bool \<times> 'a floorsModel_scheme" where
  "validateRules floorsData numFields delimiter =
     (case m_values floorsData of
        NoRules \<Rightarrow> Inr (False, floorsData)
      | PrimitiveRules p \<Rightarrow> Inr (False, floorsData)
      | NullRules \<Rightarrow> Inl TypeError
      | Rules rs \<Rightarrow>
          let filteredRules =
                filter (\<lambda>(key, ruleFloor). isValidRule key ruleFloor numFields delimiter) rs
          in Inr (filteredRules \<noteq> [], floorsData\<lparr>m_values := Rules filteredRules\<rparr>))"

text \<open>
  \<open>(model.schema?.fields || []).length\<close>: the length of an array and of a string; the
  falsy values give the empty array, and a boolean and a number have no \<open>length\<close>, which
  is \<open>undefined\<close> and passes the test \<open>!numFields\<close> as 0 does.
\<close>

definition numFields_of :: "schemaFields \<Rightarrow> nat" where
  "numFields_of schemaFields =
     (case schemaFields of
        FieldsArray fs \<Rightarrow> length fs
      | PrimitiveFields (PString s) \<Rightarrow> length s
      | _ \<Rightarrow> 0)"

text \<open>The key of the default rule: as many \<open>*\<close> as the schema has fields, joined.\<close>

definition defaultRule :: "'a floorsModel_scheme \<Rightarrow> string" where
  "defaultRule model =
     (let numFields = numFields_of (m_fields model)
      in if numFields = 0 then ''*''
         else join_js (delimiter_of (m_delimiter model)) (replicate numFields ''*''))"

text \<open>\<open>x == null\<close> holds for a missing property, for \<open>undefined\<close> and for \<open>null\<close>.\<close>

definition is_nullish :: "jsval option \<Rightarrow> bool" where
  "is_nullish v = (v = None \<or> v = Some JUndefined \<or> v = Some JNull)"

text \<open>
  \<open>normalizeDefault\<close>. \<open>model.values || {}\<close> keeps an object and a truthy primitive. A
  primitive has no property under the key of the default rule (the key has a \<open>*\<close> in it),
  so the test \<open>== null\<close> holds for it, and the assignment of a property to a primitive
  throws a \<open>TypeError\<close>: the module is an ES module and runs in strict mode.
\<close>

definition normalizeDefault :: "'a floorsModel_scheme \<Rightarrow> js_error + 'a floorsModel_scheme" where
  "normalizeDefault model =
     (if isNumber (m_default model)
      then
        let numFields = numFields_of (m_fields model);
            model1 = (if numFields = 0 then model\<lparr>m_fields := FieldsArray [SYN_FIELD]\<rparr> else model)
        in case (case m_values model of
                   NoRules \<Rightarrow> Rules []
                 | NullRules \<Rightarrow> Rules []
                 | PrimitiveRules p \<Rightarrow> if truthy_primitive p then PrimitiveRules p else Rules []
                 | Rules rs \<Rightarrow> Rules rs) of
             Rules rs \<Rightarrow>
               if is_nullish (map_of rs (defaultRule model))
               then Inr (model1\<lparr>m_values :=
                                  Rules (AList.update (defaultRule model) (m_default model) rs),
                                m_defaultRule := Some (defaultRule model)\<rparr>)
               else Inr (model1\<lparr>m_values := Rules rs\<rparr>)
           | _ \<Rightarrow> Inl TypeError
      else Inr model)"

text \<open>\<open>modelIsValid\<close>; after \<open>validateSchemaFields\<close> the fields are an array.\<close>

definition modelIsValid ::
  "field list \<Rightarrow> 'a floorsModel_scheme \<Rightarrow> js_error + bool \<times> 'a floorsModel_scheme" where
  "modelIsValid allowedFields model0 =
     (case normalizeDefault model0 of
        Inl e \<Rightarrow> Inl e
      | Inr model \<Rightarrow>
          if \<not> validateSchemaFields allowedFields (m_fields model) then Inr (False, model)
          else validateRules model (numFields_of (m_fields model))
                 (delimiter_of (m_delimiter model)))"

text \<open>
  \<open>data.modelGroups.every(...)\<close> of schema version 2: the loop stops at the first model
  that has no numeric weight or is not valid; the models before it have been normalized
  and filtered, and their weights added.
\<close>

fun every_model ::
  "field list \<Rightarrow> floorsModel list \<Rightarrow> jsnum \<Rightarrow> js_error + bool \<times> floorsModel list \<times> jsnum" where
  "every_model allowedFields [] weightSum = Inr (True, [], weightSum)"
| "every_model allowedFields (model # rest) weightSum =
     (case modelWeight model of
        JNumber weight \<Rightarrow>
          (case modelIsValid allowedFields model of
             Inl e \<Rightarrow> Inl e
           | Inr (valid, model') \<Rightarrow>
               if valid
               then (case every_model allowedFields rest (js_add weightSum weight) of
                       Inl e \<Rightarrow> Inl e
                     | Inr (allValid, rest', weightSum') \<Rightarrow>
                         Inr (allValid, model' # rest', weightSum'))
               else Inr (False, model' # rest, weightSum))
      | _ \<Rightarrow> Inr (False, model # rest, weightSum))"

definition validateSchema2 :: "field list \<Rightarrow> floorsData \<Rightarrow> js_error + bool \<times> floorsData" where
  "validateSchema2 allowedFields data =
     (case modelGroups data of
        None \<Rightarrow> Inr (False, data)
      | Some [] \<Rightarrow> Inr (False, data)
      | Some groups \<Rightarrow>
          (case every_model allowedFields groups (Num 0) of
             Inl e \<Rightarrow> Inl e
           | Inr (allValid, groups', weightSum) \<Rightarrow>
               Inr (allValid,
                    data\<lparr>modelGroups := Some groups', modelWeightSum := Some weightSum\<rparr>)))"

text \<open>
  \<open>isFloorsDataValid\<close>, for an object: a missing or zero \<open>floorsSchemaVersion\<close> becomes 1,
  and a version other than 1 and 2 is refused.
\<close>

definition isFloorsDataValid :: "field list \<Rightarrow> floorsData \<Rightarrow> js_error + bool \<times> floorsData" where
  "isFloorsDataValid allowedFields floorsData0 =
     (let version = (case floorsSchemaVersion floorsData0 of
                       None \<Rightarrow> 1 | Some v \<Rightarrow> if v = 0 then 1 else v);
          floorsData = floorsData0\<lparr>floorsSchemaVersion := Some version\<rparr>
      in if version = 1 then modelIsValid allowedFields floorsData
         else if version = 2 then validateSchema2 allowedFields floorsData
         else Inr (False, floorsData))"

text \<open>
  \<open>parseFloorData\<close>: \<open>None\<close> is a value that is falsy or no object, and the result
  \<open>undefined\<close>; the property \<open>location\<close> of the result is left out.
\<close>

definition parseFloorData :: "field list \<Rightarrow> floorsData option \<Rightarrow> js_error + floorsData option" where
  "parseFloorData allowedFields floorsData =
     (case floorsData of
        None \<Rightarrow> Inr None
      | Some d \<Rightarrow>
          (case isFloorsDataValid allowedFields d of
             Inl e \<Rightarrow> Inl e
           | Inr (valid, d') \<Rightarrow> Inr (if valid then Some d' else None)))"

text \<open>The fields that are allowed when the publisher has registered none.\<close>

definition allowedFields :: "field list" where
  "allowedFields =
     [SYN_FIELD, Named ''gptSlot'', Named ''adUnitCode'', Named ''size'', Named ''domain'',
      Named ''mediaType'']"

text \<open>
  The rules of a model; whether the default of a model is settled (the model has no
  numeric \<open>default\<close>, or its rule table has a rule under the key of the default rule);
  whether every rule of one model, or of one configuration and of its model groups, is a
  rule of another, with its value.
\<close>

definition rules_of :: "'a floorsModel_scheme \<Rightarrow> (string \<times> jsval) list" where
  "rules_of model = (case m_values model of Rules rs \<Rightarrow> rs | _ \<Rightarrow> [])"

definition default_settled :: "'a floorsModel_scheme \<Rightarrow> bool" where
  "default_settled model =
     (isNumber (m_default model) \<longrightarrow> map_of (rules_of model) (defaultRule model) \<noteq> None)"

definition rules_kept :: "'a floorsModel_scheme \<Rightarrow> 'b floorsModel_scheme \<Rightarrow> bool" where
  "rules_kept model model' = (set (rules_of model) \<subseteq> set (rules_of model'))"

definition groups_of :: "floorsData \<Rightarrow> floorsModel list" where
  "groups_of data = (case modelGroups data of None \<Rightarrow> [] | Some groups \<Rightarrow> groups)"

definition catalog_kept :: "floorsData \<Rightarrow> floorsData \<Rightarrow> bool" where
  "catalog_kept data data' =
     (rules_kept data data' \<and> list_all2 rules_kept (groups_of data) (groups_of data'))"

definition catalog_settled :: "floorsData \<Rightarrow> bool" where
  "catalog_settled data =
     (if floorsSchemaVersion data = Some 2 then list_all default_settled (groups_of data)
      else default_settled data)"

text \<open>
  What an accepted model looks like: a non-empty list of allowed fields and a non-empty
  rule table of valid rules.
\<close>

definition validated :: "field list \<Rightarrow> 'a floorsModel_scheme \<Rightarrow> bool" where
  "validated allowed model =
     (case (m_fields model, m_values model) of
        (FieldsArray fs, Rules rs) \<Rightarrow>
          fs \<noteq> [] \<and> list_all (\<lambda>field. field \<in> set allowed) fs \<and> rs \<noteq> [] \<and>
          list_all (\<lambda>(key, v). isValidRule key v (length fs) (delimiter_of (m_delimiter model))) rs
      | _ \<Rightarrow> False)"

section \<open>The auction floor resolver\<close>

text \<open>
  The module's configuration \<open>_floorsConfig\<close>, as far as the resolver reads it. Its
  \<open>data\<close> has passed the validator, so the rule values are numbers; with schema version 2
  it carries the model groups, each with its \<open>modelWeight\<close>, and their weight sum.
\<close>

record weightedModel = floorsCatalog +
  group_modelWeight :: jsnum

record configData = floorsCatalog +
  cfg_schemaVersion :: nat
  cfg_modelGroups :: "weightedModel list"
  cfg_modelWeightSum :: jsnum

record floorsConfig =
  config_data :: "configData option"
  config_skipRate :: "jsnum option"
  config_floorMin :: "jsnum option"
  config_enforcement :: enforcement

text \<open>\<open>a <= 0\<close> and \<open>a - b\<close> on numbers.\<close>

fun js_le_zero :: "jsnum \<Rightarrow> bool" where
  "js_le_zero (Num a) = (a \<le> 0)"
| "js_le_zero NaN = False"

fun js_sub :: "jsnum \<Rightarrow> jsnum \<Rightarrow> jsnum" where
  "js_sub (Num a) (Num b) = Num (a - b)"
| "js_sub _ _ = NaN"

text \<open>
  \<open>pickRandomModel\<close>: \<open>random\<close> is the value of \<open>Math.random()\<close>. The loop returns the
  first model at which the running value is at or below zero, and \<open>undefined\<close> when
  there is none.
\<close>

fun pick_from :: "jsnum \<Rightarrow> weightedModel list \<Rightarrow> weightedModel option" where
  "pick_from running [] = None"
| "pick_from running (model # rest) =
     (if js_le_zero (js_sub running (group_modelWeight model)) then Some model
      else pick_from (js_sub running (group_modelWeight model)) rest)"

definition pickRandomModel :: "weightedModel list \<Rightarrow> jsnum \<Rightarrow> real \<Rightarrow> weightedModel option" where
  "pickRandomModel groups weightSum random =
     pick_from (case weightSum of
                  Num w \<Rightarrow> Num (of_int \<lfloor>random * w + 1\<rfloor>)
                | NaN \<Rightarrow> NaN) groups"

text \<open>
  \<open>Object.assign(rest, model)\<close>: the properties of the picked model replace those of the
  rest of the data; a validated model has a schema and values, and the other properties
  replace when the model has them.
\<close>

definition assign_model :: "floorsCatalog \<Rightarrow> weightedModel option \<Rightarrow> floorsCatalog" where
  "assign_model rest picked =
     (case picked of
        None \<Rightarrow> rest
      | Some model \<Rightarrow>
          rest\<lparr>schema_fields := schema_fields model,
               schema_delimiter := schema_delimiter model,
               rule_values := rule_values model,
               currency := (if currency model = [] then currency rest else currency model),
               data_floorMin := (case data_floorMin model of
                                   None \<Rightarrow> data_floorMin rest | Some m \<Rightarrow> Some m),
               meta_defaultRule := (case meta_defaultRule model of
                                      None \<Rightarrow> meta_defaultRule rest | Some r \<Rightarrow> Some r),
               data_skipRate := (case data_skipRate model of
                                   None \<Rightarrow> data_skipRate rest | Some r \<Rightarrow> Some r)\<rparr>)"

text \<open>
  \<open>normalizeRulesForAuction\<close> and \<open>getFloorsDataForAuction\<close>: with the code of an ad unit
  and a schema without the field \<open>adUnitCode\<close>, the field is put first and the keys are
  prefixed; the keys are stored in lower case, a later key replacing an equal earlier one.
\<close>

definition normalizeRulesForAuction :: "floorsCatalog \<Rightarrow> string \<Rightarrow> floorsCatalog" where
  "normalizeRulesForAuction floorData adUnitCode =
     (let fs = (case schema_fields floorData of None \<Rightarrow> [] | Some fs \<Rightarrow> fs);
          delimiter = (case schema_delimiter floorData of None \<Rightarrow> [] | Some d \<Rightarrow> d);
          prependAdUnitCode = (adUnitCode \<noteq> [] \<and> Named ''adUnitCode'' \<notin> set fs)
      in floorData
           \<lparr>schema_fields := (if prependAdUnitCode then Some (Named ''adUnitCode'' # fs)
                              else schema_fields floorData),
            rule_values :=
              foldl (\<lambda>rulesHash (oldKey, v).
                       AList.update
                         (toLowerCase (if prependAdUnitCode then adUnitCode @ delimiter @ oldKey
                                       else oldKey)) v rulesHash)
                [] (rule_values floorData)\<rparr>)"

definition getFloorsDataForAuction :: "floorsCatalog \<Rightarrow> string \<Rightarrow> floorsCatalog" where
  "getFloorsDataForAuction floorData adUnitCode =
     (let withDelimiter =
            floorData\<lparr>schema_delimiter := Some (delimiter_of (schema_delimiter floorData))\<rparr>;
          normalized = normalizeRulesForAuction withDelimiter adUnitCode
      in normalized\<lparr>currency := (if currency normalized = [] then ''USD''
                                    else currency normalized)\<rparr>)"

text \<open>
  The catalog of the auction (\<open>resolvedFloorsData.data\<close> before the skip decision): the
  configured data, with a model picked for schema version 2, or the data of the ad units
  when the configuration has no rule. \<open>adUnitData\<close> is what \<open>getFloorDataFromAdUnits\<close>
  returns for the ad units of the auction.
\<close>

definition auctionData :: "floorsConfig \<Rightarrow> floorsCatalog \<Rightarrow> real \<Rightarrow> floorsCatalog" where
  "auctionData cfg adUnitData random =
     (case config_data cfg of
        None \<Rightarrow> adUnitData
      | Some d \<Rightarrow>
          let data = (if cfg_schemaVersion d = 2
                      then assign_model (floorsCatalog.truncate d)
                             (pickRandomModel (cfg_modelGroups d) (cfg_modelWeightSum d) random)
                      else floorsCatalog.truncate d)
          in if rule_values data = [] then adUnitData else getFloorsDataForAuction data [])"

text \<open>
  The skip rate of the auction, after \<open>parseFloat\<close>: the query parameter
  \<open>pbjs_skipRate\<close> when it is not empty, else the \<open>skipRate\<close> of the data when it is
  neither \<open>undefined\<close> nor \<open>null\<close>, else the \<open>skipRate\<close> of the configuration.
  \<open>parseFloat\<close> of a number is that number, of \<open>undefined\<close> it is \<open>NaN\<close>; on a string
  it is the argument \<open>parseFloat\<close>.
\<close>

definition auctionSkipRate ::
  "(string \<Rightarrow> jsnum) \<Rightarrow> string \<Rightarrow> jsnum option \<Rightarrow> jsnum option \<Rightarrow> jsnum" where
  "auctionSkipRate parseFloat pbjs_skipRate dataSkipRate configSkipRate =
     (if pbjs_skipRate \<noteq> [] then parseFloat pbjs_skipRate
      else (case dataSkipRate of
              Some rate \<Rightarrow> rate
            | None \<Rightarrow> (case configSkipRate of Some rate \<Rightarrow> rate | None \<Rightarrow> NaN)))"

text \<open>
  \<open>createFloorsDataForAuction\<close>: \<open>random1\<close> and \<open>random2\<close> are the two values of
  \<open>Math.random()\<close>. The function also stamps the bids of the ad units
  (\<open>updateAdUnitsForAuction\<close>), which is left out.
\<close>

definition createFloorsDataForAuction ::
  "(string \<Rightarrow> jsnum) \<Rightarrow> floorsConfig \<Rightarrow> floorsCatalog \<Rightarrow> string \<Rightarrow> real \<Rightarrow> real \<Rightarrow>
   auctionFloorData" where
  "createFloorsDataForAuction parseFloat cfg adUnitData pbjs_skipRate random1 random2 =
     (let data = auctionData cfg adUnitData random1;
          isSkipped = js_lt (Num (random2 * 100))
                        (auctionSkipRate parseFloat pbjs_skipRate (data_skipRate data)
                           (config_skipRate cfg))
      in \<lparr>floors_data = (case config_floorMin cfg of
                           None \<Rightarrow> data
                         | Some m \<Rightarrow> data\<lparr>data_floorMin := Some m\<rparr>),
          floors_enforcement = config_enforcement cfg,
          skipped = (if rule_values data = [] then True else isSkipped)\<rparr>)"

section \<open>The fetch and delay coordinator\<close>

text \<open>
  The part of the module's state that the coordinator works on. A \<open>hookConfig\<close> object
  is shared by the queue \<open>_delayedAuctions\<close> and by the callback of its timer, so the
  objects live in a store and the queue holds references. \<open>setTimeout\<close> returns a handle
  that it has never returned before: the handle of the timer armed for a \<open>hookConfig\<close> is
  written as the reference of that object. \<open>timers\<close> are the handles that are armed, and
  \<open>continued\<close> lists the calls of \<open>nextFn\<close>: the auction that goes on and the fetch status
  in force, which \<open>createFloorsDataForAuction\<close> stamps on it. The object is created with
  a property \<open>haveExited\<close>; the property \<open>hasExited\<close> that \<open>continueAuction\<close> tests is
  \<open>undefined\<close>, which is falsy, until it is set. \<open>allowed_fields\<close> is the list \<open>allowedFields\<close>
  as it stands.
\<close>

datatype fetch_status = success | error | timeout

record hookConfig =
  hasExited :: bool
  timer :: "nat option"

record coordinator =
  fetching :: bool
  addedFloorsHook :: bool
  auctionDelay :: nat
  fetchStatus :: "fetch_status option"
  delayedAuctions :: "nat list"
  hookConfigs :: "nat \<rightharpoonup> hookConfig"
  timers :: "nat list"
  nextRef :: nat
  continued :: "(nat \<times> fetch_status option) list"
  allowed_fields :: "field list"

text \<open>
  A function of the coordinator returns, or throws after it has changed the state; no
  function of the coordinator catches what is thrown.
\<close>

datatype outcome = Returned coordinator | Thrown coordinator

fun state_after :: "outcome \<Rightarrow> coordinator" where
  "state_after (Returned s) = s"
| "state_after (Thrown s) = s"

fun returns :: "outcome \<Rightarrow> bool" where
  "returns (Returned s) = True"
| "returns (Thrown s) = False"

text \<open>
  How the body of a continuation ends. \<open>createFloorsDataForAuction\<close> reads the ad units of
  the request and the configuration of the moment, and throws for instance on an ad unit
  without \<open>bids\<close>, or on an ad unit whose \<open>floors\<close> make the validator throw; \<open>nextFn\<close> is
  the rest of the auction. Both are outside the coordinator, which is told how they end.
\<close>

datatype ending = Completes | CreationThrows | NextFnThrows

definition timer_of :: "coordinator \<Rightarrow> nat \<Rightarrow> nat option" where
  "timer_of s ref = (case hookConfigs s ref of None \<Rightarrow> None | Some hc \<Rightarrow> timer hc)"

text \<open>
  \<open>continueAuction\<close>, for the \<open>hookConfig\<close> at a reference: the object leaves the queue,
  then \<open>createFloorsDataForAuction\<close> and \<open>nextFn\<close> run, and \<open>hasExited\<close> is set last.
\<close>

definition continueAuction :: "ending \<Rightarrow> nat \<Rightarrow> coordinator \<Rightarrow> outcome" where
  "continueAuction body ref s =
     (case hookConfigs s ref of
        None \<Rightarrow> Returned s
      | Some hc \<Rightarrow>
          if hasExited hc then Returned s
          else
            let dequeued =
                  s\<lparr>delayedAuctions :=
                      filter (\<lambda>auctionConfig. timer_of s auctionConfig \<noteq> timer hc)
                        (delayedAuctions s)\<rparr>
            in case body of
                 CreationThrows \<Rightarrow> Thrown dequeued
               | NextFnThrows \<Rightarrow>
                   Thrown (dequeued\<lparr>continued := continued s @ [(ref, fetchStatus s)]\<rparr>)
               | Completes \<Rightarrow>
                   Returned (dequeued
                     \<lparr>continued := continued s @ [(ref, fetchStatus s)],
                      hookConfigs := (hookConfigs s)(ref \<mapsto> hc\<lparr>hasExited := True\<rparr>)\<rparr>))"

text \<open>\<open>clearTimeout\<close>; clearing \<open>null\<close> does nothing.\<close>

definition clearTimeout :: "nat option \<Rightarrow> coordinator \<Rightarrow> coordinator" where
  "clearTimeout handle s =
     (case handle of
        None \<Rightarrow> s
      | Some h \<Rightarrow> s\<lparr>timers := filter (\<lambda>armed. armed \<noteq> h) (timers s)\<rparr>)"

text \<open>
  \<open>requestBidsHook\<close>: a new \<open>hookConfig\<close>, parked with a timer or continued at once;
  \<open>body\<close> is how the continuation ends when it runs at once.
\<close>

definition requestBidsHook :: "ending \<Rightarrow> coordinator \<Rightarrow> outcome" where
  "requestBidsHook body s =
     (let ref = nextRef s
      in if 0 < auctionDelay s \<and> fetching s
         then Returned
                (s\<lparr>hookConfigs := (hookConfigs s)(ref \<mapsto> \<lparr>hasExited = False, timer = Some ref\<rparr>),
                   timers := timers s @ [ref],
                   delayedAuctions := delayedAuctions s @ [ref],
                   nextRef := Suc ref\<rparr>)
         else continueAuction body ref
                (s\<lparr>hookConfigs := (hookConfigs s)(ref \<mapsto> \<lparr>hasExited = False, timer = None\<rparr>),
                   nextRef := Suc ref\<rparr>))"

text \<open>The callback of a timer runs when the timer is armed, and only once.\<close>

definition timerFires :: "nat \<Rightarrow> ending \<Rightarrow> coordinator \<Rightarrow> outcome" where
  "timerFires h body s =
     (if h \<in> set (timers s)
      then continueAuction body h
             (s\<lparr>timers := filter (\<lambda>armed. armed \<noteq> h) (timers s),
                fetchStatus := Some timeout\<rparr>)
      else Returned s)"

text \<open>
  \<open>resumeDelayedAuctions\<close>: \<open>forEach\<close> runs over the array as it is when the loop starts;
  \<open>continueAuction\<close> assigns a new array to \<open>_delayedAuctions\<close> and leaves that one alone.
  A continuation that throws ends the loop, and the queue is not emptied. \<open>bodies\<close> tells
  how the continuation of each auction ends.
\<close>

fun resume_each :: "(nat \<Rightarrow> ending) \<Rightarrow> nat list \<Rightarrow> coordinator \<Rightarrow> outcome" where
  "resume_each bodies [] s = Returned s"
| "resume_each bodies (auctionConfig # rest) s =
     (case continueAuction (bodies auctionConfig) auctionConfig
             (clearTimeout (timer_of s auctionConfig) s) of
        Returned s' \<Rightarrow> resume_each bodies rest s'
      | Thrown s' \<Rightarrow> Thrown s')"

definition resumeDelayedAuctions :: "(nat \<Rightarrow> ending) \<Rightarrow> coordinator \<Rightarrow> outcome" where
  "resumeDelayedAuctions bodies s =
     (case resume_each bodies (delayedAuctions s) s of
        Returned s' \<Rightarrow> Returned (s'\<lparr>delayedAuctions := []\<rparr>)
      | Thrown s' \<Rightarrow> Thrown s')"

text \<open>
  \<open>handleFetchResponse\<close>: \<open>fetchResponse\<close> is the response after \<open>JSON.parse\<close> (\<open>None\<close>
  when it is no object). \<open>parseFloorData\<close> runs before the delayed auctions are resumed
  and outside the \<open>try\<close>, so the auctions are not resumed when it throws. What the
  response does to the configured data is left out. \<open>handleFetchError\<close> resumes at once.
\<close>

definition handleFetchResponse ::
  "floorsData option \<Rightarrow> (nat \<Rightarrow> ending) \<Rightarrow> coordinator \<Rightarrow> outcome" where
  "handleFetchResponse fetchResponse bodies s =
     (let settled = s\<lparr>fetching := False, fetchStatus := Some success\<rparr>
      in case parseFloorData (allowed_fields s) fetchResponse of
           Inl e \<Rightarrow> Thrown settled
         | Inr fetchData \<Rightarrow> resumeDelayedAuctions bodies settled)"

definition handleFetchError :: "(nat \<Rightarrow> ending) \<Rightarrow> coordinator \<Rightarrow> outcome" where
  "handleFetchError bodies s =
     resumeDelayedAuctions bodies (s\<lparr>fetching := False, fetchStatus := Some error\<rparr>)"

text \<open>\<open>generateAndHandleFetch\<close>, for the url and the request method of the endpoint.\<close>

definition generateAndHandleFetch :: "string \<Rightarrow> string \<Rightarrow> coordinator \<Rightarrow> coordinator" where
  "generateAndHandleFetch url requestMethod s =
     (if url \<noteq> [] \<and> \<not> fetching s
      then (if (if requestMethod = [] then ''GET'' else requestMethod) \<noteq> ''GET'' then s
            else s\<lparr>fetching := True\<rparr>)
      else s)"

text \<open>
  \<open>addFieldOverrides\<close>: \<open>overrides\<close> are the keys of \<open>additionalSchemaFields\<close> whose value
  is a function.
\<close>

definition addFieldOverrides :: "string list \<Rightarrow> field list \<Rightarrow> field list" where
  "addFieldOverrides overrides fs =
     foldl (\<lambda>fs' override. if Named override \<in> set fs' then fs' else fs' @ [Named override])
       fs overrides"

text \<open>
  \<open>handleSetFloorsConfig\<close>: \<open>pick\<close> registers the additional fields and then validates
  the \<open>data\<close> (\<open>None\<close> when they are falsy); when the validator throws, the configuration
  is not replaced. The new configuration has no \<open>fetchStatus\<close>; an enabled one starts a
  fetch and registers the hooks, a disabled one is empty and removes them.
\<close>

definition handleSetFloorsConfig ::
  "bool \<Rightarrow> nat \<Rightarrow> string \<Rightarrow> string \<Rightarrow> string list \<Rightarrow> floorsData option \<Rightarrow> coordinator \<Rightarrow> outcome" where
  "handleSetFloorsConfig enabled delay url requestMethod overrides data s =
     (let registered = s\<lparr>allowed_fields := addFieldOverrides overrides (allowed_fields s)\<rparr>
      in case parseFloorData (allowed_fields registered) data of
           Inl e \<Rightarrow> Thrown registered
         | Inr floorsData \<Rightarrow>
             Returned
               (if enabled
                then (generateAndHandleFetch url requestMethod
                        (registered\<lparr>auctionDelay := delay, fetchStatus := None\<rparr>))
                     \<lparr>addedFloorsHook := True\<rparr>
                else registered\<lparr>auctionDelay := 0, fetchStatus := None,
                                addedFloorsHook := False\<rparr>))"

text \<open>
  What can happen, one event at a time: a configuration is set, an auction is requested
  (the hook runs when it is registered), a timer fires, the fetch in flight succeeds or
  fails (one request is outstanding exactly while \<open>fetching\<close> is set). An event that runs
  continuations says how they end. The state after an event is the state that the
  handler leaves, whether it returns or throws.
\<close>

datatype event =
    SetConfig bool nat string string "string list" "floorsData option"
  | RequestBids ending
  | TimerFires nat ending
  | FetchResponse "floorsData option" "nat \<Rightarrow> ending"
  | FetchError "nat \<Rightarrow> ending"

fun react :: "coordinator \<Rightarrow> event \<Rightarrow> outcome" where
  "react s (SetConfig enabled delay url requestMethod overrides data) =
     handleSetFloorsConfig enabled delay url requestMethod overrides data s"
| "react s (RequestBids body) = (if addedFloorsHook s then requestBidsHook body s else Returned s)"
| "react s (TimerFires h body) = timerFires h body s"
| "react s (FetchResponse fetchResponse bodies) =
     (if fetching s then handleFetchResponse fetchResponse bodies s else Returned s)"
| "react s (FetchError bodies) = (if fetching s then handleFetchError bodies s else Returned s)"

definition step :: "coordinator \<Rightarrow> event \<Rightarrow> coordinator" where
  "step s e = state_after (react s e)"

definition initial :: coordinator where
  "initial =
     \<lparr>fetching = False, addedFloorsHook = False, auctionDelay = 0, fetchStatus = None,
      delayedAuctions = [], hookConfigs = Map.empty, timers = [], nextRef = 0,
      continued = [], allowed_fields = allowedFields\<rparr>"

definition run :: "event list \<Rightarrow> coordinator" where
  "run events = foldl step initial events"

text \<open>A run in which every handler returns.\<close>

fun quiet :: "coordinator \<Rightarrow> event list \<Rightarrow> bool" where
  "quiet s [] = True"
| "quiet s (e # events) = (returns (react s e) \<and> quiet (step s e) events)"

subsection \<open>Well-formed states of the coordinator\<close>

text \<open>
  The states the module is in as long as no handler throws. The queue \<open>_delayedAuctions\<close>
  holds every object once, the armed timers are those of the queued objects, a queued
  object has not exited and carries its own timer, every object created so far has either
  exited (and then its continuation has run, once) or is queued, and no continuation has
  run twice.
\<close>

definition parked_ok :: "coordinator \<Rightarrow> bool" where
  "parked_ok s =
     (distinct (delayedAuctions s) \<and> distinct (timers s) \<and>
      set (timers s) = set (delayedAuctions s) \<and>
      (\<forall>ref\<in>set (delayedAuctions s).
         hookConfigs s ref = Some \<lparr>hasExited = False, timer = Some ref\<rparr>) \<and>
      (\<forall>ref hc. hookConfigs s ref = Some hc \<longrightarrow>
         ref < nextRef s \<and> (timer hc = None \<or> timer hc = Some ref)) \<and>
      (\<forall>ref<nextRef s. \<exists>hc. hookConfigs s ref = Some hc \<and>
         hasExited hc = (ref \<in> fst ` set (continued s)) \<and>
         (\<not> hasExited hc \<longrightarrow> ref \<in> set (delayedAuctions s))) \<and>
      distinct (map fst (continued s)) \<and>
      (\<forall>ref\<in>fst ` set (continued s). ref < nextRef s))"

definition coordinated :: "coordinator \<Rightarrow> bool" where
  "coordinated s = (parked_ok s \<and> (delayedAuctions s \<noteq> [] \<longrightarrow> fetching s))"

section \<open>Example data\<close>

text \<open>
  The catalog of the specification's example: the fields \<open>mediaType\<close> and \<open>size\<close>, the
  delimiter \<open>|\<close> and three rules.
\<close>

definition banner_catalog :: floorsCatalog where
  "banner_catalog =
     \<lparr>schema_fields = Some [Named ''mediaType'', Named ''size''],
      schema_delimiter = Some ''|'',
      rule_values = [(''banner|300x250'', Num (3/2)), (''banner|*'', Num 1), (''*|*'', Num (1/2))],
      currency = ''USD'',
      data_floorMin = None,
      meta_defaultRule = None,
      data_skipRate = None,
      matchingInputs = []\<rparr>"

text \<open>
  Field matching functions for the examples: the media type of the response (\<open>banner\<close>
  when it has none) and its size; the size of a bid is \<open>300x250\<close>, and the code of the
  ad unit is \<open>div1\<close>.
\<close>

definition context_fmf :: "field \<Rightarrow> bidRequest option \<Rightarrow> responseObject \<Rightarrow> string" where
  "context_fmf f request response =
     (case response of
        BidContext bid \<Rightarrow>
          (if f = Named ''mediaType''
           then (if bid_mediaType bid = [] then ''banner'' else bid_mediaType bid)
           else if f = Named ''size'' then ''300x250''
           else if f = Named ''adUnitCode'' then ''div1''
           else [])
      | FloorContext mt sz \<Rightarrow>
          (if f = Named ''mediaType'' then mt
           else if f = Named ''size'' then sz
           else if f = Named ''adUnitCode'' then ''div1''
           else []))"

text \<open>A request whose ad unit sets \<open>ortb2Imp.ext.prebid.floors.floorMin\<close> to 2.\<close>

definition override_request :: bidRequest where
  "override_request =
     \<lparr>req_auctionId = ''a1'', req_bidder = ''bidderA'',
      req_mediaTypes = [(''banner'', [''300x250''])],
      ortb2Imp_floorMin = Some (Num 2)\<rparr>"

text \<open>The result of matching a banner of 300x250 against \<open>banner_catalog\<close>.\<close>

definition banner_match :: floorInfo where
  "banner_match =
     \<lparr>floorMin = Num 0, floorRuleValue = Some (Num (3/2)),
      matchingData = Some ''banner|300x250'', matchingRule = Some ''banner|300x250'',
      matchingFloor = Num (3/2)\<rparr>"

text \<open>
  No currency conversion, no cpm adjustment and no inverse adjustment; the bid requests
  are not indexed, and the rounding leaves the floor as it is.
\<close>

definition plain_externals :: externals where
  "plain_externals =
     \<lparr>getBidRequest = (\<lambda>bid. None),
      convertCurrency = (\<lambda>amount fromCur toCur. None),
      adjustCpm = (\<lambda>inputCpm bid request. inputCpm),
      inverseBidAdjustment = (\<lambda>bidder. None),
      roundUp4 = (\<lambda>amount. amount)\<rparr>"

text \<open>The enforcement flags that \<open>handleSetFloorsConfig\<close> sets when none is configured.\<close>

definition default_enforcement :: enforcement where
  "default_enforcement =
     \<lparr>enforceJS = Some True, enforcePBS = Some False, floorDeals = Some False,
      bidAdjustment = Some True, noFloorSignalBidders = []\<rparr>"

text \<open>A banner bid of the auction \<open>a1\<close>, in US dollars, with the given cpm and deal.\<close>

definition banner_bid :: "jsnum \<Rightarrow> string \<Rightarrow> bidResponse" where
  "banner_bid price deal =
     \<lparr>bid_auctionId = ''a1'', bidderCode = ''bidderA'', cpm = price, bid_currency = ''USD'',
      originalCpm = price, originalCurrency = ''USD'', dealId = deal,
      bid_mediaType = ''banner'', width = 300, height = 250, bid_floorData = None\<rparr>"

text \<open>The floor data of the auction \<open>a1\<close> over a catalog.\<close>

definition auction_of :: "floorsCatalog \<Rightarrow> enforcement \<Rightarrow> auctionFloorData" where
  "auction_of catalog flags =
     \<lparr>floors_data = catalog, floors_enforcement = flags, skipped = False\<rparr>"

text \<open>A catalog whose only rule has the floor 1, and one whose only rule has the floor 0.\<close>

definition one_catalog :: floorsCatalog where
  "one_catalog = banner_catalog\<lparr>rule_values := [(''banner|*'', Num 1)]\<rparr>"


definition zero_catalog :: floorsCatalog where
  "zero_catalog = banner_catalog\<lparr>rule_values := [(''banner|300x250'', Num 0)]\<rparr>"

text \<open>
  A catalog over the field \<open>adUnitCode\<close> whose only rule is keyed \<open>undefined\<close>, with a
  floor of 5.
\<close>

definition undefined_catalog :: floorsCatalog where
  "undefined_catalog =
     \<lparr>schema_fields = Some [Named ''adUnitCode''],
      schema_delimiter = Some ''|'',
      rule_values = [(''undefined'', Num 5)],
      currency = ''USD'',
      data_floorMin = None,
      meta_defaultRule = None,
      data_skipRate = None,
      matchingInputs = []\<rparr>"

text \<open>The results of matching a banner bid against these catalogs.\<close>

definition one_match :: floorInfo where
  "one_match =
     \<lparr>floorMin = Num 0, floorRuleValue = Some (Num 1),
      matchingData = Some ''banner|300x250'', matchingRule = Some ''banner|*'',
      matchingFloor = Num 1\<rparr>"

definition zero_match :: floorInfo where
  "zero_match =
     \<lparr>floorMin = Num 0, floorRuleValue = Some (Num 0),
      matchingData = Some ''banner|300x250'', matchingRule = Some ''banner|300x250'',
      matchingFloor = Num 0\<rparr>"

definition undefined_match :: floorInfo where
  "undefined_match =
     \<lparr>floorMin = Num 0, floorRuleValue = Some (Num 5),
      matchingData = Some ''div1'', matchingRule = None,
      matchingFloor = Num 5\<rparr>"

text \<open>The request of the bidder \<open>bidderA\<close> in the auction \<open>a1\<close>, for one banner size.\<close>

definition banner_request :: bidRequest where
  "banner_request =
     \<lparr>req_auctionId = ''a1'', req_bidder = ''bidderA'',
      req_mediaTypes = [(''banner'', [''300x250''])],
      ortb2Imp_floorMin = None\<rparr>"

text \<open>
  Raw configurations: one with nothing but a default floor of 1; one with two good rules,
  a rule of one segment and a rule whose value is a string; one whose rule under the key
  of the default rule is a string, with a default of 1; and one of schema version 2 with
  two model groups of weights 1 and 3.
\<close>

definition empty_config :: floorsData where
  "empty_config =
     \<lparr>m_fields = NoSchemaFields, m_delimiter = None, m_values = NoRules, m_default = JUndefined,
      m_defaultRule = None, modelWeight = JUndefined,
      floorsSchemaVersion = None, modelGroups = None, modelWeightSum = None\<rparr>"


definition sample_config :: floorsData where
  "sample_config =
     empty_config
       \<lparr>m_fields := FieldsArray [Named ''mediaType'', Named ''size''],
        m_values := Rules [(''banner|300x250'', JNumber (Num (3/2))), (''banner'', JNumber (Num 2)),
                           (''banner|*'', JString ''x''), (''*|*'', JNumber (Num (1/2)))]\<rparr>"

definition malformed_default :: floorsData where
  "malformed_default =
     empty_config
       \<lparr>m_fields := FieldsArray [Named ''mediaType''],
        m_values := Rules [(''*'', JString ''abc''), (''banner'', JNumber (Num 2))],
        m_default := JNumber (Num 1)\<rparr>"

definition weighted_model :: "real \<Rightarrow> real \<Rightarrow> floorsModel" where
  "weighted_model weight ruleFloor =
     \<lparr>m_fields = FieldsArray [Named ''mediaType''], m_delimiter = None,
      m_values = Rules [(''banner'', JNumber (Num ruleFloor))], m_default = JNumber (Num 1),
      m_defaultRule = None, modelWeight = JNumber (Num weight)\<rparr>"

definition two_models :: floorsData where
  "two_models =
     empty_config
       \<lparr>floorsSchemaVersion := Some 2,
        modelGroups := Some [weighted_model 1 2, weighted_model 3 4]\<rparr>"


definition primitive_values :: floorsData where
  "primitive_values =
     empty_config
       \<lparr>m_fields := FieldsArray [Named ''mediaType''],
        m_values := PrimitiveRules (PString ''abc''),
        m_default := JNumber (Num 1)\<rparr>"

definition null_values :: floorsData where
  "null_values =
     empty_config\<lparr>m_fields := FieldsArray [Named ''mediaType''], m_values := NullRules\<rparr>"

definition string_fields :: floorsData where
  "string_fields =
     empty_config
       \<lparr>m_fields := PrimitiveFields (PString ''mediaType''),
        m_values := Rules [(''banner'', JNumber (Num 2))],
        m_default := JNumber (Num 1)\<rparr>"

text \<open>
  A configuration whose data is the example catalog with the given skip rate, under a
  configured skip rate of 50; and a \<open>parseFloat\<close> that reads the string \<open>100\<close>.
\<close>

definition skip_config :: "jsnum option \<Rightarrow> floorsConfig" where
  "skip_config dataSkipRate =
     \<lparr>config_data = Some
        \<lparr>schema_fields = Some [Named ''mediaType'', Named ''size''],
         schema_delimiter = Some ''|'',
         rule_values = [(''banner|300x250'', Num (3/2)), (''banner|*'', Num 1), (''*|*'', Num (1/2))],
         currency = ''USD'',
         data_floorMin = None,
         meta_defaultRule = None,
         data_skipRate = dataSkipRate,
         matchingInputs = [],
         cfg_schemaVersion = 1,
         cfg_modelGroups = [],
         cfg_modelWeightSum = Num 0\<rparr>,
      config_skipRate = Some (Num 50),
      config_floorMin = None,
      config_enforcement = default_enforcement\<rparr>"

definition parse_hundred :: "string \<Rightarrow> jsnum" where
  "parse_hundred s = (if s = ''100'' then Num 100 else NaN)"

text \<open>
  A fetch is started with an auction delay of 100 ms and two auctions are requested while
  it is in flight. Then the timer of the first auction fires before the fetch settles; or
  the fetch settles with a response whose \<open>values\<close> are \<open>null\<close>; or it settles with a
  good response; or it fails, and the continuation of the first auction throws in
  \<open>createFloorsDataForAuction\<close>.
\<close>

definition two_parked :: "event list" where
  "two_parked = [SetConfig True 100 ''https://floors.example/rules.json'' [] [] None,
                 RequestBids Completes, RequestBids Completes]"

definition timed_out_first :: "event list" where
  "timed_out_first = two_parked @ [TimerFires 0 Completes]"

definition null_values_fetched :: "event list" where
  "null_values_fetched = two_parked @ [FetchResponse (Some null_values) (\<lambda>ref. Completes)]"

definition sample_fetched :: "event list" where
  "sample_fetched = two_parked @ [FetchResponse (Some sample_config) (\<lambda>ref. Completes)]"

definition creation_thrown :: "event list" where
  "creation_thrown =
     two_parked @ [FetchError (\<lambda>ref. if ref = 0 then CreationThrows else Completes)]"

section \<open>Properties of the matching engine\<close>

subsection \<open>Splitting and joining\<close>

lemma join_js_Cons: "join_js d (x # ys) = x @ concat (map ((@) d) ys)"
  by (induction ys arbitrary: x) auto

lemma split_at_piece:
  "d \<noteq> [] \<Longrightarrow> hd d \<notin> set x \<Longrightarrow> split_at d (x @ d @ rest) = x # split_at d rest"
proof (induction x)
  case Nil
  then obtain a d' where d: "d = a # d'" by (cases d) auto
  show ?case by (simp add: d)
next
  case (Cons c x)
  then obtain a d' where d: "d = a # d'" by (cases d) auto
  from Cons.prems have ca: "c \<noteq> a" and "hd d \<notin> set x" by (auto simp: d)
  with Cons.IH Cons.prems(1) have "split_at d (x @ d @ rest) = x # split_at d rest" by simp
  with ca show ?case by (simp add: d)
qed

lemma split_at_whole: "hd d \<notin> set x \<Longrightarrow> split_at d x = [x]"
proof (induction x)
  case Nil
  show ?case by simp
next
  case (Cons c x)
  then show ?case by (cases d) auto
qed

lemma split_join:
  "d \<noteq> [] \<Longrightarrow> xs \<noteq> [] \<Longrightarrow> \<forall>x\<in>set xs. hd d \<notin> set x \<Longrightarrow> split_js (join_js d xs) d = xs"
proof (induction d xs rule: join_js.induct)
  case (1 sep)
  then show ?case by simp
next
  case (2 sep x)
  then show ?case by (simp add: split_js_def split_at_whole)
next
  case (3 sep x y ys)
  then show ?case by (simp add: split_js_def split_at_piece)
qed

lemma length_split_at_char:
  "length (split_at [c] s) = Suc (length (filter (\<lambda>a. a = c) s))"
  by (induction s) (auto split: list.splits)

lemma stars_join:
  "CHR ''*'' \<notin> set d \<Longrightarrow> \<forall>x\<in>set xs. x \<noteq> ''*'' \<longrightarrow> CHR ''*'' \<notin> set x \<Longrightarrow>
   length (filter (\<lambda>a. a = CHR ''*'') (join_js d xs)) = length (filter (\<lambda>x. x = ''*'') xs)"
proof (induction d xs rule: join_js.induct)
  case (1 sep)
  then show ?case by simp
next
  case (2 sep x)
  then show ?case by (cases "x = ''*''") (auto simp: filter_empty_conv)
next
  case (3 sep x y ys)
  then show ?case by (cases "x = ''*''") (auto simp: filter_empty_conv)
qed

subsection \<open>The candidate keys are the cartesian product, left fields varying slowest\<close>

lemma foldl_combine:
  "foldl (combine d) acc rest =
     concat (map (\<lambda>obj. map (\<lambda>ys. obj @ concat (map ((@) d) ys)) (product_lists rest)) acc)"
proof (induction rest arbitrary: acc)
  case Nil
  show ?case by (induction acc) auto
next
  case (Cons c r)
  have "foldl (combine d) acc (c # r) = foldl (combine d) (combine d acc c) r"
    by simp
  also have "\<dots> = concat (map (\<lambda>obj. map (\<lambda>ys. obj @ concat (map ((@) d) ys)) (product_lists r))
                                (combine d acc c))"
    by (rule Cons.IH)
  also have "\<dots> = concat (map (\<lambda>obj. map (\<lambda>ys. obj @ concat (map ((@) d) ys))
                                               (product_lists (c # r))) acc)"
    by (induction acc) (simp_all add: combine_def map_concat comp_def)
  finally show ?case .
qed

lemma generated_product:
  "generated first rest d = map (join_js d) (product_lists (first # rest))"
  by (simp add: generated_def foldl_combine map_concat comp_def join_js_Cons)

lemma list_all2_member:
  "list_all2 (\<lambda>x ys. x \<in> set ys) xs yss \<Longrightarrow> \<forall>x\<in>set xs. \<exists>ys\<in>set yss. x \<in> set ys"
  by (induction rule: list_all2_induct) auto

text \<open>
  C1, as amended. The claim holds for the option lists of a context whose values do not
  contain the first character of the delimiter and, the wildcard apart, no \<open>*\<close>, with a
  delimiter without \<open>*\<close>: every candidate key has as many segments as the schema has
  fields, the wildcard count never decreases along the list, the candidates with the same
  wildcard count stand in their order of generation, and that order is the one of the
  cartesian product in which the left fields vary slowest.
\<close>

theorem candidates_segments_and_order:
  assumes fields: "floorFields \<noteq> []"
    and fvs: "fieldValues = enumeratePossibleFieldValues resolve floorFields"
    and delim: "delimiter \<noteq> []" "CHR ''*'' \<notin> set delimiter"
    and opts: "\<forall>options\<in>set fieldValues. \<forall>v\<in>set options.
                 hd delimiter \<notin> set v \<and> (v \<noteq> ''*'' \<longrightarrow> CHR ''*'' \<notin> set v)"
  shows "\<exists>candidates.
           generatePossibleEnumerations fieldValues delimiter = Inr candidates \<and>
           (\<forall>key\<in>set candidates. length (split_js key delimiter) = length floorFields) \<and>
           sorted (map (wildcards delimiter) candidates) \<and>
           (\<forall>n. filter (\<lambda>key. wildcards delimiter key = n) candidates =
                filter (\<lambda>key. wildcards delimiter key = n)
                  (map (join_js delimiter) (product_lists fieldValues)))"
proof -
  from fields fvs obtain first rest where fr: "fieldValues = first # rest"
    by (cases fieldValues) (auto simp: enumeratePossibleFieldValues_def)
  define gen where "gen = map (join_js delimiter) (product_lists fieldValues)"
  define stars where "stars = (\<lambda>left. length (split_js left ''*''))"
  have cands: "generatePossibleEnumerations fieldValues delimiter = Inr (sort_key stars gen)"
    by (simp add: generatePossibleEnumerations_def fr generated_product gen_def stars_def)
  have len: "length fieldValues = length floorFields"
    by (simp add: fvs enumeratePossibleFieldValues_def)
  have pieces: "split_js (join_js delimiter xs) delimiter = xs
      \<and> stars (join_js delimiter xs) = Suc (length (filter (\<lambda>x. x = ''*'') xs))
      \<and> length xs = length floorFields"
    if "xs \<in> set (product_lists fieldValues)" for xs
  proof -
    from that have l: "length xs = length fieldValues"
      by (rule in_set_product_lists_length)
    with fr have ne: "xs \<noteq> []" by auto
    from that have "list_all2 (\<lambda>x ys. x \<in> set ys) xs fieldValues"
      by (simp add: product_lists_set)
    then have mem: "\<forall>x\<in>set xs. \<exists>options\<in>set fieldValues. x \<in> set options"
      by (rule list_all2_member)
    with opts have a: "\<forall>x\<in>set xs. hd delimiter \<notin> set x"
      and b: "\<forall>x\<in>set xs. x \<noteq> ''*'' \<longrightarrow> CHR ''*'' \<notin> set x"
      by blast+
    from delim(1) ne a have "split_js (join_js delimiter xs) delimiter = xs"
      by (rule split_join)
    moreover have "stars (join_js delimiter xs) = Suc (length (filter (\<lambda>x. x = ''*'') xs))"
      by (simp add: stars_def split_js_def length_split_at_char stars_join [OF delim(2) b])
    ultimately show ?thesis using l len by simp
  qed
  have key: "stars key = Suc (wildcards delimiter key) \<and> length (split_js key delimiter) = length floorFields"
    if "key \<in> set gen" for key
    using that pieces by (auto simp: gen_def wildcards_def)
  have "sorted (map stars (sort_key stars gen))"
    by (rule sorted_sort_key)
  moreover have "map stars (sort_key stars gen) = map (\<lambda>k. Suc (wildcards delimiter k)) (sort_key stars gen)"
    using key by simp
  ultimately have "sorted (map Suc (map (wildcards delimiter) (sort_key stars gen)))"
    by (simp add: comp_def)
  then have srt: "sorted (map (wildcards delimiter) (sort_key stars gen))"
    by (simp add: sorted_map)
  have stable: "filter (\<lambda>key. wildcards delimiter key = n) (sort_key stars gen) =
                filter (\<lambda>key. wildcards delimiter key = n) gen" for n
  proof -
    have "filter (\<lambda>key. wildcards delimiter key = n) (sort_key stars gen) =
          filter (\<lambda>key. stars key = Suc n) (sort_key stars gen)"
      by (rule filter_cong) (use key in auto)
    also have "\<dots> = filter (\<lambda>key. stars key = Suc n) gen"
      by (rule sort_key_stable)
    also have "\<dots> = filter (\<lambda>key. wildcards delimiter key = n) gen"
      by (rule filter_cong) (use key in auto)
    finally show ?thesis .
  qed
  show ?thesis
    using cands key srt stable by (auto simp: gen_def)
qed

text \<open>
  The amended C1 at the schema \<open>[mediaType, size]\<close> with the delimiter \<open>|\<close>, for a banner
  of 300x250.
\<close>

theorem candidates_segments_and_order_witness:
  "[Named ''mediaType'', Named ''size''] \<noteq> [] \<and> ''|'' \<noteq> [] \<and> CHR ''*'' \<notin> set ''|'' \<and>
   generatePossibleEnumerations
     (enumeratePossibleFieldValues (\<lambda>f. if f = Named ''mediaType'' then ''Banner'' else ''300x250'')
        [Named ''mediaType'', Named ''size'']) ''|'' =
     Inr [''banner|300x250'', ''banner|*'', ''*|300x250'', ''*|*''] \<and>
   list_all (\<lambda>key. length (split_js key ''|'') = 2)
     [''banner|300x250'', ''banner|*'', ''*|300x250'', ''*|*''] \<and>
   sorted (map (wildcards ''|'') [''banner|300x250'', ''banner|*'', ''*|300x250'', ''*|*''])"
proof -
  let ?fs = "[Named ''mediaType'', Named ''size'']"
  let ?r = "\<lambda>f. if f = Named ''mediaType'' then ''Banner'' else ''300x250''"
  let ?fv = "enumeratePossibleFieldValues ?r ?fs"
  have fv: "?fv = [[''banner'', ''*''], [''300x250'', ''*'']]"
    by (simp add: enumeratePossibleFieldValues_def toLowerCase_def lower_char_def)
  have h1: "?fs \<noteq> []" by simp
  have h3: "''|'' \<noteq> []" "CHR ''*'' \<notin> set ''|''" by simp_all
  have h4: "\<forall>options\<in>set ?fv. \<forall>v\<in>set options.
              hd ''|'' \<notin> set v \<and> (v \<noteq> ''*'' \<longrightarrow> CHR ''*'' \<notin> set v)"
    by (simp add: fv)
  have ev: "generatePossibleEnumerations ?fv ''|'' =
              Inr [''banner|300x250'', ''banner|*'', ''*|300x250'', ''*|*'']"
    by (simp add: fv generatePossibleEnumerations_def generated_def combine_def split_js_def)
  from candidates_segments_and_order [OF h1 refl h3 h4] ev
  have "(\<forall>key\<in>set [''banner|300x250'', ''banner|*'', ''*|300x250'', ''*|*''].
            length (split_js key ''|'') = length ?fs)
        \<and> sorted (map (wildcards ''|'') [''banner|300x250'', ''banner|*'', ''*|300x250'', ''*|*''])"
    by auto
  then show ?thesis using ev by (simp add: list_all_iff)
qed

text \<open>
  C1 as stated fails. An ad unit code \<open>a|b\<close> under the one-field schema \<open>[adUnitCode]\<close>
  gives a candidate key of two segments; and with the ad unit code \<open>a**b\<close> under
  \<open>[adUnitCode, mediaType]\<close> the sort, which counts the characters \<open>*\<close>, puts the
  wildcard counts in the order 1, 0, 2, 1.
\<close>

theorem candidates_segments_counterexample:
  "generatePossibleEnumerations
     (enumeratePossibleFieldValues (\<lambda>f. ''a|b'') [Named ''adUnitCode'']) ''|'' = Inr [''a|b'', ''*''] \<and>
   length (split_js ''a|b'' ''|'') = 2 \<and> length [Named ''adUnitCode''] = 1 \<and>
   generatePossibleEnumerations
     (enumeratePossibleFieldValues (\<lambda>f. if f = Named ''adUnitCode'' then ''a**b'' else ''banner'')
        [Named ''adUnitCode'', Named ''mediaType'']) ''|'' =
     Inr [''*|banner'', ''a**b|banner'', ''*|*'', ''a**b|*''] \<and>
   map (wildcards ''|'') [''*|banner'', ''a**b|banner'', ''*|*'', ''a**b|*''] = [1, 0, 2, 1] \<and>
   \<not> sorted (map (wildcards ''|'') [''*|banner'', ''a**b|banner'', ''*|*'', ''a**b|*''])"
  by (simp add: enumeratePossibleFieldValues_def toLowerCase_def lower_char_def
      generatePossibleEnumerations_def generated_def combine_def split_js_def wildcards_def)

subsection \<open>Matching a context\<close>

lemma generate_nonempty:
  "fieldValues \<noteq> [] \<Longrightarrow> \<exists>cs. generatePossibleEnumerations fieldValues d = Inr cs"
  by (cases fieldValues) (auto simp: generatePossibleEnumerations_def)

text \<open>A match never throws: the candidate list is only built for a schema with fields.\<close>

lemma getFirstMatchingFloor_never_throws:
  "\<exists>res fd'. getFirstMatchingFloor fmf fd q r = Inr (res, fd')"
proof -
  obtain fv where fv: "fv = enumeratePossibleFieldValues (\<lambda>field. fmf field q r)
              (case schema_fields fd of None \<Rightarrow> [] | Some fs \<Rightarrow> fs)" by simp
  show ?thesis
  proof (cases "fv = []")
    case True
    then show ?thesis by (simp add: getFirstMatchingFloor_def fv)
  next
    case False
    then obtain cs where "generatePossibleEnumerations fv (delimiter_of (schema_delimiter fd)) = Inr cs"
      using generate_nonempty by blast
    with False show ?thesis
      by (auto simp: getFirstMatchingFloor_def fv Let_def split: option.splits)
  qed
qed

lemma banner_values:
  "enumeratePossibleFieldValues (\<lambda>field. context_fmf field q (FloorContext ''banner'' ''300x250''))
     [Named ''mediaType'', Named ''size''] = [[''banner'', ''*''], [''300x250'', ''*'']]"
  by (simp add: enumeratePossibleFieldValues_def context_fmf_def toLowerCase_def lower_char_def)

lemma banner_candidates:
  "generatePossibleEnumerations [[''banner'', ''*''], [''300x250'', ''*'']] ''|'' =
     Inr [''banner|300x250'', ''banner|*'', ''*|300x250'', ''*|*'']"
  by (simp add: generatePossibleEnumerations_def generated_def combine_def split_js_def)

lemma banner_first_match:
  "getFirstMatchingFloor context_fmf banner_catalog None (FloorContext ''banner'' ''300x250'') =
     Inr (Matched banner_match,
          banner_catalog\<lparr>matchingInputs := [(''banner-300x250'', banner_match)]\<rparr>)"
  by (simp add: getFirstMatchingFloor_def banner_values banner_candidates banner_catalog_def
      delimiter_of_def matchingInput_def first_value_def banner_match_def Let_def)

lemma update_lookup: "map_of (AList.update k v al) k = Some v"
  by (simp add: update_conv')

text \<open>
  The scan of the candidates. A match whose context has no entry in the table of previous
  matches and that finds a candidate key in the rule table returns the floor
  \<open>Math.max(floorMin, floorRuleValue)\<close>, where \<open>floorMin\<close> is the request's
  \<open>ortb2Imp.ext.prebid.floors.floorMin\<close> when that is a number and else the catalog's
  \<open>floorMin\<close>, 0 when it is missing or falsy; the rule is reported as \<open>undefined\<close>
  when it is the catalog's \<open>meta.defaultRule\<close>, and the floor is returned all the same.
\<close>

lemma scanned_floor_is_max:
  assumes fs: "schema_fields fd = Some fs" "fs \<noteq> []"
    and fv: "fieldValues = enumeratePossibleFieldValues (\<lambda>field. fmf field request response) fs"
    and miss: "map_of (matchingInputs fd) (matchingInput fieldValues) = None"
    and cands: "generatePossibleEnumerations fieldValues (delimiter_of (schema_delimiter fd)) = Inr candidates"
    and found: "find (\<lambda>key. map_of (rule_values fd) key \<noteq> None) candidates = Some rule"
  shows "\<exists>info fd' ruleFloor.
           getFirstMatchingFloor fmf fd request response = Inr (Matched info, fd') \<and>
           map_of (rule_values fd) rule = Some ruleFloor \<and>
           floorRuleValue info = Some ruleFloor \<and>
           floorMin info =
             (case (case request of None \<Rightarrow> None | Some b \<Rightarrow> ortb2Imp_floorMin b) of
                Some override \<Rightarrow> override
              | None \<Rightarrow> (case data_floorMin fd of
                           None \<Rightarrow> Num 0
                         | Some n \<Rightarrow> if truthy n then n else Num 0)) \<and>
           matchingFloor info = Math_max (floorMin info) (Some ruleFloor) \<and>
           matchingRule info = (if meta_defaultRule fd = Some rule then None else Some rule)"
proof -
  from fs fv have ne: "fieldValues \<noteq> []"
    by (simp add: enumeratePossibleFieldValues_def)
  from found obtain ruleFloor where rf: "map_of (rule_values fd) rule = Some ruleFloor"
    by (auto simp: find_Some_iff)
  show ?thesis
    using fs ne miss cands found rf
    by (auto simp: getFirstMatchingFloor_def fv [symmetric] Let_def split: option.splits)
qed

text \<open>
  The scan at the example catalog: the request's \<open>floorMin\<close> of 2 wins over the rule's 1.5.
\<close>

lemma scanned_floor_example:
  "\<exists>info fd'.
     getFirstMatchingFloor context_fmf banner_catalog (Some override_request)
       (FloorContext ''banner'' ''300x250'') = Inr (Matched info, fd') \<and>
     floorRuleValue info = Some (Num (3/2)) \<and> floorMin info = Num 2 \<and>
     matchingFloor info = Num 2 \<and> matchingRule info = Some ''banner|300x250''"
proof -
  let ?fv = "[[''banner'', ''*''], [''300x250'', ''*'']]"
  have h1: "schema_fields banner_catalog = Some [Named ''mediaType'', Named ''size'']"
    and h2: "[Named ''mediaType'', Named ''size''] \<noteq> []"
    by (simp_all add: banner_catalog_def)
  have h3: "?fv = enumeratePossibleFieldValues
      (\<lambda>field. context_fmf field (Some override_request) (FloorContext ''banner'' ''300x250''))
      [Named ''mediaType'', Named ''size'']"
    by (simp add: banner_values)
  have h4: "map_of (matchingInputs banner_catalog) (matchingInput ?fv) = None"
    by (simp add: banner_catalog_def)
  have h5: "generatePossibleEnumerations ?fv (delimiter_of (schema_delimiter banner_catalog)) =
      Inr [''banner|300x250'', ''banner|*'', ''*|300x250'', ''*|*'']"
    by (simp add: banner_candidates banner_catalog_def delimiter_of_def)
  have h6: "find (\<lambda>key. map_of (rule_values banner_catalog) key \<noteq> None)
      [''banner|300x250'', ''banner|*'', ''*|300x250'', ''*|*''] = Some ''banner|300x250''"
    by (simp add: banner_catalog_def)
  from scanned_floor_is_max [where fmf = context_fmf and request = "Some override_request"
      and response = "FloorContext ''banner'' ''300x250''", OF h1 h2 h3 h4 h5 h6]
  show ?thesis
    by (auto simp: banner_catalog_def override_request_def)
qed

text \<open>
  C4, as amended. The memoization key joins the first (exact) value of every field with
  the hyphen \<open>-\<close>, whatever the catalog's delimiter is. After a match, a second match
  against the catalog with the same resolved values returns the same result and leaves
  the catalog as it is; the result is the entry of the memo under that key, and it does
  not depend on the rule table, the delimiter or the floor minimum any more: no candidate
  list is built.
\<close>

theorem memo_second_match:
  assumes fs: "schema_fields fd = Some fs" "fs \<noteq> []"
    and first: "getFirstMatchingFloor fmf fd request response = Inr (result, fd1)"
    and same: "enumeratePossibleFieldValues (\<lambda>field. fmf field request2 response2) fs =
               enumeratePossibleFieldValues (\<lambda>field. fmf field request response) fs"
  shows "\<exists>info.
           result = Matched info \<and>
           map_of (matchingInputs fd1)
             (join_js ''-'' (map (\<lambda>field.
                if fmf field request response = [] \<or> fmf field request response = ''*''
                then ''*'' else toLowerCase (fmf field request response)) fs)) = Some info \<and>
           getFirstMatchingFloor fmf fd1 request2 response2 = Inr (result, fd1) \<and>
           (\<forall>fd2. schema_fields fd2 = Some fs \<and> matchingInputs fd2 = matchingInputs fd1 \<longrightarrow>
                  getFirstMatchingFloor fmf fd2 request2 response2 = Inr (result, fd2))"
proof -
  define fv where "fv = enumeratePossibleFieldValues (\<lambda>field. fmf field request response) fs"
  have ne: "fv \<noteq> []" using fs by (simp add: fv_def enumeratePossibleFieldValues_def)
  have key: "matchingInput fv = join_js ''-'' (map (\<lambda>field.
                if fmf field request response = [] \<or> fmf field request response = ''*''
                then ''*'' else toLowerCase (fmf field request response)) fs)"
    by (auto simp: matchingInput_def fv_def enumeratePossibleFieldValues_def first_value_def
        comp_def Let_def intro!: arg_cong [where f = "join_js ''-''"])
  obtain cs where cs: "generatePossibleEnumerations fv (delimiter_of (schema_delimiter fd)) = Inr cs"
    using generate_nonempty [OF ne] by blast
  have hit: "getFirstMatchingFloor fmf fd2 request2 response2 = Inr (Matched info, fd2)"
    if "schema_fields fd2 = Some fs" "map_of (matchingInputs fd2) (matchingInput fv) = Some info"
    for fd2 info
    using that ne same by (simp add: getFirstMatchingFloor_def fv_def)
  show ?thesis
  proof (cases "map_of (matchingInputs fd) (matchingInput fv)")
    case (Some prev)
    with first fs ne have r: "result = Matched prev" "fd1 = fd"
      by (auto simp: getFirstMatchingFloor_def fv_def)
    with Some fs hit show ?thesis by (auto simp: key [symmetric])
  next
    case None
    with first fs ne cs obtain info where r: "result = Matched info"
      "fd1 = fd\<lparr>matchingInputs := AList.update (matchingInput fv) info (matchingInputs fd)\<rparr>"
      by (auto simp: getFirstMatchingFloor_def fv_def Let_def)
    then have "map_of (matchingInputs fd1) (matchingInput fv) = Some info"
      by (simp add: update_lookup)
    with r fs hit show ?thesis by (auto simp: key [symmetric])
  qed
qed

text \<open>
  The amended C4 at the example catalog; the second request differs from the first one,
  but resolves to the same values.
\<close>

theorem memo_second_match_witness:
  "getFirstMatchingFloor context_fmf banner_catalog None (FloorContext ''banner'' ''300x250'') =
     Inr (Matched banner_match,
          banner_catalog\<lparr>matchingInputs := [(''banner-300x250'', banner_match)]\<rparr>) \<and>
   map_of (matchingInputs (banner_catalog\<lparr>matchingInputs := [(''banner-300x250'', banner_match)]\<rparr>))
     ''banner-300x250'' = Some banner_match \<and>
   getFirstMatchingFloor context_fmf
     (banner_catalog\<lparr>matchingInputs := [(''banner-300x250'', banner_match)]\<rparr>)
     (Some override_request) (FloorContext ''banner'' ''300x250'') =
     Inr (Matched banner_match,
          banner_catalog\<lparr>matchingInputs := [(''banner-300x250'', banner_match)]\<rparr>)"
proof -
  have h1: "schema_fields banner_catalog = Some [Named ''mediaType'', Named ''size'']"
    and h2: "[Named ''mediaType'', Named ''size''] \<noteq> []"
    by (simp_all add: banner_catalog_def)
  have h4: "enumeratePossibleFieldValues
       (\<lambda>field. context_fmf field (Some override_request) (FloorContext ''banner'' ''300x250''))
       [Named ''mediaType'', Named ''size''] =
     enumeratePossibleFieldValues
       (\<lambda>field. context_fmf field None (FloorContext ''banner'' ''300x250''))
       [Named ''mediaType'', Named ''size'']"
    by (simp add: banner_values)
  from memo_second_match [where fmf = context_fmf and request = None
      and response = "FloorContext ''banner'' ''300x250''"
      and ?request2.0 = "Some override_request"
      and ?response2.0 = "FloorContext ''banner'' ''300x250''", OF h1 h2 banner_first_match h4]
  show ?thesis
    using banner_first_match by auto
qed

text \<open>
  C4 as stated fails: the catalog's delimiter is \<open>|\<close>, and the memo holds the result
  under \<open>banner-300x250\<close>, not under \<open>banner|300x250\<close>.
\<close>

theorem memo_key_counterexample:
  "getFirstMatchingFloor context_fmf banner_catalog None (FloorContext ''banner'' ''300x250'') =
     Inr (Matched banner_match,
          banner_catalog\<lparr>matchingInputs := [(''banner-300x250'', banner_match)]\<rparr>) \<and>
   schema_delimiter banner_catalog = Some ''|'' \<and>
   join_js ''|'' [''banner'', ''300x250''] = ''banner|300x250'' \<and>
   map_of [(''banner-300x250'', banner_match)] ''banner|300x250'' = None"
  using banner_first_match by (simp add: banner_catalog_def)

text \<open>
  C5 fails on the code for a match that is served from the table of previous matches. The
  banner of 300x250 is first matched for a request without \<open>floorMin\<close>, and the result,
  with the floor 1.5 of the rule \<open>banner|300x250\<close>, is stored under the key of the context.
  The same context is then matched for a request whose
  \<open>ortb2Imp.ext.prebid.floors.floorMin\<close> is 2: the stored result is returned, with
  \<open>floorMin\<close> 0 and the floor 1.5, and not \<open>Math.max(2, 1.5) = 2\<close>. Matched against the
  catalog as it was before the first match, the same request gets \<open>floorMin\<close> 2 and the
  floor 2: the answer to a request depends on the requests before it.
\<close>

theorem stored_match_ignores_floorMin:
  "getFirstMatchingFloor context_fmf banner_catalog None (FloorContext ''banner'' ''300x250'') =
     Inr (Matched banner_match,
          banner_catalog\<lparr>matchingInputs := [(''banner-300x250'', banner_match)]\<rparr>) \<and>
   getFirstMatchingFloor context_fmf
     (banner_catalog\<lparr>matchingInputs := [(''banner-300x250'', banner_match)]\<rparr>)
     (Some override_request) (FloorContext ''banner'' ''300x250'') =
     Inr (Matched banner_match,
          banner_catalog\<lparr>matchingInputs := [(''banner-300x250'', banner_match)]\<rparr>) \<and>
   ortb2Imp_floorMin override_request = Some (Num 2) \<and>
   matchingRule banner_match = Some ''banner|300x250'' \<and>
   map_of (rule_values banner_catalog) ''banner|300x250'' = Some (Num (3/2)) \<and>
   floorMin banner_match = Num 0 \<and>
   matchingFloor banner_match = Num (3/2) \<and>
   Math_max (Num 2) (Some (Num (3/2))) = Num 2 \<and>
   getFirstMatchingFloor context_fmf banner_catalog (Some override_request)
     (FloorContext ''banner'' ''300x250'') =
     Inr (Matched (banner_match\<lparr>floorMin := Num 2, matchingFloor := Num 2\<rparr>),
          banner_catalog\<lparr>matchingInputs :=
            [(''banner-300x250'', banner_match\<lparr>floorMin := Num 2, matchingFloor := Num 2\<rparr>)]\<rparr>)"
proof -
  have stored: "getFirstMatchingFloor context_fmf
     (banner_catalog\<lparr>matchingInputs := [(''banner-300x250'', banner_match)]\<rparr>)
     (Some override_request) (FloorContext ''banner'' ''300x250'') =
     Inr (Matched banner_match,
          banner_catalog\<lparr>matchingInputs := [(''banner-300x250'', banner_match)]\<rparr>)"
    by (simp add: getFirstMatchingFloor_def banner_values banner_catalog_def
        matchingInput_def first_value_def)
  have fresh: "getFirstMatchingFloor context_fmf banner_catalog (Some override_request)
     (FloorContext ''banner'' ''300x250'') =
     Inr (Matched (banner_match\<lparr>floorMin := Num 2, matchingFloor := Num 2\<rparr>),
          banner_catalog\<lparr>matchingInputs :=
            [(''banner-300x250'', banner_match\<lparr>floorMin := Num 2, matchingFloor := Num 2\<rparr>)]\<rparr>)"
    by (simp add: getFirstMatchingFloor_def banner_values banner_candidates banner_catalog_def
        delimiter_of_def matchingInput_def first_value_def banner_match_def override_request_def
        Let_def)
  from stored fresh show ?thesis
    using banner_first_match
    by (simp add: override_request_def banner_match_def banner_catalog_def)
qed

section \<open>Properties of the enforcement pipeline\<close>

lemma addFloorDataToBid_keeps_bid:
  "addFloorDataToBid floorData info bid adjusted = Inr bid' \<Longrightarrow>
     bid'\<lparr>bid_floorData := bid_floorData bid\<rparr> = bid \<and>
     (\<exists>fd. bid_floorData bid' = Some fd \<and> cpmAfterAdjustments fd = adjusted \<and>
           floorValue fd = matchingFloor info \<and> floorRule fd = matchingRule info \<and>
           bid_floorRuleValue fd = floorRuleValue info \<and>
           floorCurrency fd = currency (floors_data floorData) \<and>
           enforcements fd = floors_enforcement floorData) \<and> dealId bid' = dealId bid"
  by (auto simp: addFloorDataToBid_def Let_def split: option.splits if_splits)

lemma addFloorDataToBid_with_key:
  "matchingData info = Some key \<Longrightarrow> \<exists>bid'. addFloorDataToBid floorData info bid adjusted = Inr bid'"
  by (simp add: addFloorDataToBid_def Let_def)

lemma getFirstMatchingFloor_only_memo:
  "getFirstMatchingFloor fmf fd q r = Inr (res, fd') \<Longrightarrow> \<exists>m. fd' = fd\<lparr>matchingInputs := m\<rparr>"
  by (auto simp: getFirstMatchingFloor_def Let_def split: if_splits option.splits sum.splits
      intro: exI [where x = "matchingInputs fd"])

text \<open>
  A context none of whose candidate keys is in the rule table has no floor: the floor is
  \<open>Math.max(floorMin, undefined)\<close>, which is \<open>NaN\<close>, whatever the floor minimum is,
  unless the rule table has a rule named \<open>undefined\<close>.
\<close>

lemma unmatched_context_has_no_floor:
  assumes fs: "schema_fields fd = Some fs" "fs \<noteq> []"
    and fv: "fieldValues = enumeratePossibleFieldValues (\<lambda>field. fmf field request response) fs"
    and miss: "map_of (matchingInputs fd) (matchingInput fieldValues) = None"
    and cands: "generatePossibleEnumerations fieldValues (delimiter_of (schema_delimiter fd)) = Inr candidates"
    and none: "find (\<lambda>key. map_of (rule_values fd) key \<noteq> None) candidates = None"
    and undef: "map_of (rule_values fd) ''undefined'' = None"
  shows "\<exists>info fd'.
           getFirstMatchingFloor fmf fd request response = Inr (Matched info, fd') \<and>
           matchingFloor info = NaN \<and> floorRuleValue info = None \<and> matchingRule info = None"
proof -
  from fs fv have ne: "fieldValues \<noteq> []"
    by (simp add: enumeratePossibleFieldValues_def)
  show ?thesis
    using fs ne miss cands none undef
    by (auto simp: getFirstMatchingFloor_def fv [symmetric] Let_def split: option.splits)
qed

subsection \<open>The examples, evaluated\<close>

lemma example_fields:
  "floors_enforcement (auction_of catalog flags) = flags"
  "floors_data (auction_of catalog flags) = catalog"
  "skipped (auction_of catalog flags) = False"
  "auction_of catalog flags\<lparr>floors_data := d\<rparr> = auction_of d flags"
  "dealId (banner_bid price deal) = deal"
  "cpm (banner_bid price deal) = price"
  "bid_auctionId (banner_bid price deal) = ''a1''"
  "bid_floorData (banner_bid price deal) = None"
  by (simp_all add: auction_of_def banner_bid_def)

lemma bid_values:
  "enumeratePossibleFieldValues (\<lambda>field. context_fmf field q (BidContext (banner_bid price deal)))
     [Named ''mediaType'', Named ''size''] = [[''banner'', ''*''], [''300x250'', ''*'']]"
  by (simp add: enumeratePossibleFieldValues_def context_fmf_def banner_bid_def
      toLowerCase_def lower_char_def)

lemma one_first_match:
  "getFirstMatchingFloor context_fmf one_catalog None (BidContext (banner_bid price deal)) =
     Inr (Matched one_match,
          one_catalog\<lparr>matchingInputs := [(''banner-300x250'', one_match)]\<rparr>)"
  by (simp add: getFirstMatchingFloor_def bid_values banner_candidates banner_catalog_def
      one_catalog_def delimiter_of_def matchingInput_def first_value_def one_match_def Let_def)

lemma zero_first_match:
  "getFirstMatchingFloor context_fmf zero_catalog None (BidContext (banner_bid price deal)) =
     Inr (Matched zero_match,
          zero_catalog\<lparr>matchingInputs := [(''banner-300x250'', zero_match)]\<rparr>)"
  by (simp add: getFirstMatchingFloor_def bid_values banner_candidates banner_catalog_def
      zero_catalog_def delimiter_of_def matchingInput_def first_value_def zero_match_def Let_def)

lemma usd: "toUpperCase ''USD'' = ''USD''"
  by (simp add: toUpperCase_def upper_char_def)

lemma no_index: "getBidRequest plain_externals bid = None"
  by (simp add: plain_externals_def)

lemma no_adjustment: "getBiddersCpmAdjustment plain_externals price bid request = price"
  by (simp add: getBiddersCpmAdjustment_def plain_externals_def)

lemma dollar_price:
  "currency d = ''USD'' \<Longrightarrow>
   cpmInFloorCurrency plain_externals (auction_of d flags) (banner_bid price deal) = Some price"
  by (simp add: cpmInFloorCurrency_def auction_of_def banner_bid_def usd)

lemma div1_values:
  "enumeratePossibleFieldValues (\<lambda>field. context_fmf field q (BidContext (banner_bid price deal)))
     [Named ''adUnitCode''] = [[''div1'', ''*'']]"
  "enumeratePossibleFieldValues (\<lambda>field. context_fmf field q (FloorContext mt sz))
     [Named ''adUnitCode''] = [[''div1'', ''*'']]"
  by (simp_all add: enumeratePossibleFieldValues_def context_fmf_def toLowerCase_def lower_char_def)

lemma div1_candidates:
  "generatePossibleEnumerations [[''div1'', ''*'']] ''|'' = Inr [''div1'', ''*'']"
  by (simp add: generatePossibleEnumerations_def generated_def split_js_def)

lemma undefined_first_match:
  "getFirstMatchingFloor context_fmf undefined_catalog None (BidContext (banner_bid price deal)) =
     Inr (Matched undefined_match,
          undefined_catalog\<lparr>matchingInputs := [(''div1'', undefined_match)]\<rparr>)"
  "getFirstMatchingFloor context_fmf undefined_catalog (Some banner_request) (FloorContext mt sz) =
     Inr (Matched undefined_match,
          undefined_catalog\<lparr>matchingInputs := [(''div1'', undefined_match)]\<rparr>)"
  by (simp_all add: getFirstMatchingFloor_def div1_values div1_candidates undefined_catalog_def
      delimiter_of_def matchingInput_def first_value_def undefined_match_def Let_def
      banner_request_def)

lemma five_adjusted: "calculateAdjustedFloor (Num 5) (Num 5) = Num 5"
  by (simp add: calculateAdjustedFloor_def)

subsection \<open>The decision of the hook\<close>

text \<open>
  C2. A bid of an auction with floor data that is not skipped, matched with a floor that
  is not zero, is rejected with the reason \<open>FLOOR_NOT_MET\<close> if and only if \<open>enforceJS\<close>
  is not \<open>false\<close>, the adjusted cpm of the bid (its cpm in the currency of the floor,
  after the bidder's adjustment) is below the floor, and \<open>floorDeals\<close> is \<open>true\<close> or the
  bid has no deal; otherwise the hook calls the next function of the pipeline with the
  same ad unit code and the bid, which differs from the incoming bid in its
  \<open>floorData\<close> at most. The match result is one that carries its key, as every result
  that \<open>getFirstMatchingFloor\<close> computes does.
\<close>

theorem enforcement_decision:
  assumes table: "floorDataForAuction (bid_auctionId bid) = Some floorData"
    and active: "\<not> skipped floorData"
    and resolved: "getFirstMatchingFloor fmf (floors_data floorData) (getBidRequest ext bid)
                     (BidContext bid) = Inr (Matched info, data')"
    and nonzero: "truthy (matchingFloor info)"
    and key: "matchingData info = Some key"
  shows "\<exists>action bid'.
           addBidResponseHook ext fmf floorDataForAuction adUnitCode bid =
             Inr (action, bid',
                  floorDataForAuction(bid_auctionId bid \<mapsto> floorData\<lparr>floors_data := data'\<rparr>)) \<and>
           (action = Rejected FLOOR_NOT_MET \<longleftrightarrow>
              enforceJS (floors_enforcement floorData) \<noteq> Some False \<and>
              (\<exists>baseCpm. cpmInFloorCurrency ext (floorData\<lparr>floors_data := data'\<rparr>) bid = Some baseCpm \<and>
                 js_lt (getBiddersCpmAdjustment ext baseCpm (Some bid) (getBidRequest ext bid))
                       (matchingFloor info)) \<and>
              (floorDeals (floors_enforcement floorData) = Some True \<or> dealId bid = [])) \<and>
           (action \<noteq> Rejected FLOOR_NOT_MET \<longrightarrow>
              action = Continue adUnitCode \<and> bid'\<lparr>bid_floorData := bid_floorData bid\<rparr> = bid)"
proof (cases "cpmInFloorCurrency ext (floorData\<lparr>floors_data := data'\<rparr>) bid")
  case None
  with table active resolved nonzero show ?thesis
    by (simp add: addBidResponseHook_def)
next
  case (Some baseCpm)
  define adjusted where "adjusted = getBiddersCpmAdjustment ext baseCpm (Some bid) (getBidRequest ext bid)"
  from key obtain bid' where
    add: "addFloorDataToBid (floorData\<lparr>floors_data := data'\<rparr>) info bid adjusted = Inr bid'"
    using addFloorDataToBid_with_key by blast
  from addFloorDataToBid_keeps_bid [OF add] obtain fd where
    same: "bid'\<lparr>bid_floorData := bid_floorData bid\<rparr> = bid" and
    fd: "bid_floorData bid' = Some fd" "cpmAfterAdjustments fd = adjusted" and
    deal: "dealId bid' = dealId bid"
    by blast
  from fd deal have floored: "shouldFloorBid (floorData\<lparr>floors_data := data'\<rparr>) info bid' =
      Inr (enforceJS (floors_enforcement floorData) \<noteq> Some False \<and>
           (js_lt adjusted (matchingFloor info) \<and>
            (floorDeals (floors_enforcement floorData) = Some True \<or> dealId bid = [])))"
    by (simp add: shouldFloorBid_def)
  let ?floored = "enforceJS (floors_enforcement floorData) \<noteq> Some False \<and>
           (js_lt adjusted (matchingFloor info) \<and>
            (floorDeals (floors_enforcement floorData) = Some True \<or> dealId bid = []))"
  from table active resolved nonzero Some add floored
  have hook: "addBidResponseHook ext fmf floorDataForAuction adUnitCode bid =
      Inr (if ?floored then Rejected FLOOR_NOT_MET else Continue adUnitCode, bid',
           floorDataForAuction(bid_auctionId bid \<mapsto> floorData\<lparr>floors_data := data'\<rparr>))"
    by (simp add: addBidResponseHook_def Let_def adjusted_def [symmetric])
  show ?thesis
  proof (cases ?floored)
    case True
    with hook Some show ?thesis by (simp add: adjusted_def)
  next
    case False
    with hook Some same show ?thesis by (auto simp: adjusted_def)
  qed
qed

text \<open>
  C2 at the specification's example: a bid of 0.99 against a floor of 1 is rejected; with
  a deal and \<open>floorDeals = false\<close> it is accepted; with \<open>enforceJS = false\<close> it is
  accepted.
\<close>

theorem enforcement_decision_witness:
  "(\<exists>bid'. addBidResponseHook plain_externals context_fmf
              [''a1'' \<mapsto> auction_of one_catalog default_enforcement] ''div1''
              (banner_bid (Num (99/100)) []) =
            Inr (Rejected FLOOR_NOT_MET, bid',
                 [''a1'' \<mapsto> auction_of
                    (one_catalog\<lparr>matchingInputs := [(''banner-300x250'', one_match)]\<rparr>)
                    default_enforcement])) \<and>
   (\<exists>bid'. addBidResponseHook plain_externals context_fmf
              [''a1'' \<mapsto> auction_of one_catalog default_enforcement] ''div1''
              (banner_bid (Num (99/100)) ''deal7'') =
            Inr (Continue ''div1'', bid',
                 [''a1'' \<mapsto> auction_of
                    (one_catalog\<lparr>matchingInputs := [(''banner-300x250'', one_match)]\<rparr>)
                    default_enforcement])) \<and>
   (\<exists>bid'. addBidResponseHook plain_externals context_fmf
              [''a1'' \<mapsto> auction_of one_catalog (default_enforcement\<lparr>enforceJS := Some False\<rparr>)]
              ''div1'' (banner_bid (Num (99/100)) []) =
            Inr (Continue ''div1'', bid',
                 [''a1'' \<mapsto> auction_of
                    (one_catalog\<lparr>matchingInputs := [(''banner-300x250'', one_match)]\<rparr>)
                    (default_enforcement\<lparr>enforceJS := Some False\<rparr>)]))"
proof -
  have hyps: "[''a1'' \<mapsto> auction_of one_catalog flags] (bid_auctionId (banner_bid price deal)) =
        Some (auction_of one_catalog flags)"
    "\<not> skipped (auction_of one_catalog flags)"
    "getFirstMatchingFloor context_fmf (floors_data (auction_of one_catalog flags))
       (getBidRequest plain_externals (banner_bid price deal)) (BidContext (banner_bid price deal)) =
     Inr (Matched one_match, one_catalog\<lparr>matchingInputs := [(''banner-300x250'', one_match)]\<rparr>)"
    "truthy (matchingFloor one_match)"
    "matchingData one_match = Some ''banner|300x250''"
    for flags price deal
  proof -
    show "[''a1'' \<mapsto> auction_of one_catalog flags] (bid_auctionId (banner_bid price deal)) =
        Some (auction_of one_catalog flags)"
      by (simp add: banner_bid_def)
    show "\<not> skipped (auction_of one_catalog flags)"
      by (simp add: auction_of_def)
    have "getBidRequest plain_externals (banner_bid price deal) = None"
      by (simp add: plain_externals_def)
    then show "getFirstMatchingFloor context_fmf (floors_data (auction_of one_catalog flags))
       (getBidRequest plain_externals (banner_bid price deal)) (BidContext (banner_bid price deal)) =
     Inr (Matched one_match, one_catalog\<lparr>matchingInputs := [(''banner-300x250'', one_match)]\<rparr>)"
      by (simp add: auction_of_def one_first_match)
    show "truthy (matchingFloor one_match)" "matchingData one_match = Some ''banner|300x250''"
      by (simp_all add: one_match_def)
  qed
  have price: "cpmInFloorCurrency plain_externals (auction_of d flags) (banner_bid p deal) = Some p"
    if "currency d = ''USD''" for flags d p deal
    using that by (simp add: cpmInFloorCurrency_def auction_of_def banner_bid_def usd)
  have adj: "getBiddersCpmAdjustment plain_externals p b r = p" for p b r
    by (simp add: getBiddersCpmAdjustment_def plain_externals_def)
  have cur: "currency (one_catalog\<lparr>matchingInputs := m\<rparr>) = ''USD''" for m
    by (simp add: one_catalog_def banner_catalog_def)
  from enforcement_decision [where floorDataForAuction = "[''a1'' \<mapsto> auction_of one_catalog (default_enforcement)]"
      and bid = "banner_bid (Num (99/100)) []" and floorData = "auction_of one_catalog (default_enforcement)"
      and ext = plain_externals and fmf = context_fmf and info = one_match
      and data' = "one_catalog\<lparr>matchingInputs := [(''banner-300x250'', one_match)]\<rparr>"
      and key = "''banner|300x250''" and adUnitCode = "''div1''", OF hyps]
  have a: "\<exists>bid'. addBidResponseHook plain_externals context_fmf
              [''a1'' \<mapsto> auction_of one_catalog default_enforcement] ''div1''
              (banner_bid (Num (99/100)) []) =
            Inr (Rejected FLOOR_NOT_MET, bid',
                 [''a1'' \<mapsto> auction_of
                    (one_catalog\<lparr>matchingInputs := [(''banner-300x250'', one_match)]\<rparr>)
                    default_enforcement])"
    by (auto simp: price cur adj example_fields default_enforcement_def one_match_def)
  from enforcement_decision [where floorDataForAuction = "[''a1'' \<mapsto> auction_of one_catalog (default_enforcement)]"
      and bid = "banner_bid (Num (99/100)) ''deal7''" and floorData = "auction_of one_catalog (default_enforcement)"
      and ext = plain_externals and fmf = context_fmf and info = one_match
      and data' = "one_catalog\<lparr>matchingInputs := [(''banner-300x250'', one_match)]\<rparr>"
      and key = "''banner|300x250''" and adUnitCode = "''div1''", OF hyps]
  have b: "\<exists>bid'. addBidResponseHook plain_externals context_fmf
              [''a1'' \<mapsto> auction_of one_catalog default_enforcement] ''div1''
              (banner_bid (Num (99/100)) ''deal7'') =
            Inr (Continue ''div1'', bid',
                 [''a1'' \<mapsto> auction_of
                    (one_catalog\<lparr>matchingInputs := [(''banner-300x250'', one_match)]\<rparr>)
                    default_enforcement])"
    by (auto simp: price cur adj example_fields default_enforcement_def one_match_def)
  from enforcement_decision [where floorDataForAuction = "[''a1'' \<mapsto> auction_of one_catalog (default_enforcement\<lparr>enforceJS := Some False\<rparr>)]"
      and bid = "banner_bid (Num (99/100)) []" and floorData = "auction_of one_catalog (default_enforcement\<lparr>enforceJS := Some False\<rparr>)"
      and ext = plain_externals and fmf = context_fmf and info = one_match
      and data' = "one_catalog\<lparr>matchingInputs := [(''banner-300x250'', one_match)]\<rparr>"
      and key = "''banner|300x250''" and adUnitCode = "''div1''", OF hyps]
  have c: "\<exists>bid'. addBidResponseHook plain_externals context_fmf
              [''a1'' \<mapsto> auction_of one_catalog (default_enforcement\<lparr>enforceJS := Some False\<rparr>)]
              ''div1'' (banner_bid (Num (99/100)) []) =
            Inr (Continue ''div1'', bid',
                 [''a1'' \<mapsto> auction_of
                    (one_catalog\<lparr>matchingInputs := [(''banner-300x250'', one_match)]\<rparr>)
                    (default_enforcement\<lparr>enforceJS := Some False\<rparr>)])"
    by (auto simp: price cur adj example_fields default_enforcement_def one_match_def)
  from a b c show ?thesis by blast
qed

text \<open>
  C7, as amended. For a bid with floor data that is not skipped: when the resolved floor
  is falsy (the catalog declares no field, or the floor is \<open>NaN\<close>, as it is when no
  candidate matched, or it is exactly 0) the hook passes the bid on as it came, without
  floor data and without enforcement. When the floor is not zero and the cpm of the bid
  can be expressed in the currency of the floor, the bid that leaves the hook, rejected or
  not, carries the floor context: the floor, the rule (none for the default rule), the
  rule's value, the currency, the adjusted cpm, the enforcement flags, and for each field
  of the schema the piece of the matched key at its position.
\<close>

theorem floor_context_attached:
  assumes table: "floorDataForAuction (bid_auctionId bid) = Some floorData"
    and active: "\<not> skipped floorData"
    and resolved: "getFirstMatchingFloor fmf (floors_data floorData) (getBidRequest ext bid)
                     (BidContext bid) = Inr (result, data')"
  shows "(result = NoFields \<or> (\<exists>info. result = Matched info \<and> \<not> truthy (matchingFloor info)) \<longrightarrow>
            addBidResponseHook ext fmf floorDataForAuction adUnitCode bid =
              Inr (Continue adUnitCode, bid,
                   floorDataForAuction(bid_auctionId bid \<mapsto> floorData\<lparr>floors_data := data'\<rparr>))) \<and>
         (\<forall>info key baseCpm fs.
            result = Matched info \<and> truthy (matchingFloor info) \<and> matchingData info = Some key \<and>
            cpmInFloorCurrency ext (floorData\<lparr>floors_data := data'\<rparr>) bid = Some baseCpm \<and>
            schema_fields (floors_data floorData) = Some fs \<longrightarrow>
            (\<exists>action attached.
               addBidResponseHook ext fmf floorDataForAuction adUnitCode bid =
                 Inr (action, bid\<lparr>bid_floorData := Some attached\<rparr>,
                      floorDataForAuction(bid_auctionId bid \<mapsto> floorData\<lparr>floors_data := data'\<rparr>)) \<and>
               floorValue attached = matchingFloor info \<and>
               floorRule attached = matchingRule info \<and>
               bid_floorRuleValue attached = floorRuleValue info \<and>
               floorCurrency attached = currency (floors_data floorData) \<and>
               cpmAfterAdjustments attached =
                 getBiddersCpmAdjustment ext baseCpm (Some bid) (getBidRequest ext bid) \<and>
               enforcements attached = floors_enforcement floorData \<and>
               map_of (matchedFields attached) =
                 Map.empty (fs [\<mapsto>]
                   map (item (case schema_delimiter (floors_data floorData) of
                                None \<Rightarrow> [key] | Some d \<Rightarrow> split_js key d))
                     [0..<length fs])))"
proof (intro conjI allI impI)
  assume "result = NoFields \<or> (\<exists>info. result = Matched info \<and> \<not> truthy (matchingFloor info))"
  with table active resolved
  show "addBidResponseHook ext fmf floorDataForAuction adUnitCode bid =
          Inr (Continue adUnitCode, bid,
               floorDataForAuction(bid_auctionId bid \<mapsto> floorData\<lparr>floors_data := data'\<rparr>))"
    by (auto simp: addBidResponseHook_def)
next
  fix info key baseCpm fs
  assume a: "result = Matched info \<and> truthy (matchingFloor info) \<and> matchingData info = Some key \<and>
            cpmInFloorCurrency ext (floorData\<lparr>floors_data := data'\<rparr>) bid = Some baseCpm \<and>
            schema_fields (floors_data floorData) = Some fs"
  from resolved obtain m where d': "data' = (floors_data floorData)\<lparr>matchingInputs := m\<rparr>"
    using getFirstMatchingFloor_only_memo by blast
  define adjusted where "adjusted = getBiddersCpmAdjustment ext baseCpm (Some bid) (getBidRequest ext bid)"
  define pieces where "pieces = (case schema_delimiter (floors_data floorData) of
                                None \<Rightarrow> [key] | Some d \<Rightarrow> split_js key d)"
  define attached where "attached =
     \<lparr>floorValue = matchingFloor info, floorRule = matchingRule info,
      bid_floorRuleValue = floorRuleValue info,
      floorCurrency = currency (floors_data floorData),
      cpmAfterAdjustments = adjusted,
      enforcements = floors_enforcement floorData,
      matchedFields = AList.updates fs (map (item pieces) [0..<length fs]) []\<rparr>"
  from a have add: "addFloorDataToBid (floorData\<lparr>floors_data := data'\<rparr>) info bid adjusted =
      Inr (bid\<lparr>bid_floorData := Some attached\<rparr>)"
    by (simp add: addFloorDataToBid_def d' attached_def pieces_def)
  obtain floored where fl: "shouldFloorBid (floorData\<lparr>floors_data := data'\<rparr>) info
      (bid\<lparr>bid_floorData := Some attached\<rparr>) = Inr floored"
    by (simp add: shouldFloorBid_def)
  from table active resolved a add fl
  have "addBidResponseHook ext fmf floorDataForAuction adUnitCode bid =
      Inr (if floored then Rejected FLOOR_NOT_MET else Continue adUnitCode,
           bid\<lparr>bid_floorData := Some attached\<rparr>,
           floorDataForAuction(bid_auctionId bid \<mapsto> floorData\<lparr>floors_data := data'\<rparr>))"
    by (simp add: addBidResponseHook_def Let_def adjusted_def [symmetric])
  moreover have "map_of (matchedFields attached) =
      Map.empty (fs [\<mapsto>] map (item pieces) [0..<length fs])"
    by (simp add: attached_def updates_conv')
  ultimately show "\<exists>action attached.
               addBidResponseHook ext fmf floorDataForAuction adUnitCode bid =
                 Inr (action, bid\<lparr>bid_floorData := Some attached\<rparr>,
                      floorDataForAuction(bid_auctionId bid \<mapsto> floorData\<lparr>floors_data := data'\<rparr>)) \<and>
               floorValue attached = matchingFloor info \<and>
               floorRule attached = matchingRule info \<and>
               bid_floorRuleValue attached = floorRuleValue info \<and>
               floorCurrency attached = currency (floors_data floorData) \<and>
               cpmAfterAdjustments attached =
                 getBiddersCpmAdjustment ext baseCpm (Some bid) (getBidRequest ext bid) \<and>
               enforcements attached = floors_enforcement floorData \<and>
               map_of (matchedFields attached) =
                 Map.empty (fs [\<mapsto>]
                   map (item (case schema_delimiter (floors_data floorData) of
                                None \<Rightarrow> [key] | Some d \<Rightarrow> split_js key d))
                     [0..<length fs])"
    by (intro exI [where x = "if floored then Rejected FLOOR_NOT_MET else Continue adUnitCode"]
        exI [where x = attached]) (simp add: attached_def adjusted_def pieces_def)
qed

text \<open>
  The amended C7 at a floor of 0, where the bid passes as it came, and at a floor of 1 with
  a bid of 2, which is accepted with its floor context.
\<close>

theorem floor_context_attached_witness:
  "addBidResponseHook plain_externals context_fmf
     [''a1'' \<mapsto> auction_of zero_catalog default_enforcement] ''div1'' (banner_bid (Num 0) []) =
     Inr (Continue ''div1'', banner_bid (Num 0) [],
          [''a1'' \<mapsto> auction_of
             (zero_catalog\<lparr>matchingInputs := [(''banner-300x250'', zero_match)]\<rparr>)
             default_enforcement]) \<and>
   (\<exists>action attached.
      addBidResponseHook plain_externals context_fmf
        [''a1'' \<mapsto> auction_of one_catalog default_enforcement] ''div1'' (banner_bid (Num 2) []) =
        Inr (action, banner_bid (Num 2) []\<lparr>bid_floorData := Some attached\<rparr>,
             [''a1'' \<mapsto> auction_of
                (one_catalog\<lparr>matchingInputs := [(''banner-300x250'', one_match)]\<rparr>)
                default_enforcement]) \<and>
      floorValue attached = Num 1 \<and> floorRule attached = Some ''banner|*'' \<and>
      bid_floorRuleValue attached = Some (Num 1) \<and> floorCurrency attached = ''USD'' \<and>
      cpmAfterAdjustments attached = Num 2 \<and> enforcements attached = default_enforcement \<and>
      map_of (matchedFields attached) =
        [Named ''mediaType'' \<mapsto> Some ''banner'', Named ''size'' \<mapsto> Some ''300x250''])"
proof -
  have z: "[''a1'' \<mapsto> auction_of zero_catalog default_enforcement]
             (bid_auctionId (banner_bid (Num 0) [])) = Some (auction_of zero_catalog default_enforcement)"
    "\<not> skipped (auction_of zero_catalog default_enforcement)"
    "getFirstMatchingFloor context_fmf (floors_data (auction_of zero_catalog default_enforcement))
       (getBidRequest plain_externals (banner_bid (Num 0) [])) (BidContext (banner_bid (Num 0) [])) =
     Inr (Matched zero_match, zero_catalog\<lparr>matchingInputs := [(''banner-300x250'', zero_match)]\<rparr>)"
    by (simp_all add: example_fields no_index zero_first_match)
  have o: "[''a1'' \<mapsto> auction_of one_catalog default_enforcement]
             (bid_auctionId (banner_bid (Num 2) [])) = Some (auction_of one_catalog default_enforcement)"
    "\<not> skipped (auction_of one_catalog default_enforcement)"
    "getFirstMatchingFloor context_fmf (floors_data (auction_of one_catalog default_enforcement))
       (getBidRequest plain_externals (banner_bid (Num 2) [])) (BidContext (banner_bid (Num 2) [])) =
     Inr (Matched one_match, one_catalog\<lparr>matchingInputs := [(''banner-300x250'', one_match)]\<rparr>)"
    by (simp_all add: example_fields no_index one_first_match)
  have pieces: "split_js ''banner|300x250'' ''|'' = [''banner'', ''300x250'']"
    by (simp add: split_js_def)
  from floor_context_attached [where floorDataForAuction = "[''a1'' \<mapsto> auction_of zero_catalog default_enforcement]"
      and bid = "banner_bid (Num 0) []" and floorData = "auction_of zero_catalog default_enforcement"
      and ext = plain_externals and fmf = context_fmf and result = "Matched zero_match"
      and data' = "zero_catalog\<lparr>matchingInputs := [(''banner-300x250'', zero_match)]\<rparr>"
      and adUnitCode = "''div1''", OF z]
  have a: "addBidResponseHook plain_externals context_fmf
     [''a1'' \<mapsto> auction_of zero_catalog default_enforcement] ''div1'' (banner_bid (Num 0) []) =
     Inr (Continue ''div1'', banner_bid (Num 0) [],
          [''a1'' \<mapsto> auction_of
             (zero_catalog\<lparr>matchingInputs := [(''banner-300x250'', zero_match)]\<rparr>)
             default_enforcement])"
    by (simp add: example_fields zero_match_def)
  from floor_context_attached [where floorDataForAuction = "[''a1'' \<mapsto> auction_of one_catalog default_enforcement]"
      and bid = "banner_bid (Num 2) []" and floorData = "auction_of one_catalog default_enforcement"
      and ext = plain_externals and fmf = context_fmf and result = "Matched one_match"
      and data' = "one_catalog\<lparr>matchingInputs := [(''banner-300x250'', one_match)]\<rparr>"
      and adUnitCode = "''div1''", OF o]
  have "\<forall>info key baseCpm fs.
            Matched one_match = Matched info \<and> truthy (matchingFloor info) \<and> matchingData info = Some key \<and>
            cpmInFloorCurrency plain_externals
              (auction_of one_catalog default_enforcement
                 \<lparr>floors_data := one_catalog\<lparr>matchingInputs := [(''banner-300x250'', one_match)]\<rparr>\<rparr>)
              (banner_bid (Num 2) []) = Some baseCpm \<and>
            schema_fields (floors_data (auction_of one_catalog default_enforcement)) = Some fs \<longrightarrow>
            (\<exists>action attached.
               addBidResponseHook plain_externals context_fmf
                 [''a1'' \<mapsto> auction_of one_catalog default_enforcement] ''div1'' (banner_bid (Num 2) []) =
                 Inr (action, banner_bid (Num 2) []\<lparr>bid_floorData := Some attached\<rparr>,
                      [''a1'' \<mapsto> auction_of one_catalog default_enforcement]
                      (bid_auctionId (banner_bid (Num 2) []) \<mapsto>
                         auction_of one_catalog default_enforcement
                           \<lparr>floors_data := one_catalog\<lparr>matchingInputs := [(''banner-300x250'', one_match)]\<rparr>\<rparr>)) \<and>
               floorValue attached = matchingFloor info \<and>
               floorRule attached = matchingRule info \<and>
               bid_floorRuleValue attached = floorRuleValue info \<and>
               floorCurrency attached = currency (floors_data (auction_of one_catalog default_enforcement)) \<and>
               cpmAfterAdjustments attached =
                 getBiddersCpmAdjustment plain_externals baseCpm (Some (banner_bid (Num 2) []))
                   (getBidRequest plain_externals (banner_bid (Num 2) [])) \<and>
               enforcements attached = floors_enforcement (auction_of one_catalog default_enforcement) \<and>
               map_of (matchedFields attached) =
                 Map.empty (fs [\<mapsto>]
                   map (item (case schema_delimiter (floors_data (auction_of one_catalog default_enforcement)) of
                                None \<Rightarrow> [key] | Some d \<Rightarrow> split_js key d))
                     [0..<length fs]))"
    by (rule conjunct2)
  from this [rule_format, of one_match "''banner|300x250''" "Num 2" "[Named ''mediaType'', Named ''size'']"]
  have b: "\<exists>action attached.
      addBidResponseHook plain_externals context_fmf
        [''a1'' \<mapsto> auction_of one_catalog default_enforcement] ''div1'' (banner_bid (Num 2) []) =
        Inr (action, banner_bid (Num 2) []\<lparr>bid_floorData := Some attached\<rparr>,
             [''a1'' \<mapsto> auction_of
                (one_catalog\<lparr>matchingInputs := [(''banner-300x250'', one_match)]\<rparr>)
                default_enforcement]) \<and>
      floorValue attached = Num 1 \<and> floorRule attached = Some ''banner|*'' \<and>
      bid_floorRuleValue attached = Some (Num 1) \<and> floorCurrency attached = ''USD'' \<and>
      cpmAfterAdjustments attached = Num 2 \<and> enforcements attached = default_enforcement \<and>
      map_of (matchedFields attached) =
        [Named ''mediaType'' \<mapsto> Some ''banner'', Named ''size'' \<mapsto> Some ''300x250'']"
    by (simp add: example_fields one_match_def dollar_price no_adjustment no_index
        one_catalog_def banner_catalog_def pieces item_def upt_rec [of 0])
  from a b show ?thesis by blast
qed

text \<open>
  C7 as stated fails: the rule \<open>banner|300x250\<close> matches with the floor 0, enforcement
  is on and the cpm \<open>-1\<close> of the bid is below the floor, but the hook passes the bid on
  and attaches no floor context.
\<close>

theorem zero_floor_counterexample:
  "getFirstMatchingFloor context_fmf zero_catalog None (BidContext (banner_bid (Num (- 1)) [])) =
     Inr (Matched zero_match,
          zero_catalog\<lparr>matchingInputs := [(''banner-300x250'', zero_match)]\<rparr>) \<and>
   matchingRule zero_match = Some ''banner|300x250'' \<and>
   floorRuleValue zero_match = Some (Num 0) \<and> matchingFloor zero_match = Num 0 \<and>
   enforceJS default_enforcement = Some True \<and>
   js_lt (cpm (banner_bid (Num (- 1)) [])) (matchingFloor zero_match) \<and>
   addBidResponseHook plain_externals context_fmf
     [''a1'' \<mapsto> auction_of zero_catalog default_enforcement] ''div1'' (banner_bid (Num (- 1)) []) =
     Inr (Continue ''div1'', banner_bid (Num (- 1)) [],
          [''a1'' \<mapsto> auction_of
             (zero_catalog\<lparr>matchingInputs := [(''banner-300x250'', zero_match)]\<rparr>)
             default_enforcement]) \<and>
   bid_floorData (banner_bid (Num (- 1)) []) = None"
  by (simp add: addBidResponseHook_def example_fields no_index zero_first_match zero_match_def
      default_enforcement_def)

text \<open>
  C10 fails on the code by the property read \<open>floorData.values[matchingRule]\<close>. The
  catalog has the field \<open>adUnitCode\<close> and the single rule \<open>undefined\<close>; the ad unit
  \<open>div1\<close> has the candidates \<open>div1\<close> and \<open>*\<close>, none of them in the rule table. The
  match reads the rule named \<open>undefined\<close> and returns the floor 5 without a matching
  rule, \<open>getFloor\<close> returns that floor, and the hook rejects a bid of 1.
\<close>

theorem undefined_rule_gives_floor:
  "generatePossibleEnumerations
     (enumeratePossibleFieldValues
        (\<lambda>field. context_fmf field None (BidContext (banner_bid (Num 1) [])))
        [Named ''adUnitCode'']) ''|'' = Inr [''div1'', ''*''] \<and>
   find (\<lambda>key. map_of (rule_values undefined_catalog) key \<noteq> None) [''div1'', ''*''] = None \<and>
   data_floorMin undefined_catalog = None \<and>
   getFirstMatchingFloor context_fmf undefined_catalog None (BidContext (banner_bid (Num 1) [])) =
     Inr (Matched undefined_match,
          undefined_catalog\<lparr>matchingInputs := [(''div1'', undefined_match)]\<rparr>) \<and>
   matchingFloor undefined_match = Num 5 \<and> matchingRule undefined_match = None \<and>
   getFloor plain_externals context_fmf
     [''a1'' \<mapsto> auction_of undefined_catalog default_enforcement] banner_request
     \<lparr>rp_currency = ''USD'', rp_mediaType = ''*'', rp_size = ''*''\<rparr> =
     Inr (Some (Num 5, ''USD''),
          [''a1'' \<mapsto> auction_of
             (undefined_catalog\<lparr>matchingInputs := [(''div1'', undefined_match)]\<rparr>)
             default_enforcement]) \<and>
   addBidResponseHook plain_externals context_fmf
     [''a1'' \<mapsto> auction_of undefined_catalog default_enforcement] ''div1'' (banner_bid (Num 1) []) =
     Inr (Rejected FLOOR_NOT_MET,
          banner_bid (Num 1) []\<lparr>bid_floorData := Some
            \<lparr>floorValue = Num 5, floorRule = None, bid_floorRuleValue = Some (Num 5),
             floorCurrency = ''USD'', cpmAfterAdjustments = Num 1,
             enforcements = default_enforcement,
             matchedFields = [(Named ''adUnitCode'', Some ''div1'')]\<rparr>\<rparr>,
          [''a1'' \<mapsto> auction_of
             (undefined_catalog\<lparr>matchingInputs := [(''div1'', undefined_match)]\<rparr>)
             default_enforcement])"
proof -
  have cur: "currency (undefined_catalog\<lparr>matchingInputs := m\<rparr>) = ''USD''"
    "currency undefined_catalog = ''USD''"
    "schema_fields (undefined_catalog\<lparr>matchingInputs := m\<rparr>) = Some [Named ''adUnitCode'']"
    "schema_delimiter (undefined_catalog\<lparr>matchingInputs := m\<rparr>) = Some ''|''" for m
    by (simp_all add: undefined_catalog_def)
  have a: "getFloor plain_externals context_fmf
     [''a1'' \<mapsto> auction_of undefined_catalog default_enforcement] banner_request
     \<lparr>rp_currency = ''USD'', rp_mediaType = ''*'', rp_size = ''*''\<rparr> =
     Inr (Some (Num 5, ''USD''),
          [''a1'' \<mapsto> auction_of
             (undefined_catalog\<lparr>matchingInputs := [(''div1'', undefined_match)]\<rparr>)
             default_enforcement])"
  proof -
    have upd: "updateRequestParamsFromContext banner_request
        \<lparr>rp_currency = ''USD'', rp_mediaType = ''*'', rp_size = ''*''\<rparr> =
        \<lparr>rp_currency = ''USD'', rp_mediaType = ''banner'', rp_size = ''300x250''\<rparr>"
      by (simp add: updateRequestParamsFromContext_def banner_request_def)
    have ext: "inverseBidAdjustment plain_externals bidder = None"
      "roundUp4 plain_externals f = f" for bidder f
      by (simp_all add: plain_externals_def)
    have rq: "req_auctionId banner_request = ''a1''"
      by (simp add: banner_request_def)
    have fl: "matchingFloor undefined_match = Num 5"
      "bidAdjustment default_enforcement = Some True"
      by (simp_all add: undefined_match_def default_enforcement_def)
    show ?thesis
      by (simp add: getFloor_def upd rq example_fields undefined_first_match cur fl ext
          no_adjustment five_adjusted Let_def)
  qed
  have b: "addBidResponseHook plain_externals context_fmf
     [''a1'' \<mapsto> auction_of undefined_catalog default_enforcement] ''div1'' (banner_bid (Num 1) []) =
     Inr (Rejected FLOOR_NOT_MET,
          banner_bid (Num 1) []\<lparr>bid_floorData := Some
            \<lparr>floorValue = Num 5, floorRule = None, bid_floorRuleValue = Some (Num 5),
             floorCurrency = ''USD'', cpmAfterAdjustments = Num 1,
             enforcements = default_enforcement,
             matchedFields = [(Named ''adUnitCode'', Some ''div1'')]\<rparr>\<rparr>,
          [''a1'' \<mapsto> auction_of
             (undefined_catalog\<lparr>matchingInputs := [(''div1'', undefined_match)]\<rparr>)
             default_enforcement])"
    by (simp add: addBidResponseHook_def example_fields no_index undefined_first_match
        dollar_price cur no_adjustment addFloorDataToBid_def shouldFloorBid_def Let_def
        undefined_match_def default_enforcement_def split_js_def item_def)
  show ?thesis
    using a b
    by (simp add: div1_values div1_candidates undefined_first_match)
      (simp add: undefined_catalog_def undefined_match_def)
qed

section \<open>Properties of the validator\<close>

lemma normalizeDefault_keeps:
  assumes "normalizeDefault model = Inr model1"
  shows "m_delimiter model1 = m_delimiter model"
    "m_default model1 = m_default model"
    "modelWeight model1 = modelWeight model"
    "floorsModel.more model1 = floorsModel.more model"
  using assms
  by (auto simp: normalizeDefault_def Let_def split: if_splits rules.splits)



lemma modelIsValid_accepts:
  "modelIsValid allowed model = Inr (True, model') \<longleftrightarrow>
     (\<exists>model1 fs rs. normalizeDefault model = Inr model1 \<and>
        m_fields model1 = FieldsArray fs \<and> fs \<noteq> [] \<and>
        list_all (\<lambda>field. field \<in> set allowed) fs \<and>
        m_values model1 = Rules rs \<and>
        filter (\<lambda>(key, v). isValidRule key v (length fs) (delimiter_of (m_delimiter model))) rs \<noteq> [] \<and>
        model' = model1\<lparr>m_values := Rules
           (filter (\<lambda>(key, v). isValidRule key v (length fs) (delimiter_of (m_delimiter model))) rs)\<rparr>)"
proof (cases "normalizeDefault model")
  case (Inl e)
  then show ?thesis by (simp add: modelIsValid_def)
next
  case (Inr model1)
  from normalizeDefault_keeps(1) [OF Inr] show ?thesis
    by (cases "m_fields model1"; cases "m_values model1")
      (auto simp: modelIsValid_def Inr validateSchemaFields_def validateRules_def Let_def
        numFields_of_def)
qed



lemma defaultRule_version [simp]:
  "defaultRule (d\<lparr>floorsSchemaVersion := v\<rparr>) = defaultRule d"
  by (simp add: defaultRule_def Let_def)





text \<open>
  The validator does not return on every input. With a numeric default, \<open>values\<close> that
  are a non-empty string make the assignment of the default rule throw; without one,
  \<open>values\<close> that are \<open>null\<close> make \<open>Object.keys\<close> throw. A \<open>schema.fields\<close> that is the
  string \<open>mediaType\<close> has the length 9: the default rule gets nine segments, and the
  fields are refused because they are no array.
\<close>

lemma primitive_values_throw:
  "isFloorsDataValid allowedFields primitive_values = Inl TypeError"
  by (simp add: isFloorsDataValid_def modelIsValid_def normalizeDefault_def Let_def
      primitive_values_def empty_config_def)

lemma null_values_throw:
  "isFloorsDataValid allowedFields null_values = Inl TypeError"
  by (simp add: isFloorsDataValid_def modelIsValid_def normalizeDefault_def
      validateSchemaFields_def validateRules_def Let_def null_values_def empty_config_def
      allowedFields_def)

lemma string_fields_refused:
  "isFloorsDataValid allowedFields string_fields =
     Inr (False, string_fields
       \<lparr>m_values := Rules [(''banner'', JNumber (Num 2)),
                           (''*|*|*|*|*|*|*|*|*'', JNumber (Num 1))],
        m_defaultRule := Some ''*|*|*|*|*|*|*|*|*'', floorsSchemaVersion := Some 1\<rparr>)"
  by (simp add: isFloorsDataValid_def modelIsValid_def normalizeDefault_def defaultRule_def
      numFields_of_def validateSchemaFields_def is_nullish_def Let_def string_fields_def
      empty_config_def delimiter_of_def eval_nat_numeral)

subsection \<open>Validating again\<close>

lemma modelIsValid_validated:
  assumes "modelIsValid allowed model = Inr (True, model')"
  shows "validated allowed model'" and "modelWeight model' = modelWeight model"
    and "floorsModel.more model' = floorsModel.more model"
  using assms
  by (auto simp: modelIsValid_accepts validated_def normalizeDefault_keeps list_all_iff)

lemma update_fresh:
  "k \<notin> fst ` set al \<Longrightarrow> set (AList.update k v al) = insert (k, v) (set al)"
  by (induction al) auto

lemma same_values: "m_values model = r \<Longrightarrow> model\<lparr>m_values := r\<rparr> = model"
  by auto

lemma revalidate_model:
  assumes ok: "validated allowed model"
  shows "\<exists>model'. modelIsValid allowed model = Inr (True, model') \<and> rules_kept model model' \<and>
           (default_settled model \<longrightarrow> model' = model)"
proof -
  from ok obtain fs rs where fs: "m_fields model = FieldsArray fs" "fs \<noteq> []"
      "list_all (\<lambda>field. field \<in> set allowed) fs"
    and rs: "m_values model = Rules rs" "rs \<noteq> []"
    and valid: "\<forall>(key, v)\<in>set rs. isValidRule key v (length fs) (delimiter_of (m_delimiter model))"
    by (auto simp: validated_def list_all_iff split: schemaFields.splits rules.splits)
  let ?P = "\<lambda>(key, v). isValidRule key v (length fs) (delimiter_of (m_delimiter model))"
  have all: "filter ?P rs = rs"
    using valid by (auto simp: filter_id_conv)
  have numbers: "\<not> is_nullish (map_of rs key)" if "map_of rs key \<noteq> None" for key
  proof -
    from that obtain v where v: "map_of rs key = Some v" by auto
    then have "(key, v) \<in> set rs" by (rule map_of_SomeD)
    with valid have "isNumber v" by (auto simp: isValidRule_def split: if_splits)
    with v show ?thesis by (cases v) (auto simp: is_nullish_def)
  qed
  show ?thesis
  proof (cases "isNumber (m_default model) \<and> map_of rs (defaultRule model) = None")
    case False
    then have "normalizeDefault model = Inr model"
      using fs rs numbers by (auto simp: normalizeDefault_def Let_def same_values numFields_of_def)
    with fs rs all have "modelIsValid allowed model = Inr (True, model)"
      by (simp add: modelIsValid_accepts same_values)
    then show ?thesis by (simp add: rules_kept_def)
  next
    case True
    let ?rs' = "AList.update (defaultRule model) (m_default model) rs"
    from True fs rs have n: "normalizeDefault model =
        Inr (model\<lparr>m_values := Rules ?rs', m_defaultRule := Some (defaultRule model)\<rparr>)"
      by (simp add: normalizeDefault_def Let_def is_nullish_def numFields_of_def)
    from True have "defaultRule model \<notin> fst ` set rs"
      by (simp add: map_of_eq_None_iff)
    then have sub: "set rs \<subseteq> set ?rs'"
      by (auto simp: update_fresh)
    with valid have kept: "set rs \<subseteq> set (filter ?P ?rs')" by auto
    have "filter ?P ?rs' \<noteq> []"
    proof
      assume "filter ?P ?rs' = []"
      with kept have "set rs \<subseteq> {}" by simp
      with rs(2) show False by simp
    qed
    with kept
    have "modelIsValid allowed model =
        Inr (True, model\<lparr>m_values := Rules (filter ?P ?rs'),
                         m_defaultRule := Some (defaultRule model)\<rparr>) \<and>
        rules_kept model (model\<lparr>m_values := Rules (filter ?P ?rs'),
                                 m_defaultRule := Some (defaultRule model)\<rparr>)"
      using fs rs by (simp add: modelIsValid_accepts n rules_kept_def rules_of_def)
    moreover from True rs have "\<not> default_settled model"
      by (simp add: default_settled_def rules_of_def)
    ultimately show ?thesis by blast
  qed
qed

lemma every_model_revalidate:
  "every_model allowed gs s = Inr (True, gs', s') \<Longrightarrow>
   \<exists>gs''. every_model allowed gs' s = Inr (True, gs'', s') \<and> list_all2 rules_kept gs' gs'' \<and>
         (list_all default_settled gs' \<longrightarrow> gs'' = gs') \<and> (gs \<noteq> [] \<longrightarrow> gs' \<noteq> [])"
proof (induction gs arbitrary: s gs' s')
  case Nil
  then show ?case by simp
next
  case (Cons model rest)
  from Cons.prems obtain w model' rest' where
    w: "modelWeight model = JNumber w" and
    m: "modelIsValid allowed model = Inr (True, model')" and
    r: "every_model allowed rest (js_add s w) = Inr (True, rest', s')" and
    g: "gs' = model' # rest'"
    by (auto split: jsval.splits sum.splits if_splits prod.splits)
  from modelIsValid_validated [OF m] have v: "validated allowed model'"
    and w': "modelWeight model' = JNumber w" by (simp_all add: w)
  from revalidate_model [OF v] obtain model'' where
    m'': "modelIsValid allowed model' = Inr (True, model'')" "rules_kept model' model''"
    "default_settled model' \<longrightarrow> model'' = model'" by blast
  from Cons.IH [OF r] obtain rest'' where
    r'': "every_model allowed rest' (js_add s w) = Inr (True, rest'', s')"
    "list_all2 rules_kept rest' rest''" "list_all default_settled rest' \<longrightarrow> rest'' = rest'"
    by blast
  show ?case
    using w' m'' r'' g by (intro exI [where x = "model'' # rest''"]) simp
qed

lemma modelIsValid_keeps_data:
  fixes d :: "'a floorsData_scheme"
  assumes "modelIsValid allowed d = Inr (ok, d')"
  shows "floorsSchemaVersion d' = floorsSchemaVersion d" "modelGroups d' = modelGroups d"
    "modelWeightSum d' = modelWeightSum d"
  using assms
  by (auto simp: modelIsValid_def validateRules_def normalizeDefault_def Let_def
      split: if_splits rules.splits sum.splits)

lemma same_version: "floorsSchemaVersion d = v \<Longrightarrow> d\<lparr>floorsSchemaVersion := v\<rparr> = d"
  by auto

lemma rules_kept_refl: "rules_kept model model"
  by (simp add: rules_kept_def)

lemma groups_kept_refl: "list_all2 rules_kept gs gs"
  by (simp add: list_all2_same rules_kept_refl)

text \<open>
  C9, as amended. A configuration (of schema version 1 or 2) that the validator has
  accepted is accepted again; no rule of it or of its model groups is dropped and no
  value changes, and the weight sum is recomputed to the same value. When the default of
  the accepted configuration (of each model group, for version 2) is settled, that is
  when it has no numeric \<open>default\<close> or its table has a rule under the key of the default
  rule, validating again changes nothing at all: the default rule and \<open>meta.defaultRule\<close>
  are as they were.
\<close>

theorem revalidation:
  assumes first: "isFloorsDataValid allowed data = Inr (True, data')"
  shows "\<exists>data''. isFloorsDataValid allowed data' = Inr (True, data'') \<and>
           catalog_kept data' data'' \<and>
           modelWeightSum data'' = modelWeightSum data' \<and>
           (catalog_settled data' \<longrightarrow> data'' = data')"
proof -
  define version where "version = (case floorsSchemaVersion data of
                       None \<Rightarrow> 1 | Some v \<Rightarrow> if v = 0 then 1 else v)"
  from first have v12: "version = 1 \<or> version = 2"
    by (auto simp: isFloorsDataValid_def version_def Let_def split: if_splits)
  then show ?thesis
  proof
    assume v: "version = 1"
    with first have m: "modelIsValid allowed (data\<lparr>floorsSchemaVersion := Some 1\<rparr>) = Inr (True, data')"
      by (simp add: isFloorsDataValid_def version_def [symmetric])
    from modelIsValid_keeps_data [OF m] have v': "floorsSchemaVersion data' = Some 1"
      by simp
    then have again: "isFloorsDataValid allowed data' = modelIsValid allowed data'"
      by (simp add: isFloorsDataValid_def same_version)
    from modelIsValid_validated(1) [OF m] have "validated allowed data'" .
    from revalidate_model [OF this] obtain data'' where
      d'': "modelIsValid allowed data' = Inr (True, data'')" "rules_kept data' data''"
      "default_settled data' \<longrightarrow> data'' = data'" by blast
    from modelIsValid_keeps_data [OF d''(1)] d''(2,3) v'
    have "catalog_kept data' data'' \<and> modelWeightSum data'' = modelWeightSum data' \<and>
          (catalog_settled data' \<longrightarrow> data'' = data')"
      by (simp add: catalog_kept_def groups_of_def groups_kept_refl catalog_settled_def)
    with again d''(1) show ?thesis by auto
  next
    assume v: "version = 2"
    with first have m: "validateSchema2 allowed (data\<lparr>floorsSchemaVersion := Some 2\<rparr>) = Inr (True, data')"
      by (simp add: isFloorsDataValid_def version_def [symmetric])
    then obtain gs gs' s' where gs: "modelGroups data = Some gs" "gs \<noteq> []"
      and e: "every_model allowed gs (Num 0) = Inr (True, gs', s')"
      and d': "data' = data\<lparr>floorsSchemaVersion := Some 2, modelGroups := Some gs',
                             modelWeightSum := Some s'\<rparr>"
      by (auto simp: validateSchema2_def split: option.splits list.splits sum.splits)
    from every_model_revalidate [OF e] gs(2) obtain gs'' where
      e'': "every_model allowed gs' (Num 0) = Inr (True, gs'', s')"
      "list_all2 rules_kept gs' gs''" "list_all default_settled gs' \<longrightarrow> gs'' = gs'"
      "gs' \<noteq> []" by blast
    have v': "floorsSchemaVersion data' = Some 2"
      by (simp add: d')
    then have again: "isFloorsDataValid allowed data' = validateSchema2 allowed data'"
      by (simp add: isFloorsDataValid_def same_version)
    from e'' have "validateSchema2 allowed data' =
        Inr (True, data'\<lparr>modelGroups := Some gs'', modelWeightSum := Some s'\<rparr>)"
      by (cases gs') (simp_all add: validateSchema2_def d')
    with again e''(2,3) show ?thesis
      by (intro exI [where x = "data'\<lparr>modelGroups := Some gs'', modelWeightSum := Some s'\<rparr>"])
        (auto simp: d' catalog_kept_def groups_of_def rules_kept_def rules_of_def catalog_settled_def)
  qed
qed

lemmas validator_defs =
  isFloorsDataValid_def modelIsValid_def normalizeDefault_def defaultRule_def numFields_of_def
  validateSchemaFields_def validateRules_def validateSchema2_def isValidRule_def is_nullish_def
  Let_def allowedFields_def delimiter_of_def split_js_def

lemma two_models_validated:
  "isFloorsDataValid allowedFields two_models =
     Inr (True, two_models
       \<lparr>modelGroups := Some
          [weighted_model 1 2
             \<lparr>m_values := Rules [(''banner'', JNumber (Num 2)), (''*'', JNumber (Num 1))],
              m_defaultRule := Some ''*''\<rparr>,
           weighted_model 3 4
             \<lparr>m_values := Rules [(''banner'', JNumber (Num 4)), (''*'', JNumber (Num 1))],
              m_defaultRule := Some ''*''\<rparr>],
        modelWeightSum := Some (Num 4)\<rparr>)"
  by (simp add: validator_defs two_models_def empty_config_def weighted_model_def)

text \<open>
  The amended C9 at two model groups of weights 1 and 3: the validated configuration,
  with the default rules added and the weight sum 4, is accepted as it is.
\<close>

theorem revalidation_witness:
  "isFloorsDataValid allowedFields two_models =
     Inr (True, two_models
       \<lparr>modelGroups := Some
          [weighted_model 1 2
             \<lparr>m_values := Rules [(''banner'', JNumber (Num 2)), (''*'', JNumber (Num 1))],
              m_defaultRule := Some ''*''\<rparr>,
           weighted_model 3 4
             \<lparr>m_values := Rules [(''banner'', JNumber (Num 4)), (''*'', JNumber (Num 1))],
              m_defaultRule := Some ''*''\<rparr>],
        modelWeightSum := Some (Num 4)\<rparr>) \<and>
   isFloorsDataValid allowedFields (two_models
       \<lparr>modelGroups := Some
          [weighted_model 1 2
             \<lparr>m_values := Rules [(''banner'', JNumber (Num 2)), (''*'', JNumber (Num 1))],
              m_defaultRule := Some ''*''\<rparr>,
           weighted_model 3 4
             \<lparr>m_values := Rules [(''banner'', JNumber (Num 4)), (''*'', JNumber (Num 1))],
              m_defaultRule := Some ''*''\<rparr>],
        modelWeightSum := Some (Num 4)\<rparr>) =
     Inr (True, two_models
       \<lparr>modelGroups := Some
          [weighted_model 1 2
             \<lparr>m_values := Rules [(''banner'', JNumber (Num 2)), (''*'', JNumber (Num 1))],
              m_defaultRule := Some ''*''\<rparr>,
           weighted_model 3 4
             \<lparr>m_values := Rules [(''banner'', JNumber (Num 4)), (''*'', JNumber (Num 1))],
              m_defaultRule := Some ''*''\<rparr>],
        modelWeightSum := Some (Num 4)\<rparr>)"
proof -
  let ?once = "two_models
       \<lparr>modelGroups := Some
          [weighted_model 1 2
             \<lparr>m_values := Rules [(''banner'', JNumber (Num 2)), (''*'', JNumber (Num 1))],
              m_defaultRule := Some ''*''\<rparr>,
           weighted_model 3 4
             \<lparr>m_values := Rules [(''banner'', JNumber (Num 4)), (''*'', JNumber (Num 1))],
              m_defaultRule := Some ''*''\<rparr>],
        modelWeightSum := Some (Num 4)\<rparr>"
  have settled: "catalog_settled ?once"
    by (simp add: catalog_settled_def groups_of_def default_settled_def rules_of_def
        defaultRule_def numFields_of_def Let_def delimiter_of_def two_models_def
        empty_config_def weighted_model_def)
  from revalidation [OF two_models_validated] settled
  have "isFloorsDataValid allowedFields ?once = Inr (True, ?once)"
    by auto
  with two_models_validated show ?thesis by simp
qed

text \<open>
  C9 as stated fails. The table has the string \<open>abc\<close> under the key \<open>*\<close> of the default
  rule, and the default is 1: the first validation drops that entry and sets no
  \<open>meta.defaultRule\<close>; the second one adds the default rule and sets
  \<open>meta.defaultRule\<close>.
\<close>

theorem revalidation_counterexample:
  "isFloorsDataValid allowedFields malformed_default =
     Inr (True, malformed_default
       \<lparr>m_values := Rules [(''banner'', JNumber (Num 2))], floorsSchemaVersion := Some 1\<rparr>) \<and>
   m_defaultRule (malformed_default
       \<lparr>m_values := Rules [(''banner'', JNumber (Num 2))], floorsSchemaVersion := Some 1\<rparr>) = None \<and>
   isFloorsDataValid allowedFields (malformed_default
       \<lparr>m_values := Rules [(''banner'', JNumber (Num 2))], floorsSchemaVersion := Some 1\<rparr>) =
     Inr (True, malformed_default
       \<lparr>m_values := Rules [(''banner'', JNumber (Num 2)), (''*'', JNumber (Num 1))],
        m_defaultRule := Some ''*'', floorsSchemaVersion := Some 1\<rparr>)"
  by (simp add: validator_defs malformed_default_def empty_config_def)

section \<open>Properties of the auction floor resolver\<close>

text \<open>
  C6, as amended. For an auction with a usable catalog (the catalog of the auction has a
  rule) and a value of \<open>Math.random()\<close> in \<open>[0, 1)\<close>, the draw \<open>Math.random() * 100\<close>
  lies in \<open>[0, 100)\<close>, and the auction is skipped if and only if the draw is strictly
  below the applicable skip rate, which is a number: the query parameter
  \<open>pbjs_skipRate\<close> when it is given, else the skip rate of the catalog when it has one,
  else the skip rate of the configuration. That the draw is uniform is a property of
  \<open>Math.random\<close>, outside the model.
\<close>

theorem skip_decision:
  assumes usable: "rule_values (auctionData cfg adUnitData random1) \<noteq> []"
    and draw: "0 \<le> random2" "random2 < 1"
  shows "0 \<le> random2 * 100 \<and> random2 * 100 < 100 \<and>
         (skipped (createFloorsDataForAuction parseFloat cfg adUnitData pbjs_skipRate random1 random2)
          \<longleftrightarrow>
          (\<exists>rate. random2 * 100 < rate \<and>
             Num rate =
               (if pbjs_skipRate \<noteq> [] then parseFloat pbjs_skipRate
                else case data_skipRate (auctionData cfg adUnitData random1) of
                       Some dataRate \<Rightarrow> dataRate
                     | None \<Rightarrow> (case config_skipRate cfg of
                                  Some configRate \<Rightarrow> configRate
                                | None \<Rightarrow> NaN))))"
proof -
  define rate where "rate = auctionSkipRate parseFloat pbjs_skipRate
      (data_skipRate (auctionData cfg adUnitData random1)) (config_skipRate cfg)"
  have "js_lt (Num x) rate \<longleftrightarrow> (\<exists>r. x < r \<and> Num r = rate)" for x
    by (cases rate) auto
  with usable draw show ?thesis
    by (simp add: createFloorsDataForAuction_def Let_def rate_def [symmetric])
      (simp add: rate_def auctionSkipRate_def)
qed

lemma skip_config_data:
  "auctionData (skip_config dataRate) adUnitData r =
     banner_catalog\<lparr>data_skipRate := dataRate\<rparr>"
  by (simp add: auctionData_def skip_config_def floorsCatalog.truncate_def Let_def
      getFloorsDataForAuction_def normalizeRulesForAuction_def delimiter_of_def
      toLowerCase_def lower_char_def banner_catalog_def)

text \<open>
  The amended C6: a draw of 20 against the catalog's rate of 30 skips; a draw of 50 against
  the configured rate of 50 does not; a draw of 50 against the query parameter 100 skips.
\<close>

theorem skip_decision_witness:
  "rule_values (auctionData (skip_config (Some (Num 30))) banner_catalog 0) \<noteq> [] \<and>
   (0::real) \<le> 1/5 \<and> (1/5::real) < 1 \<and>
   skipped (createFloorsDataForAuction parse_hundred (skip_config (Some (Num 30))) banner_catalog
              [] 0 (1/5)) \<and>
   \<not> skipped (createFloorsDataForAuction parse_hundred (skip_config None) banner_catalog
              [] 0 (1/2)) \<and>
   skipped (createFloorsDataForAuction parse_hundred (skip_config None) banner_catalog
              ''100'' 0 (1/2))"
proof -
  have u: "rule_values (auctionData (skip_config dataRate) banner_catalog 0) \<noteq> []" for dataRate
    by (simp add: skip_config_data banner_catalog_def)
  have d: "(0::real) \<le> 1/5" "(1/5::real) < 1" "(0::real) \<le> 1/2" "(1/2::real) < 1"
    by simp_all
  have c: "config_skipRate (skip_config dataRate) = Some (Num 50)" for dataRate
    by (simp add: skip_config_def)
  from skip_decision [where cfg = "skip_config (Some (Num 30))" and adUnitData = banner_catalog
      and ?random1.0 = 0 and ?random2.0 = "1/5" and parseFloat = parse_hundred
      and pbjs_skipRate = "[]", OF u d(1,2)]
  have a1: "skipped (createFloorsDataForAuction parse_hundred (skip_config (Some (Num 30)))
              banner_catalog [] 0 (1/5))"
    by (simp add: skip_config_data)
  from skip_decision [where cfg = "skip_config (None)" and adUnitData = banner_catalog
      and ?random1.0 = 0 and ?random2.0 = "1/2" and parseFloat = parse_hundred
      and pbjs_skipRate = "[]", OF u d(3,4)]
  have a2: "\<not> skipped (createFloorsDataForAuction parse_hundred (skip_config None) banner_catalog
              [] 0 (1/2))"
    by (simp add: skip_config_data c)
  from skip_decision [where cfg = "skip_config (None)" and adUnitData = banner_catalog
      and ?random1.0 = 0 and ?random2.0 = "1/2" and parseFloat = parse_hundred
      and pbjs_skipRate = "''100''", OF u d(3,4)]
  have a3: "skipped (createFloorsDataForAuction parse_hundred (skip_config None) banner_catalog
              ''100'' 0 (1/2))"
    by (simp add: skip_config_data c parse_hundred_def)
  from u d a1 a2 a3 show ?thesis by simp
qed

text \<open>
  C6 as stated fails in the order of priority: the catalog has the skip rate 0, the
  configuration the skip rate 50 and the query parameter is 100. The draw 50 is below
  neither the catalog's rate nor the configured one, and the auction is skipped: the
  query parameter comes first.
\<close>

theorem skip_priority_counterexample:
  "data_skipRate (auctionData (skip_config (Some (Num 0))) banner_catalog 0) = Some (Num 0) \<and>
   config_skipRate (skip_config (Some (Num 0))) = Some (Num 50) \<and>
   parse_hundred ''100'' = Num 100 \<and>
   \<not> js_lt (Num (1/2 * 100)) (Num 0) \<and>
   \<not> js_lt (Num (1/2 * 100)) (Num 50) \<and>
   skipped (createFloorsDataForAuction parse_hundred (skip_config (Some (Num 0))) banner_catalog
              ''100'' 0 (1/2))"
  by (simp add: createFloorsDataForAuction_def skip_config_data auctionSkipRate_def
      parse_hundred_def Let_def)
    (simp add: skip_config_def banner_catalog_def)

section \<open>Properties of the fetch and delay coordinator\<close>

subsection \<open>Resuming the parked auctions\<close>

lemma parked_okD:
  assumes "parked_ok s"
  shows "distinct (delayedAuctions s)" "distinct (timers s)"
    "set (timers s) = set (delayedAuctions s)"
    "\<And>ref. ref \<in> set (delayedAuctions s) \<Longrightarrow>
       hookConfigs s ref = Some \<lparr>hasExited = False, timer = Some ref\<rparr>"
    "\<And>ref hc. hookConfigs s ref = Some hc \<Longrightarrow> ref < nextRef s"
    "\<And>ref hc. hookConfigs s ref = Some hc \<Longrightarrow> timer hc = None \<or> timer hc = Some ref"
    "\<And>ref. ref < nextRef s \<Longrightarrow> \<exists>hc. hookConfigs s ref = Some hc \<and>
         hasExited hc = (ref \<in> fst ` set (continued s)) \<and>
         (\<not> hasExited hc \<longrightarrow> ref \<in> set (delayedAuctions s))"
    "distinct (map fst (continued s))"
    "\<And>ref. ref \<in> fst ` set (continued s) \<Longrightarrow> ref < nextRef s"
  using assms unfolding parked_ok_def by blast+

lemma parked_okI:
  assumes "distinct (delayedAuctions s)" "distinct (timers s)"
    "set (timers s) = set (delayedAuctions s)"
    "\<And>ref. ref \<in> set (delayedAuctions s) \<Longrightarrow>
       hookConfigs s ref = Some \<lparr>hasExited = False, timer = Some ref\<rparr>"
    "\<And>ref hc. hookConfigs s ref = Some hc \<Longrightarrow> ref < nextRef s"
    "\<And>ref hc. hookConfigs s ref = Some hc \<Longrightarrow> timer hc = None \<or> timer hc = Some ref"
    "\<And>ref. ref < nextRef s \<Longrightarrow> \<exists>hc. hookConfigs s ref = Some hc \<and>
         hasExited hc = (ref \<in> fst ` set (continued s)) \<and>
         (\<not> hasExited hc \<longrightarrow> ref \<in> set (delayedAuctions s))"
    "distinct (map fst (continued s))"
    "\<And>ref. ref \<in> fst ` set (continued s) \<Longrightarrow> ref < nextRef s"
  shows "parked_ok s"
  using assms unfolding parked_ok_def by blast



lemma continue_parked:
  assumes ok: "parked_ok s" and ref: "ref \<in> set (delayedAuctions s)"
  shows "continueAuction Completes ref
           (s\<lparr>timers := filter (\<lambda>armed. armed \<noteq> ref) (timers s), fetchStatus := st\<rparr>) =
         Returned
          (s\<lparr>timers := filter (\<lambda>armed. armed \<noteq> ref) (timers s),
             fetchStatus := st,
             delayedAuctions := filter (\<lambda>a. a \<noteq> ref) (delayedAuctions s),
             continued := continued s @ [(ref, st)],
             hookConfigs := (hookConfigs s)(ref \<mapsto> \<lparr>hasExited = True, timer = Some ref\<rparr>)\<rparr>)"
proof -
  from parked_okD(4) [OF ok ref] have hc: "hookConfigs s ref = Some \<lparr>hasExited = False, timer = Some ref\<rparr>" .
  from parked_okD(4) [OF ok] have "\<forall>a\<in>set (delayedAuctions s). timer_of s a = Some a"
    by (simp add: timer_of_def)
  then have "filter (\<lambda>a. timer_of s a \<noteq> Some ref) (delayedAuctions s) =
             filter (\<lambda>a. a \<noteq> ref) (delayedAuctions s)"
    by (intro filter_cong) auto
  with hc show ?thesis
    by (simp add: continueAuction_def timer_of_def Let_def)
qed

lemma parked_ok_after:
  assumes ok: "parked_ok s" and ref: "ref \<in> set (delayedAuctions s)"
    and t: "timers s' = filter (\<lambda>armed. armed \<noteq> ref) (timers s)"
    and q: "delayedAuctions s' = filter (\<lambda>a. a \<noteq> ref) (delayedAuctions s)"
    and c: "continued s' = continued s @ [(ref, st)]"
    and h: "hookConfigs s' = (hookConfigs s)(ref \<mapsto> \<lparr>hasExited = True, timer = Some ref\<rparr>)"
    and n: "nextRef s' = nextRef s"
  shows "parked_ok s'"
proof (rule parked_okI)
  note d = parked_okD [OF ok]
  from d(4) [OF ref] have hc: "hookConfigs s ref = Some \<lparr>hasExited = False, timer = Some ref\<rparr>" .
  from d(5) [OF hc] have r: "ref < nextRef s" .
  from d(7) [OF r] hc have fresh: "ref \<notin> fst ` set (continued s)" by auto
  show "distinct (delayedAuctions s')" using d(1) by (simp add: q)
  show "distinct (timers s')" using d(2) by (simp add: t)
  show "set (timers s') = set (delayedAuctions s')" using d(3) by (simp add: t q)
  show "hookConfigs s' a = Some \<lparr>hasExited = False, timer = Some a\<rparr>"
    if "a \<in> set (delayedAuctions s')" for a
    using that d(4) [of a] by (simp add: q h)
  show "a < nextRef s'" if "hookConfigs s' a = Some hc'" for a hc'
    using that d(5) [of a hc'] r by (cases "a = ref") (simp_all add: h n)
  show "timer hc' = None \<or> timer hc' = Some a" if "hookConfigs s' a = Some hc'" for a hc'
    using that d(6) [of a hc'] by (cases "a = ref") (auto simp: h)
  show "\<exists>hc. hookConfigs s' a = Some hc \<and> hasExited hc = (a \<in> fst ` set (continued s')) \<and>
         (\<not> hasExited hc \<longrightarrow> a \<in> set (delayedAuctions s'))" if "a < nextRef s'" for a
  proof (cases "a = ref")
    case True
    then show ?thesis by (simp add: h c)
  next
    case False
    from that have "a < nextRef s" by (simp add: n)
    from d(7) [OF this] False show ?thesis by (auto simp: h c q)
  qed
  show "distinct (map fst (continued s'))" using d(8) fresh by (simp add: c)
  show "a < nextRef s'" if "a \<in> fst ` set (continued s')" for a
    using that d(9) [of a] r by (auto simp: c n)
qed



lemma resume_one:
  assumes ok: "parked_ok s" and ref: "ref \<in> set (delayedAuctions s)"
  shows "continueAuction Completes ref (clearTimeout (timer_of s ref) s) =
         Returned
          (s\<lparr>timers := filter (\<lambda>armed. armed \<noteq> ref) (timers s),
             delayedAuctions := filter (\<lambda>a. a \<noteq> ref) (delayedAuctions s),
             continued := continued s @ [(ref, fetchStatus s)],
             hookConfigs := (hookConfigs s)(ref \<mapsto> \<lparr>hasExited = True, timer = Some ref\<rparr>)\<rparr>)"
proof -
  from parked_okD(4) [OF ok ref] have "timer_of s ref = Some ref"
    by (simp add: timer_of_def)
  then have "clearTimeout (timer_of s ref) s =
      s\<lparr>timers := filter (\<lambda>armed. armed \<noteq> ref) (timers s), fetchStatus := fetchStatus s\<rparr>"
    by (simp add: clearTimeout_def)
  then show ?thesis
    by (simp only: continue_parked [OF ok ref]) simp
qed

lemma resume_all:
  assumes "parked_ok s" "distinct refs" "set refs \<subseteq> set (delayedAuctions s)"
    "\<forall>ref\<in>set refs. bodies ref = Completes"
  shows "\<exists>s'. resume_each bodies refs s = Returned s' \<and> parked_ok s' \<and>
    continued s' = continued s @ map (\<lambda>a. (a, fetchStatus s)) refs \<and>
    delayedAuctions s' = filter (\<lambda>a. a \<notin> set refs) (delayedAuctions s) \<and>
    timers s' = filter (\<lambda>a. a \<notin> set refs) (timers s) \<and>
    fetching s' = fetching s \<and> fetchStatus s' = fetchStatus s \<and> nextRef s' = nextRef s \<and>
    auctionDelay s' = auctionDelay s \<and> addedFloorsHook s' = addedFloorsHook s \<and>
    allowed_fields s' = allowed_fields s"
  using assms
proof (induction refs arbitrary: s)
  case Nil
  then show ?case by simp
next
  case (Cons ref refs)
  let ?s1 = "s\<lparr>timers := filter (\<lambda>armed. armed \<noteq> ref) (timers s),
           delayedAuctions := filter (\<lambda>a. a \<noteq> ref) (delayedAuctions s),
           continued := continued s @ [(ref, fetchStatus s)],
           hookConfigs := (hookConfigs s)(ref \<mapsto> \<lparr>hasExited = True, timer = Some ref\<rparr>)\<rparr>"
  from Cons.prems have ref: "ref \<in> set (delayedAuctions s)" and body: "bodies ref = Completes"
    by simp_all
  have one: "continueAuction (bodies ref) ref (clearTimeout (timer_of s ref) s) = Returned ?s1"
    unfolding body by (rule resume_one [OF Cons.prems(1) ref])
  have ok1: "parked_ok ?s1"
    by (rule parked_ok_after [OF Cons.prems(1) ref]) simp_all
  from Cons.prems have "distinct refs" "set refs \<subseteq> set (delayedAuctions ?s1)"
    "\<forall>ref\<in>set refs. bodies ref = Completes"
    by auto
  from Cons.IH [OF ok1 this] obtain s' where s': "resume_each bodies refs ?s1 = Returned s'"
    "parked_ok s'"
    "continued s' = continued ?s1 @ map (\<lambda>a. (a, fetchStatus ?s1)) refs"
    "delayedAuctions s' = filter (\<lambda>a. a \<notin> set refs) (delayedAuctions ?s1)"
    "timers s' = filter (\<lambda>a. a \<notin> set refs) (timers ?s1)"
    "fetching s' = fetching ?s1" "fetchStatus s' = fetchStatus ?s1" "nextRef s' = nextRef ?s1"
    "auctionDelay s' = auctionDelay ?s1" "addedFloorsHook s' = addedFloorsHook ?s1"
    "allowed_fields s' = allowed_fields ?s1"
    by blast
  have "resume_each bodies (ref # refs) s = Returned s'"
    by (simp add: one s'(1))
  with s'(2-) show ?case
    by (intro exI [of _ s']) (simp add: filter_filter conj_commute cong: filter_cong)
qed

lemma resume_delayed:
  assumes ok: "parked_ok s" and bodies: "\<forall>ref\<in>set (delayedAuctions s). bodies ref = Completes"
  shows "\<exists>s'. resumeDelayedAuctions bodies s = Returned s' \<and> parked_ok s' \<and>
    continued s' = continued s @ map (\<lambda>a. (a, fetchStatus s)) (delayedAuctions s) \<and>
    delayedAuctions s' = [] \<and> timers s' = [] \<and>
    fetching s' = fetching s \<and> fetchStatus s' = fetchStatus s \<and> nextRef s' = nextRef s \<and>
    auctionDelay s' = auctionDelay s \<and> addedFloorsHook s' = addedFloorsHook s \<and>
    allowed_fields s' = allowed_fields s"
proof -
  note d = parked_okD [OF ok]
  from resume_all [OF ok d(1) subset_refl bodies] obtain s' where
    r: "resume_each bodies (delayedAuctions s) s = Returned s'"
    and ok': "parked_ok s'"
    and c: "continued s' = continued s @ map (\<lambda>a. (a, fetchStatus s)) (delayedAuctions s)"
    and q: "delayedAuctions s' = filter (\<lambda>a. a \<notin> set (delayedAuctions s)) (delayedAuctions s)"
    and t: "timers s' = filter (\<lambda>a. a \<notin> set (delayedAuctions s)) (timers s)"
    and rest: "fetching s' = fetching s" "fetchStatus s' = fetchStatus s" "nextRef s' = nextRef s"
      "auctionDelay s' = auctionDelay s" "addedFloorsHook s' = addedFloorsHook s"
      "allowed_fields s' = allowed_fields s"
    by blast
  from q have q': "delayedAuctions s' = []" by simp
  from t d(3) have t': "timers s' = []" by (simp add: filter_empty_conv)
  from q' have "s'\<lparr>delayedAuctions := []\<rparr> = s'" by simp
  with r have "resumeDelayedAuctions bodies s = Returned s'"
    by (simp add: resumeDelayedAuctions_def)
  with ok' c q' t' rest show ?thesis by blast
qed

lemma parked_ok_cong:
  assumes "parked_ok s" "delayedAuctions s' = delayedAuctions s" "timers s' = timers s"
    "hookConfigs s' = hookConfigs s" "nextRef s' = nextRef s" "continued s' = continued s"
  shows "parked_ok s'"
  using assms by (simp add: parked_ok_def)


subsection \<open>A handler that returns leaves a well-formed state\<close>

lemma continue_throws:
  assumes hc: "hookConfigs s ref = Some hc" "\<not> hasExited hc" and body: "body \<noteq> Completes"
  shows "\<not> returns (continueAuction body ref s)"
  using assms by (cases body) (simp_all add: continueAuction_def Let_def)

lemma timer_fires:
  assumes ok: "coordinated s" and armed: "h \<in> set (timers s)"
  shows "\<exists>s'. timerFires h Completes s = Returned s' \<and> coordinated s' \<and>
     continued s' = continued s @ [(h, Some timeout)] \<and>
     delayedAuctions s' = filter (\<lambda>a. a \<noteq> h) (delayedAuctions s) \<and>
     timers s' = filter (\<lambda>a. a \<noteq> h) (timers s)"
proof -
  from ok have p: "parked_ok s" and f: "delayedAuctions s \<noteq> [] \<longrightarrow> fetching s"
    by (simp_all add: coordinated_def)
  from armed parked_okD(3) [OF p] have ref: "h \<in> set (delayedAuctions s)" by simp
  let ?s' = "s\<lparr>timers := filter (\<lambda>armed. armed \<noteq> h) (timers s),
           fetchStatus := Some timeout,
           delayedAuctions := filter (\<lambda>a. a \<noteq> h) (delayedAuctions s),
           continued := continued s @ [(h, Some timeout)],
           hookConfigs := (hookConfigs s)(h \<mapsto> \<lparr>hasExited = True, timer = Some h\<rparr>)\<rparr>"
  from armed have eq: "timerFires h Completes s = Returned ?s'"
    by (simp add: timerFires_def continue_parked [OF p ref])
  have "parked_ok ?s'"
    by (rule parked_ok_after [OF p ref, where st = "Some timeout"]) simp_all
  moreover from ref f have "fetching ?s'" by auto
  ultimately have "coordinated ?s'" by (simp add: coordinated_def)
  with eq show ?thesis by (intro exI [of _ ?s']) simp
qed

lemma timer_quiet:
  assumes ok: "coordinated s" and quiet: "returns (timerFires h body s)"
  shows "coordinated (state_after (timerFires h body s))"
proof (cases "h \<in> set (timers s)")
  case False
  with ok show ?thesis by (simp add: timerFires_def)
next
  case True
  from ok have p: "parked_ok s" by (simp add: coordinated_def)
  from True parked_okD(3) [OF p] have ref: "h \<in> set (delayedAuctions s)" by simp
  have "body = Completes"
  proof (rule ccontr)
    assume "body \<noteq> Completes"
    from continue_throws [OF _ _ this,
        of "s\<lparr>timers := filter (\<lambda>armed. armed \<noteq> h) (timers s), fetchStatus := Some timeout\<rparr>"
           h "\<lparr>hasExited = False, timer = Some h\<rparr>"]
      parked_okD(4) [OF p ref] quiet True
    show False by (simp add: timerFires_def)
  qed
  with timer_fires [OF ok True] show ?thesis by auto
qed

lemma fetch_settles:
  assumes ok: "coordinated s" and bodies: "\<forall>ref\<in>set (delayedAuctions s). bodies ref = Completes"
  shows "\<exists>s'. resumeDelayedAuctions bodies (s\<lparr>fetching := False, fetchStatus := st\<rparr>) = Returned s' \<and>
     coordinated s' \<and>
     continued s' = continued s @ map (\<lambda>a. (a, st)) (delayedAuctions s) \<and>
     delayedAuctions s' = [] \<and> timers s' = []"
proof -
  from ok have "parked_ok s" by (simp add: coordinated_def)
  then have p: "parked_ok (s\<lparr>fetching := False, fetchStatus := st\<rparr>)"
    by (rule parked_ok_cong) simp_all
  from bodies have
    "\<forall>ref\<in>set (delayedAuctions (s\<lparr>fetching := False, fetchStatus := st\<rparr>)). bodies ref = Completes"
    by simp
  from resume_delayed [OF p this] show ?thesis
    by (auto simp: coordinated_def)
qed

lemma resume_returns:
  assumes "parked_ok s" "distinct refs" "set refs \<subseteq> set (delayedAuctions s)"
    "returns (resume_each bodies refs s)"
  shows "\<forall>ref\<in>set refs. bodies ref = Completes"
  using assms
proof (induction refs arbitrary: s)
  case Nil
  then show ?case by simp
next
  case (Cons ref refs)
  let ?s1 = "s\<lparr>timers := filter (\<lambda>armed. armed \<noteq> ref) (timers s),
           delayedAuctions := filter (\<lambda>a. a \<noteq> ref) (delayedAuctions s),
           continued := continued s @ [(ref, fetchStatus s)],
           hookConfigs := (hookConfigs s)(ref \<mapsto> \<lparr>hasExited = True, timer = Some ref\<rparr>)\<rparr>"
  from Cons.prems have ref: "ref \<in> set (delayedAuctions s)" by simp
  note hc = parked_okD(4) [OF Cons.prems(1) ref]
  have body: "bodies ref = Completes"
  proof (rule ccontr)
    assume n: "bodies ref \<noteq> Completes"
    have "hookConfigs (clearTimeout (timer_of s ref) s) ref =
        Some \<lparr>hasExited = False, timer = Some ref\<rparr>"
      using hc by (simp add: clearTimeout_def timer_of_def)
    from continue_throws [OF this _ n] Cons.prems(4) show False
      by (cases "continueAuction (bodies ref) ref (clearTimeout (timer_of s ref) s)") simp_all
  qed
  have one: "continueAuction (bodies ref) ref (clearTimeout (timer_of s ref) s) = Returned ?s1"
    unfolding body by (rule resume_one [OF Cons.prems(1) ref])
  have ok1: "parked_ok ?s1"
    by (rule parked_ok_after [OF Cons.prems(1) ref]) simp_all
  from Cons.prems have "distinct refs" "set refs \<subseteq> set (delayedAuctions ?s1)"
    "returns (resume_each bodies refs ?s1)"
    by (auto simp: one)
  from Cons.IH [OF ok1 this] body show ?case by simp
qed

lemma resume_quiet:
  assumes ok: "coordinated s"
    and quiet: "returns (resumeDelayedAuctions bodies (s\<lparr>fetching := False, fetchStatus := st\<rparr>))"
  shows "coordinated (state_after (resumeDelayedAuctions bodies (s\<lparr>fetching := False, fetchStatus := st\<rparr>)))"
proof -
  let ?s = "s\<lparr>fetching := False, fetchStatus := st\<rparr>"
  from ok have "parked_ok s" by (simp add: coordinated_def)
  then have p: "parked_ok ?s"
    by (rule parked_ok_cong) simp_all
  from quiet have "returns (resume_each bodies (delayedAuctions ?s) ?s)"
    by (cases "resume_each bodies (delayedAuctions ?s) ?s")
      (simp_all add: resumeDelayedAuctions_def)
  from resume_returns [OF p parked_okD(1) [OF p] subset_refl this]
  have "\<forall>ref\<in>set (delayedAuctions s). bodies ref = Completes" by simp
  from fetch_settles [OF ok this, of st] show ?thesis by auto
qed

lemma request_parks:
  assumes ok: "coordinated s" and delay: "0 < auctionDelay s" "fetching s"
  shows "returns (requestBidsHook body s)"
    and "coordinated (state_after (requestBidsHook body s))"
    and "delayedAuctions (state_after (requestBidsHook body s)) = delayedAuctions s @ [nextRef s]"
    and "timers (state_after (requestBidsHook body s)) = timers s @ [nextRef s]"
    and "continued (state_after (requestBidsHook body s)) = continued s"
    and "nextRef (state_after (requestBidsHook body s)) = Suc (nextRef s)"
proof -
  from ok have p: "parked_ok s" by (simp add: coordinated_def)
  note d = parked_okD [OF p]
  let ?ref = "nextRef s"
  let ?s' = "s\<lparr>hookConfigs := (hookConfigs s)(?ref \<mapsto> \<lparr>hasExited = False, timer = Some ?ref\<rparr>),
        timers := timers s @ [?ref],
        delayedAuctions := delayedAuctions s @ [?ref],
        nextRef := Suc ?ref\<rparr>"
  from delay have ret: "requestBidsHook body s = Returned ?s'"
    by (simp add: requestBidsHook_def Let_def)
  have eq: "state_after (requestBidsHook body s) = ?s'"
    by (simp add: ret)
  have none: "hookConfigs s ?ref = None"
    using d(5) [of ?ref] by (cases "hookConfigs s ?ref") auto
  have nq: "?ref \<notin> set (delayedAuctions s)"
    using d(4) [of ?ref] none by auto
  have nc: "?ref \<notin> fst ` set (continued s)"
    using d(9) [of ?ref] by auto
  have "parked_ok (state_after (requestBidsHook body s))"
  proof (rule parked_okI)
    show "distinct (delayedAuctions (state_after (requestBidsHook body s)))" using d(1) nq by (simp add: eq)
    show "distinct (timers (state_after (requestBidsHook body s)))" using d(2,3) nq by (simp add: eq)
    show "set (timers (state_after (requestBidsHook body s))) = set (delayedAuctions (state_after (requestBidsHook body s)))"
      using d(3) by (simp add: eq)
    show "hookConfigs (state_after (requestBidsHook body s)) a = Some \<lparr>hasExited = False, timer = Some a\<rparr>"
      if "a \<in> set (delayedAuctions (state_after (requestBidsHook body s)))" for a
      using that d(4) [of a] by (auto simp: eq)
    show "a < nextRef (state_after (requestBidsHook body s))" if "hookConfigs (state_after (requestBidsHook body s)) a = Some hc" for a hc
      using that d(5) [of a hc] by (cases "a = ?ref") (simp_all add: eq)
    show "timer hc = None \<or> timer hc = Some a" if "hookConfigs (state_after (requestBidsHook body s)) a = Some hc" for a hc
      using that d(6) [of a hc] by (cases "a = ?ref") (auto simp: eq)
    show "\<exists>hc. hookConfigs (state_after (requestBidsHook body s)) a = Some hc \<and>
         hasExited hc = (a \<in> fst ` set (continued (state_after (requestBidsHook body s)))) \<and>
         (\<not> hasExited hc \<longrightarrow> a \<in> set (delayedAuctions (state_after (requestBidsHook body s))))"
      if "a < nextRef (state_after (requestBidsHook body s))" for a
    proof (cases "a = ?ref")
      case True
      with nc show ?thesis by (simp add: eq)
    next
      case False
      with that have "a < nextRef s" by (simp add: eq)
      from d(7) [OF this] False show ?thesis by (auto simp: eq)
    qed
    show "distinct (map fst (continued (state_after (requestBidsHook body s))))" using d(8) by (simp add: eq)
    show "a < nextRef (state_after (requestBidsHook body s))" if "a \<in> fst ` set (continued (state_after (requestBidsHook body s)))" for a
      using that d(9) [of a] by (auto simp: eq less_Suc_eq)
  qed
  with delay show "coordinated (state_after (requestBidsHook body s))" by (simp add: coordinated_def eq)
  show "returns (requestBidsHook body s)" by (simp add: ret)
  show "delayedAuctions (state_after (requestBidsHook body s)) = delayedAuctions s @ [nextRef s]"
    "timers (state_after (requestBidsHook body s)) = timers s @ [nextRef s]"
    "continued (state_after (requestBidsHook body s)) = continued s"
    "nextRef (state_after (requestBidsHook body s)) = Suc (nextRef s)"
    by (simp_all add: eq)
qed

lemma request_proceeds:
  assumes ok: "coordinated s" and delay: "\<not> (0 < auctionDelay s \<and> fetching s)"
  shows "returns (requestBidsHook Completes s)"
    and "coordinated (state_after (requestBidsHook Completes s))"
    and "delayedAuctions (state_after (requestBidsHook Completes s)) = delayedAuctions s"
    and "timers (state_after (requestBidsHook Completes s)) = timers s"
    and "continued (state_after (requestBidsHook Completes s)) = continued s @ [(nextRef s, fetchStatus s)]"
    and "nextRef (state_after (requestBidsHook Completes s)) = Suc (nextRef s)"
proof -
  from ok have p: "parked_ok s" and f: "delayedAuctions s \<noteq> [] \<longrightarrow> fetching s"
    by (simp_all add: coordinated_def)
  note d = parked_okD [OF p]
  let ?ref = "nextRef s"
  have none: "hookConfigs s ?ref = None"
    using d(5) [of ?ref] by (cases "hookConfigs s ?ref") auto
  have nq: "?ref \<notin> set (delayedAuctions s)"
    using d(4) [of ?ref] none by auto
  have nc: "?ref \<notin> fst ` set (continued s)"
    using d(9) [of ?ref] by auto
  let ?t = "s\<lparr>hookConfigs := (hookConfigs s)(?ref \<mapsto> \<lparr>hasExited = False, timer = None\<rparr>),
               nextRef := Suc ?ref\<rparr>"
  have "\<forall>a\<in>set (delayedAuctions s). timer_of ?t a \<noteq> None"
    using d(4) nq by (auto simp: timer_of_def)
  then have keep: "filter (\<lambda>a. timer_of ?t a \<noteq> None) (delayedAuctions s) = delayedAuctions s"
    by (simp only: filter_id_conv)
  have "continueAuction Completes ?ref ?t =
      Returned (?t\<lparr>delayedAuctions := filter (\<lambda>a. timer_of ?t a \<noteq> None) (delayedAuctions s),
         continued := continued s @ [(?ref, fetchStatus s)],
         hookConfigs := (hookConfigs ?t)(?ref \<mapsto> \<lparr>hasExited = True, timer = None\<rparr>)\<rparr>)"
    by (simp add: continueAuction_def Let_def del: not_None_eq)
  also have "\<dots> = Returned (s\<lparr>hookConfigs := (hookConfigs s)(?ref \<mapsto> \<lparr>hasExited = True, timer = None\<rparr>),
        nextRef := Suc ?ref,
        continued := continued s @ [(?ref, fetchStatus s)]\<rparr>)"
    by (simp only: keep) simp
  finally have cont: "continueAuction Completes ?ref ?t =
      Returned (s\<lparr>hookConfigs := (hookConfigs s)(?ref \<mapsto> \<lparr>hasExited = True, timer = None\<rparr>),
        nextRef := Suc ?ref,
        continued := continued s @ [(?ref, fetchStatus s)]\<rparr>)" .
  from delay have "requestBidsHook Completes s = continueAuction Completes ?ref ?t"
    by (auto simp: requestBidsHook_def Let_def)
  with cont have ret: "requestBidsHook Completes s =
      Returned (s\<lparr>hookConfigs := (hookConfigs s)(?ref \<mapsto> \<lparr>hasExited = True, timer = None\<rparr>),
        nextRef := Suc ?ref,
        continued := continued s @ [(?ref, fetchStatus s)]\<rparr>)"
    by simp
  then have eq: "state_after (requestBidsHook Completes s) =
      s\<lparr>hookConfigs := (hookConfigs s)(?ref \<mapsto> \<lparr>hasExited = True, timer = None\<rparr>),
        nextRef := Suc ?ref,
        continued := continued s @ [(?ref, fetchStatus s)]\<rparr>"
    by simp
  have "parked_ok (state_after (requestBidsHook Completes s))"
  proof (rule parked_okI)
    show "distinct (delayedAuctions (state_after (requestBidsHook Completes s)))" using d(1) by (simp add: eq)
    show "distinct (timers (state_after (requestBidsHook Completes s)))" using d(2) by (simp add: eq)
    show "set (timers (state_after (requestBidsHook Completes s))) = set (delayedAuctions (state_after (requestBidsHook Completes s)))"
      using d(3) by (simp add: eq)
    show "hookConfigs (state_after (requestBidsHook Completes s)) a = Some \<lparr>hasExited = False, timer = Some a\<rparr>"
      if "a \<in> set (delayedAuctions (state_after (requestBidsHook Completes s)))" for a
      using that d(4) [of a] nq by (auto simp: eq)
    show "a < nextRef (state_after (requestBidsHook Completes s))" if "hookConfigs (state_after (requestBidsHook Completes s)) a = Some hc" for a hc
      using that d(5) [of a hc] by (cases "a = ?ref") (simp_all add: eq)
    show "timer hc = None \<or> timer hc = Some a" if "hookConfigs (state_after (requestBidsHook Completes s)) a = Some hc" for a hc
      using that d(6) [of a hc] by (cases "a = ?ref") (auto simp: eq)
    show "\<exists>hc. hookConfigs (state_after (requestBidsHook Completes s)) a = Some hc \<and>
         hasExited hc = (a \<in> fst ` set (continued (state_after (requestBidsHook Completes s)))) \<and>
         (\<not> hasExited hc \<longrightarrow> a \<in> set (delayedAuctions (state_after (requestBidsHook Completes s))))"
      if "a < nextRef (state_after (requestBidsHook Completes s))" for a
    proof (cases "a = ?ref")
      case True
      then show ?thesis by (simp add: eq)
    next
      case False
      with that have "a < nextRef s" by (simp add: eq)
      from d(7) [OF this] False show ?thesis by (auto simp: eq)
    qed
    show "distinct (map fst (continued (state_after (requestBidsHook Completes s))))" using d(8) nc by (simp add: eq)
    show "a < nextRef (state_after (requestBidsHook Completes s))" if "a \<in> fst ` set (continued (state_after (requestBidsHook Completes s)))" for a
      using that d(9) [of a] by (auto simp: eq less_Suc_eq)
  qed
  with f show "coordinated (state_after (requestBidsHook Completes s))" by (simp add: coordinated_def eq)
  show "returns (requestBidsHook Completes s)" by (simp add: ret)
  show "delayedAuctions (state_after (requestBidsHook Completes s)) = delayedAuctions s"
    "timers (state_after (requestBidsHook Completes s)) = timers s"
    "continued (state_after (requestBidsHook Completes s)) = continued s @ [(nextRef s, fetchStatus s)]"
    "nextRef (state_after (requestBidsHook Completes s)) = Suc (nextRef s)"
    by (simp_all add: eq)
qed




lemma request_quiet:
  assumes ok: "coordinated s" and quiet: "returns (requestBidsHook body s)"
  shows "coordinated (state_after (requestBidsHook body s))"
proof (cases "0 < auctionDelay s \<and> fetching s")
  case True
  with request_parks(2) [OF ok] show ?thesis by simp
next
  case False
  let ?t = "s\<lparr>hookConfigs := (hookConfigs s)(nextRef s \<mapsto> \<lparr>hasExited = False, timer = None\<rparr>),
               nextRef := Suc (nextRef s)\<rparr>"
  from False have eq: "requestBidsHook body s = continueAuction body (nextRef s) ?t"
    by (auto simp: requestBidsHook_def Let_def)
  have "body = Completes"
  proof (rule ccontr)
    assume "body \<noteq> Completes"
    from continue_throws [OF _ _ this, of ?t "nextRef s" "\<lparr>hasExited = False, timer = None\<rparr>"]
      quiet
    show False by (simp add: eq)
  qed
  with request_proceeds(2) [OF ok False] show ?thesis by simp
qed

lemma config_coordinated:
  assumes ok: "coordinated s"
  shows "coordinated (state_after (handleSetFloorsConfig enabled delay url requestMethod overrides data s))"
proof -
  let ?s' = "state_after (handleSetFloorsConfig enabled delay url requestMethod overrides data s)"
  from ok have p: "parked_ok s" and f: "delayedAuctions s \<noteq> [] \<longrightarrow> fetching s"
    by (simp_all add: coordinated_def)
  have "parked_ok ?s'"
    by (rule parked_ok_cong [OF p])
      (simp_all add: handleSetFloorsConfig_def generateAndHandleFetch_def Let_def
        split: sum.splits)
  moreover have "delayedAuctions ?s' = delayedAuctions s"
    by (simp add: handleSetFloorsConfig_def generateAndHandleFetch_def Let_def split: sum.splits)
  moreover have "fetching s \<longrightarrow> fetching ?s'"
    by (simp add: handleSetFloorsConfig_def generateAndHandleFetch_def Let_def split: sum.splits)
  ultimately show ?thesis using f by (simp add: coordinated_def)
qed

lemma react_quiet:
  assumes ok: "coordinated s" and quiet: "returns (react s e)"
  shows "coordinated (step s e)"
proof (cases e)
  case (SetConfig enabled delay url requestMethod overrides data)
  with config_coordinated [OF ok] show ?thesis by (simp add: step_def)
next
  case (RequestBids body)
  with request_quiet [OF ok, of body] ok quiet show ?thesis
    by (cases "addedFloorsHook s") (simp_all add: step_def)
next
  case (TimerFires h body)
  with timer_quiet [OF ok, of h body] quiet show ?thesis by (simp add: step_def)
next
  case (FetchResponse fetchResponse bodies)
  show ?thesis
  proof (cases "fetching s")
    case False
    with ok FetchResponse show ?thesis by (simp add: step_def)
  next
    case True
    with quiet FetchResponse obtain parsed where
      parsed: "parseFloorData (allowed_fields s) fetchResponse = Inr parsed"
      by (cases "parseFloorData (allowed_fields s) fetchResponse")
        (simp_all add: handleFetchResponse_def Let_def)
    with True FetchResponse resume_quiet [OF ok, of bodies "Some success"] quiet
    show ?thesis by (simp add: step_def handleFetchResponse_def Let_def)
  qed
next
  case (FetchError bodies)
  with resume_quiet [OF ok, of bodies "Some error"] ok quiet show ?thesis
    by (cases "fetching s") (simp_all add: step_def handleFetchError_def)
qed

lemma initial_coordinated: "coordinated initial"
  by (simp add: coordinated_def parked_ok_def initial_def)

lemma quiet_coordinated:
  "coordinated s \<Longrightarrow> quiet s events \<Longrightarrow> coordinated (foldl step s events)"
proof (induction events arbitrary: s)
  case Nil
  then show ?case by simp
next
  case (Cons e events)
  from Cons.prems have "coordinated (step s e)" "quiet (step s e) events"
    by (simp_all add: react_quiet)
  from Cons.IH [OF this] show ?case by simp
qed

subsection \<open>A parked continuation resumes once, as long as no handler throws\<close>

lemma count_distinct:
  "distinct xs \<Longrightarrow> count_list xs x = (if x \<in> set xs then 1 else 0)"
  by (induction xs) auto

lemma resumed_or_parked:
  assumes p: "parked_ok s" and ref: "ref < nextRef s"
  shows "count_list (map fst (continued s)) ref = (if ref \<in> set (delayedAuctions s) then 0 else 1)"
proof -
  note d = parked_okD [OF p]
  from d(7) [OF ref] obtain hc where hc: "hookConfigs s ref = Some hc"
    "hasExited hc = (ref \<in> fst ` set (continued s))"
    "\<not> hasExited hc \<longrightarrow> ref \<in> set (delayedAuctions s)" by blast
  have "ref \<in> fst ` set (continued s) \<longleftrightarrow> ref \<notin> set (delayedAuctions s)"
  proof (cases "ref \<in> set (delayedAuctions s)")
    case True
    from d(4) [OF True] hc show ?thesis using True by simp
  next
    case False
    with hc show ?thesis by auto
  qed
  with count_distinct [OF d(8), of ref] show ?thesis by simp
qed

text \<open>
  As long as no handler throws, a parked continuation resumes once. In every state \<open>s\<close>
  that the module reaches by events whose handlers all return:
  an auction requested while the hook is registered, a fetch is in flight and
  \<open>auctionDelay\<close> is positive is parked, at the end of the queue and with its own timer
  armed, and its continuation does not run yet;
  when the fetch settles, with a response that the validator does not throw on or with an
  error, and the continuations of the parked auctions complete, they run in queue order,
  each with the fetch status of the settlement, the queue is emptied and no timer stays
  armed;
  when an armed timer fires and the continuation completes, the continuation of its
  auction alone runs, with fetch status \<open>timeout\<close>, and the auction leaves the queue;
  a timer that is not armed (it fired, or was cleared) changes nothing;
  the armed timers are exactly those of the queued auctions; an auction is queued only
  while a fetch is in flight;
  and the continuation of every auction created so far has run exactly once, unless the
  auction is still queued, and then it has not run at all.
\<close>

lemma quiet_resumes_once:
  assumes q: "quiet initial events" and s: "s = run events"
  shows "(addedFloorsHook s \<and> 0 < auctionDelay s \<and> fetching s \<longrightarrow>
            delayedAuctions (step s (RequestBids body)) = delayedAuctions s @ [nextRef s] \<and>
            timers (step s (RequestBids body)) = timers s @ [nextRef s] \<and>
            continued (step s (RequestBids body)) = continued s)
       \<and> (fetching s \<and> (\<forall>ref\<in>set (delayedAuctions s). bodies ref = Completes) \<longrightarrow>
            (parseFloorData (allowed_fields s) fetchResponse \<noteq> Inl TypeError \<longrightarrow>
               continued (step s (FetchResponse fetchResponse bodies)) =
                 continued s @ map (\<lambda>ref. (ref, Some success)) (delayedAuctions s) \<and>
               delayedAuctions (step s (FetchResponse fetchResponse bodies)) = [] \<and>
               timers (step s (FetchResponse fetchResponse bodies)) = []) \<and>
            continued (step s (FetchError bodies)) =
              continued s @ map (\<lambda>ref. (ref, Some error)) (delayedAuctions s) \<and>
            delayedAuctions (step s (FetchError bodies)) = [] \<and>
            timers (step s (FetchError bodies)) = [])
       \<and> (h \<in> set (timers s) \<longrightarrow>
            continued (step s (TimerFires h Completes)) = continued s @ [(h, Some timeout)] \<and>
            delayedAuctions (step s (TimerFires h Completes)) =
              filter (\<lambda>ref. ref \<noteq> h) (delayedAuctions s) \<and>
            timers (step s (TimerFires h Completes)) = filter (\<lambda>armed. armed \<noteq> h) (timers s))
       \<and> (h \<notin> set (timers s) \<longrightarrow> step s (TimerFires h body) = s)
       \<and> set (timers s) = set (delayedAuctions s)
       \<and> distinct (delayedAuctions s)
       \<and> (delayedAuctions s \<noteq> [] \<longrightarrow> fetching s)
       \<and> (ref < nextRef s \<longrightarrow>
            count_list (map fst (continued s)) ref =
              (if ref \<in> set (delayedAuctions s) then 0 else 1))"
proof -
  have ok: "coordinated s"
    unfolding s run_def by (rule quiet_coordinated [OF initial_coordinated q])
  then have p: "parked_ok s" and f: "delayedAuctions s \<noteq> [] \<longrightarrow> fetching s"
    by (simp_all add: coordinated_def)
  note d = parked_okD [OF p]
  have parks: "addedFloorsHook s \<and> 0 < auctionDelay s \<and> fetching s \<longrightarrow>
            delayedAuctions (step s (RequestBids body)) = delayedAuctions s @ [nextRef s] \<and>
            timers (step s (RequestBids body)) = timers s @ [nextRef s] \<and>
            continued (step s (RequestBids body)) = continued s"
    using request_parks(3-5) [OF ok, of body] by (simp add: step_def)
  have settles: "fetching s \<and> (\<forall>ref\<in>set (delayedAuctions s). bodies ref = Completes) \<longrightarrow>
            (parseFloorData (allowed_fields s) fetchResponse \<noteq> Inl TypeError \<longrightarrow>
               continued (step s (FetchResponse fetchResponse bodies)) =
                 continued s @ map (\<lambda>ref. (ref, Some success)) (delayedAuctions s) \<and>
               delayedAuctions (step s (FetchResponse fetchResponse bodies)) = [] \<and>
               timers (step s (FetchResponse fetchResponse bodies)) = []) \<and>
            continued (step s (FetchError bodies)) =
              continued s @ map (\<lambda>ref. (ref, Some error)) (delayedAuctions s) \<and>
            delayedAuctions (step s (FetchError bodies)) = [] \<and>
            timers (step s (FetchError bodies)) = []"
  proof (intro impI, elim conjE)
    assume fe: "fetching s" and b: "\<forall>ref\<in>set (delayedAuctions s). bodies ref = Completes"
    from fetch_settles [OF ok b, of "Some success"] obtain s1 where s1:
      "resumeDelayedAuctions bodies (s\<lparr>fetching := False, fetchStatus := Some success\<rparr>) = Returned s1"
      "continued s1 = continued s @ map (\<lambda>a. (a, Some success)) (delayedAuctions s)"
      "delayedAuctions s1 = []" "timers s1 = []" by blast
    from fetch_settles [OF ok b, of "Some error"] obtain s2 where s2:
      "resumeDelayedAuctions bodies (s\<lparr>fetching := False, fetchStatus := Some error\<rparr>) = Returned s2"
      "continued s2 = continued s @ map (\<lambda>a. (a, Some error)) (delayedAuctions s)"
      "delayedAuctions s2 = []" "timers s2 = []" by blast
    have "parseFloorData (allowed_fields s) fetchResponse \<noteq> Inl TypeError \<longrightarrow>
        step s (FetchResponse fetchResponse bodies) = s1"
      using fe s1(1)
      by (cases "parseFloorData (allowed_fields s) fetchResponse")
        (auto simp: step_def handleFetchResponse_def Let_def intro: js_error.exhaust)
    moreover have "step s (FetchError bodies) = s2"
      using fe s2(1) by (simp add: step_def handleFetchError_def)
    ultimately show "(parseFloorData (allowed_fields s) fetchResponse \<noteq> Inl TypeError \<longrightarrow>
               continued (step s (FetchResponse fetchResponse bodies)) =
                 continued s @ map (\<lambda>ref. (ref, Some success)) (delayedAuctions s) \<and>
               delayedAuctions (step s (FetchResponse fetchResponse bodies)) = [] \<and>
               timers (step s (FetchResponse fetchResponse bodies)) = []) \<and>
            continued (step s (FetchError bodies)) =
              continued s @ map (\<lambda>ref. (ref, Some error)) (delayedAuctions s) \<and>
            delayedAuctions (step s (FetchError bodies)) = [] \<and>
            timers (step s (FetchError bodies)) = []"
      using s1(2-) s2(2-) by simp
  qed
  have fires: "h \<in> set (timers s) \<longrightarrow>
            continued (step s (TimerFires h Completes)) = continued s @ [(h, Some timeout)] \<and>
            delayedAuctions (step s (TimerFires h Completes)) =
              filter (\<lambda>ref. ref \<noteq> h) (delayedAuctions s) \<and>
            timers (step s (TimerFires h Completes)) = filter (\<lambda>armed. armed \<noteq> h) (timers s)"
    using timer_fires [OF ok, of h] by (auto simp: step_def)
  have idle: "h \<notin> set (timers s) \<longrightarrow> step s (TimerFires h body) = s"
    by (simp add: step_def timerFires_def)
  have once: "ref < nextRef s \<longrightarrow>
            count_list (map fst (continued s)) ref =
              (if ref \<in> set (delayedAuctions s) then 0 else 1)"
    using resumed_or_parked [OF p, of ref] by blast
  from parks settles fires idle d(3) d(1) f once show ?thesis by blast
qed


subsection \<open>The example runs, evaluated\<close>

lemmas coordinator_defs =
  run_def step_def initial_def handleSetFloorsConfig_def generateAndHandleFetch_def
  addFieldOverrides_def requestBidsHook_def timerFires_def continueAuction_def
  resumeDelayedAuctions_def handleFetchResponse_def handleFetchError_def clearTimeout_def
  timer_of_def parseFloorData_def Let_def

lemma sample_config_accepted:
  "isFloorsDataValid allowedFields sample_config =
     Inr (True, sample_config
       \<lparr>m_values := Rules [(''banner|300x250'', JNumber (Num (3/2))), (''*|*'', JNumber (Num (1/2)))],
        floorsSchemaVersion := Some 1\<rparr>)"
  by (simp add: isFloorsDataValid_def modelIsValid_def normalizeDefault_def
      validateSchemaFields_def validateRules_def isValidRule_def numFields_of_def Let_def
      sample_config_def empty_config_def allowedFields_def delimiter_of_def split_js_def)

lemma two_parked_state:
  "fetching (run two_parked)"
  "addedFloorsHook (run two_parked)"
  "auctionDelay (run two_parked) = 100"
  "fetchStatus (run two_parked) = None"
  "delayedAuctions (run two_parked) = [0, 1]"
  "timers (run two_parked) = [0, 1]"
  "continued (run two_parked) = []"
  "allowed_fields (run two_parked) = allowedFields"
  by (simp_all add: two_parked_def coordinator_defs)

lemma timed_out_first_state:
  "fetching (run timed_out_first)"
  "addedFloorsHook (run timed_out_first)"
  "auctionDelay (run timed_out_first) = 100"
  "delayedAuctions (run timed_out_first) = [1]"
  "timers (run timed_out_first) = [1]"
  "continued (run timed_out_first) = [(0, Some timeout)]"
  "nextRef (run timed_out_first) = 2"
  "allowed_fields (run timed_out_first) = allowedFields"
  by (simp_all add: timed_out_first_def two_parked_def coordinator_defs)

lemma null_values_fetched_state:
  "\<not> returns (react (run two_parked) (FetchResponse (Some null_values) (\<lambda>ref. Completes)))"
  "\<not> fetching (run null_values_fetched)"
  "fetchStatus (run null_values_fetched) = Some success"
  "delayedAuctions (run null_values_fetched) = [0, 1]"
  "timers (run null_values_fetched) = [0, 1]"
  "continued (run null_values_fetched) = []"
  "continued (run (null_values_fetched @ [TimerFires 0 Completes, TimerFires 1 Completes])) =
     [(0, Some timeout), (1, Some timeout)]"
  by (simp_all add: null_values_fetched_def two_parked_def coordinator_defs null_values_throw)

lemma sample_fetched_state:
  "returns (react (run two_parked) (FetchResponse (Some sample_config) (\<lambda>ref. Completes)))"
  "continued (run sample_fetched) = [(0, Some success), (1, Some success)]"
  "delayedAuctions (run sample_fetched) = []"
  "timers (run sample_fetched) = []"
  by (simp_all add: sample_fetched_def two_parked_def coordinator_defs sample_config_accepted)

lemma creation_thrown_state:
  "\<not> returns (react (run two_parked)
       (FetchError (\<lambda>ref. if ref = 0 then CreationThrows else Completes)))"
  "fetchStatus (run creation_thrown) = Some error"
  "delayedAuctions (run creation_thrown) = [1]"
  "timers (run creation_thrown) = [1]"
  "continued (run creation_thrown) = []"
  "continued (run (creation_thrown @ [TimerFires 0 Completes, TimerFires 1 Completes])) =
     [(1, Some timeout)]"
  by (simp_all add: creation_thrown_def two_parked_def coordinator_defs)


lemma timed_out_first_quiet: "quiet initial timed_out_first"
  by (simp add: timed_out_first_def two_parked_def coordinator_defs)

text \<open>
  The example run in which the timer of the first auction has fired and the second auction
  is still parked: a third auction would be parked behind the second, the fetch settling
  now with a good response resumes the second auction alone, with the fetched status, its
  timer firing now resumes it with \<open>timeout\<close>, and the timer of the first auction is
  spent.
\<close>

lemma quiet_resumes_once_example:
  "quiet initial timed_out_first \<and>
   delayedAuctions (step (run timed_out_first) (RequestBids Completes)) = [1, 2] \<and>
   continued (step (run timed_out_first) (RequestBids Completes)) = [(0, Some timeout)] \<and>
   continued (step (run timed_out_first) (FetchResponse (Some sample_config) (\<lambda>ref. Completes))) =
     [(0, Some timeout), (1, Some success)] \<and>
   timers (step (run timed_out_first) (FetchResponse (Some sample_config) (\<lambda>ref. Completes))) = [] \<and>
   continued (step (run timed_out_first) (TimerFires 1 Completes)) =
     [(0, Some timeout), (1, Some timeout)] \<and>
   delayedAuctions (step (run timed_out_first) (TimerFires 1 Completes)) = [] \<and>
   step (run timed_out_first) (TimerFires 0 Completes) = run timed_out_first \<and>
   count_list (map fst (continued (run timed_out_first))) 0 = 1 \<and>
   count_list (map fst (continued (run timed_out_first))) 1 = 0"
  using quiet_resumes_once [OF timed_out_first_quiet refl, where h = 1 and ref = 0
      and body = Completes and bodies = "\<lambda>ref. Completes"
      and fetchResponse = "Some sample_config"]
    quiet_resumes_once [OF timed_out_first_quiet refl, where h = 0 and ref = 1
      and body = Completes and bodies = "\<lambda>ref. Completes"
      and fetchResponse = "Some sample_config"]
  by (simp add: timed_out_first_state timed_out_first_quiet parseFloorData_def
      sample_config_accepted)

text \<open>
  C3 fails on the code when the handler of the fetch throws. An auction delay of 100 ms is
  configured with an endpoint, and two auctions are requested while the fetch is in
  flight: both are parked, with their timers armed. The fetch then settles with the
  response \<open>{"schema": {"fields": ["mediaType"]}, "values": null}\<close>. \<open>handleFetchResponse\<close>
  sets the fetch status to \<open>success\<close> and validates the response before it resumes the
  delayed auctions; \<open>Object.keys(null)\<close> throws in \<open>validateRules\<close>, nothing catches it,
  and \<open>resumeDelayedAuctions\<close> is not reached: the fetch has settled first, and yet both
  auctions stay in the queue with their timers armed and no continuation runs. They are
  resumed by their timers, with the fetch status \<open>timeout\<close>. With a response that the
  validator accepts, the same fetch resumes both auctions in queue order with the status
  \<open>success\<close> and leaves no timer armed.
  The same happens inside the loop of \<open>resumeDelayedAuctions\<close>: when the continuation of
  the first auction throws in \<open>createFloorsDataForAuction\<close>, its timer has been cleared and
  it has left the queue, so it is never resumed at all, and the second auction is left to
  its timer.
\<close>

theorem thrown_settlement_resumes_nothing:
  "fetching (run two_parked) \<and> auctionDelay (run two_parked) = 100 \<and>
   delayedAuctions (run two_parked) = [0, 1] \<and> timers (run two_parked) = [0, 1] \<and>
   continued (run two_parked) = [] \<and>
   isFloorsDataValid (allowed_fields (run two_parked)) null_values = Inl TypeError \<and>
   \<not> returns (react (run two_parked) (FetchResponse (Some null_values) (\<lambda>ref. Completes))) \<and>
   \<not> fetching (run null_values_fetched) \<and>
   fetchStatus (run null_values_fetched) = Some success \<and>
   delayedAuctions (run null_values_fetched) = [0, 1] \<and>
   timers (run null_values_fetched) = [0, 1] \<and>
   continued (run null_values_fetched) = [] \<and>
   continued (run (null_values_fetched @ [TimerFires 0 Completes, TimerFires 1 Completes])) =
     [(0, Some timeout), (1, Some timeout)] \<and>
   continued (run sample_fetched) = [(0, Some success), (1, Some success)] \<and>
   delayedAuctions (run sample_fetched) = [] \<and> timers (run sample_fetched) = [] \<and>
   \<not> returns (react (run two_parked)
       (FetchError (\<lambda>ref. if ref = 0 then CreationThrows else Completes))) \<and>
   delayedAuctions (run creation_thrown) = [1] \<and> timers (run creation_thrown) = [1] \<and>
   continued (run creation_thrown) = [] \<and>
   continued (run (creation_thrown @ [TimerFires 0 Completes, TimerFires 1 Completes])) =
     [(1, Some timeout)]"
proof -
  have thrown: "isFloorsDataValid (allowed_fields (run two_parked)) null_values = Inl TypeError"
    by (simp add: two_parked_state null_values_throw)
  show ?thesis
    by (intro conjI thrown two_parked_state null_values_fetched_state sample_fetched_state
        creation_thrown_state)
qed

end
